theory Spec2Isabelle
  imports Complex_Main "HOL-Library.Log_Nat"
begin

section \<open>JavaScript numbers\<close>

text \<open>
  The scripts compute with JavaScript numbers (IEEE 754 doubles). A number is \<open>NaN\<close> or
  a value of \<open>dbl\<close>: a finite double, taken as the real it denotes, or one of the two
  infinities. The sign of zero is not modelled: no operation of the scripts that is
  embedded here depends on it but a division by zero, which takes the zero as \<open>+0\<close>.
\<close>

datatype dbl = Fin real | PInf | NInf

datatype jsnum = NaN | Num dbl

text \<open>
  A quotient of finite doubles is rounded to the nearest double. \<open>rnd\<close> models which
  results leave the finite range, exactly as round-to-nearest-even does: a real of
  magnitude at least \<open>2^1024 - 2^970\<close> (the largest double plus half a unit in its last
  place) becomes an infinity, one of magnitude at most \<open>2^-1075\<close> (half the smallest
  subnormal) becomes zero. In between, the real is kept as it is: the loss of the last
  bits of the significand is not modelled.
\<close>

definition dbl_overflow :: real where
  "dbl_overflow = 2 ^ 1024 - 2 ^ 970"

definition dbl_underflow :: real where
  "dbl_underflow = 1 / 2 ^ 1075"

definition rnd :: "real \<Rightarrow> dbl" where
  "rnd x = (if dbl_overflow \<le> x then PInf
            else if x \<le> - dbl_overflow then NInf
            else if \<bar>x\<bar> \<le> dbl_underflow then Fin 0
            else Fin x)"

text \<open>The operator \<open>/\<close> on numbers.\<close>

fun jsdiv :: "jsnum \<Rightarrow> jsnum \<Rightarrow> jsnum" where
  "jsdiv NaN y = NaN"
| "jsdiv (Num a) NaN = NaN"
| "jsdiv (Num (Fin a)) (Num (Fin b)) =
     (if b = 0 then (if a = 0 then NaN else if 0 < a then Num PInf else Num NInf)
      else Num (rnd (a / b)))"
| "jsdiv (Num (Fin a)) (Num PInf) = Num (Fin 0)"
| "jsdiv (Num (Fin a)) (Num NInf) = Num (Fin 0)"
| "jsdiv (Num PInf) (Num (Fin b)) = (if 0 \<le> b then Num PInf else Num NInf)"
| "jsdiv (Num NInf) (Num (Fin b)) = (if 0 \<le> b then Num NInf else Num PInf)"
| "jsdiv (Num PInf) (Num PInf) = NaN"
| "jsdiv (Num PInf) (Num NInf) = NaN"
| "jsdiv (Num NInf) (Num PInf) = NaN"
| "jsdiv (Num NInf) (Num NInf) = NaN"

text \<open>The test \<open>x > 0\<close>: false on \<open>NaN\<close>.\<close>

fun gt0 :: "jsnum \<Rightarrow> bool" where
  "gt0 NaN = False"
| "gt0 (Num (Fin a)) = (0 < a)"
| "gt0 (Num PInf) = True"
| "gt0 (Num NInf) = False"

text \<open>\<open>x || 0\<close> on a number: \<open>NaN\<close> and zero are falsy.\<close>

definition or_zero :: "jsnum \<Rightarrow> jsnum" where
  "or_zero x = (if x = NaN \<or> x = Num (Fin 0) then Num (Fin 0) else x)"

fun is_finite :: "jsnum \<Rightarrow> bool" where
  "is_finite (Num (Fin a)) = True"
| "is_finite x = False"

text \<open>
  Where a claim states the value of an arithmetic expression (the cost estimate of the
  classifier), every operation is rounded as the machine rounds it. \<open>fl x\<close> is the
  double nearest to the real \<open>x\<close>, a tie going to the even significand: with \<open>e\<close> the
  exponent of \<open>x\<close> (\<open>2^e \<le> |x| < 2^(e+1)\<close>, and at least \<open>-1022\<close>, where the subnormal
  numbers start), \<open>x\<close> is rounded to a multiple of \<open>2^(e-52)\<close>; a result of magnitude
  \<open>2^1024\<close> is an infinity. \<open>fl\<close> sends to an infinity and to zero the same reals as
  \<open>rnd\<close>.
\<close>

definition binade :: "real \<Rightarrow> int" where
  "binade x = (if 1 \<le> \<bar>x\<bar> then bitlen \<lfloor>\<bar>x\<bar>\<rfloor> - 1 else - bitlen (\<lceil>1 / \<bar>x\<bar>\<rceil> - 1))"

definition round_half_even :: "real \<Rightarrow> int" where
  "round_half_even q =
     (let f = \<lfloor>q\<rfloor>; d = q - of_int f
      in if d < 1 / 2 then f else if 1 / 2 < d then f + 1 else if even f then f else f + 1)"

definition fl :: "real \<Rightarrow> dbl" where
  "fl x =
    (if x = 0 then Fin 0
     else let e = max (binade x) (- 1022);
              y = of_int (round_half_even (x / 2 powi (e - 52))) * 2 powi (e - 52)
          in if 2 ^ 1024 \<le> \<bar>y\<bar> then (if 0 < x then PInf else NInf) else Fin y)"

text \<open>The operators \<open>/\<close>, \<open>*\<close> and \<open>+\<close> on numbers, with the result rounded by \<open>fl\<close>.\<close>

fun fl_div :: "jsnum \<Rightarrow> jsnum \<Rightarrow> jsnum" where
  "fl_div NaN y = NaN"
| "fl_div (Num a) NaN = NaN"
| "fl_div (Num (Fin a)) (Num (Fin b)) =
     (if b = 0 then (if a = 0 then NaN else if 0 < a then Num PInf else Num NInf)
      else Num (fl (a / b)))"
| "fl_div (Num (Fin a)) (Num PInf) = Num (Fin 0)"
| "fl_div (Num (Fin a)) (Num NInf) = Num (Fin 0)"
| "fl_div (Num PInf) (Num (Fin b)) = (if 0 \<le> b then Num PInf else Num NInf)"
| "fl_div (Num NInf) (Num (Fin b)) = (if 0 \<le> b then Num NInf else Num PInf)"
| "fl_div (Num PInf) (Num PInf) = NaN"
| "fl_div (Num PInf) (Num NInf) = NaN"
| "fl_div (Num NInf) (Num PInf) = NaN"
| "fl_div (Num NInf) (Num NInf) = NaN"

fun fl_mul :: "jsnum \<Rightarrow> jsnum \<Rightarrow> jsnum" where
  "fl_mul NaN y = NaN"
| "fl_mul (Num a) NaN = NaN"
| "fl_mul (Num (Fin a)) (Num (Fin b)) = Num (fl (a * b))"
| "fl_mul (Num (Fin a)) (Num PInf) = (if a = 0 then NaN else if 0 < a then Num PInf else Num NInf)"
| "fl_mul (Num (Fin a)) (Num NInf) = (if a = 0 then NaN else if 0 < a then Num NInf else Num PInf)"
| "fl_mul (Num PInf) (Num (Fin b)) = (if b = 0 then NaN else if 0 < b then Num PInf else Num NInf)"
| "fl_mul (Num NInf) (Num (Fin b)) = (if b = 0 then NaN else if 0 < b then Num NInf else Num PInf)"
| "fl_mul (Num PInf) (Num PInf) = Num PInf"
| "fl_mul (Num PInf) (Num NInf) = Num NInf"
| "fl_mul (Num NInf) (Num PInf) = Num NInf"
| "fl_mul (Num NInf) (Num NInf) = Num PInf"

fun fl_add :: "jsnum \<Rightarrow> jsnum \<Rightarrow> jsnum" where
  "fl_add NaN y = NaN"
| "fl_add (Num a) NaN = NaN"
| "fl_add (Num (Fin a)) (Num (Fin b)) = Num (fl (a + b))"
| "fl_add (Num (Fin a)) (Num PInf) = Num PInf"
| "fl_add (Num (Fin a)) (Num NInf) = Num NInf"
| "fl_add (Num PInf) (Num (Fin b)) = Num PInf"
| "fl_add (Num NInf) (Num (Fin b)) = Num NInf"
| "fl_add (Num PInf) (Num PInf) = Num PInf"
| "fl_add (Num PInf) (Num NInf) = NaN"
| "fl_add (Num NInf) (Num PInf) = NaN"
| "fl_add (Num NInf) (Num NInf) = Num NInf"

section \<open>The search term report (scripts/search-term.js)\<close>

text \<open>
  A row of the report, as \<open>calculateMetrics\<close> reads it: the three dimension fields,
  and for the five metric fields the number that \<open>parseInt(field, 10)\<close> (impressions,
  clicks, cost_micros) or \<open>parseFloat(field)\<close> (conversions, conversions_value)
  returns. Both parsers return \<open>NaN\<close> for a missing field and for text that does not
  start with a number; \<open>parseFloat\<close> returns an infinity for the text \<open>Infinity\<close>.
\<close>

record report_row =
  search_term :: string
  campaign_name :: string
  ad_group_name :: string
  parsed_impressions :: jsnum
  parsed_clicks :: jsnum
  parsed_cost_micros :: jsnum
  parsed_conversions :: jsnum
  parsed_conversions_value :: jsnum

text \<open>
  The array \<open>newRow\<close> that is pushed for a row, one field per column, in the order of
  the source: searchTerm, campaign, adGroup, impressions, clicks, cost, conversions,
  conversionValue, cpc, ctr, convRate, cpa, roas, aov.
\<close>

record metrics_row =
  searchTerm :: string
  campaign :: string
  adGroup :: string
  impressions :: jsnum
  clicks :: jsnum
  cost :: jsnum
  conversions :: jsnum
  conversionValue :: jsnum
  cpc :: jsnum
  ctr :: jsnum
  convRate :: jsnum
  cpa :: jsnum
  roas :: jsnum
  aov :: jsnum

definition newRow :: "report_row \<Rightarrow> metrics_row" where
  "newRow row =
    (let impressions = or_zero (parsed_impressions row);
         clicks = or_zero (parsed_clicks row);
         costMicros = or_zero (parsed_cost_micros row);
         conversions = or_zero (parsed_conversions row);
         conversionValue = or_zero (parsed_conversions_value row);
         cost = jsdiv costMicros (Num (Fin 1000000))
     in \<lparr> searchTerm = search_term row,
          campaign = campaign_name row,
          adGroup = ad_group_name row,
          impressions = impressions,
          clicks = clicks,
          cost = cost,
          conversions = conversions,
          conversionValue = conversionValue,
          cpc = (if gt0 clicks then jsdiv cost clicks else Num (Fin 0)),
          ctr = (if gt0 impressions then jsdiv clicks impressions else Num (Fin 0)),
          convRate = (if gt0 clicks then jsdiv conversions clicks else Num (Fin 0)),
          cpa = (if gt0 conversions then jsdiv cost conversions else Num (Fin 0)),
          roas = (if gt0 cost then jsdiv conversionValue cost else Num (Fin 0)),
          aov = (if gt0 conversions then jsdiv conversionValue conversions else Num (Fin 0)) \<rparr>)"

text \<open>The loop \<open>while (rows.hasNext())\<close> pushes one \<open>newRow\<close> for each row, in order.\<close>

fun calculateMetrics :: "report_row list \<Rightarrow> metrics_row list" where
  "calculateMetrics [] = []"
| "calculateMetrics (row # rows) = newRow row # calculateMetrics rows"

section \<open>JavaScript values, errors and strings\<close>

text \<open>
  The value of a property of a parsed JSON object, or of a property a script sets. A
  property that the object lacks reads as \<open>Undefined\<close>. A parsed number is never
  \<open>NaN\<close> (\<open>JSON.parse\<close> yields finite doubles, and an infinity for a literal beyond
  the double range). \<open>Object s\<close> is any array or object; \<open>s\<close> is the text that
  \<open>String()\<close> gives for it.
\<close>

datatype jsval = Undefined | Null | Bool bool | Number dbl | Str string | Object string

text \<open>Truthiness, as \<open>!x\<close> and \<open>x || y\<close> read it.\<close>

fun truthy :: "jsval \<Rightarrow> bool" where
  "truthy Undefined = False"
| "truthy Null = False"
| "truthy (Bool b) = b"
| "truthy (Number (Fin a)) = (a \<noteq> 0)"
| "truthy (Number PInf) = True"
| "truthy (Number NInf) = True"
| "truthy (Str s) = (s \<noteq> [])"
| "truthy (Object s) = True"

definition js_or :: "jsval \<Rightarrow> jsval \<Rightarrow> jsval" where
  "js_or x y = (if truthy x then x else y)"

text \<open>
  A template literal \<open>${v}\<close> renders a value as \<open>String(v)\<close>. The decimal text of a
  number is the built-in \<open>Number.prototype.toString\<close>, taken as the parameter \<open>nstr\<close>.
\<close>

fun js_String :: "(dbl \<Rightarrow> string) \<Rightarrow> jsval \<Rightarrow> string" where
  "js_String nstr Undefined = ''undefined''"
| "js_String nstr Null = ''null''"
| "js_String nstr (Bool b) = (if b then ''true'' else ''false'')"
| "js_String nstr (Number d) = nstr d"
| "js_String nstr (Str s) = s"
| "js_String nstr (Object s) = s"

text \<open>
  A thrown value: an error object, by its class and its message. \<open>Exception\<close> is what
  the Apps Script services throw (\<open>UrlFetchApp.fetch\<close> on a network failure). The
  messages of the built-in errors are the engine's text, which the scripts never
  inspect; the embedding abbreviates them.
\<close>

datatype js_error = Error string | TypeError string | SyntaxError string | Exception string

fun error_name :: "js_error \<Rightarrow> string" where
  "error_name (Error m) = ''Error''"
| "error_name (TypeError m) = ''TypeError''"
| "error_name (SyntaxError m) = ''SyntaxError''"
| "error_name (Exception m) = ''Exception''"

fun error_message :: "js_error \<Rightarrow> string" where
  "error_message (Error m) = m"
| "error_message (TypeError m) = m"
| "error_message (SyntaxError m) = m"
| "error_message (Exception m) = m"

text \<open>\<open>Error.prototype.toString\<close>: the name alone when the message is empty.\<close>

definition toString :: "js_error \<Rightarrow> string" where
  "toString e = (if error_message e = [] then error_name e
                 else error_name e @ '': '' @ error_message e)"

text \<open>
  A string is a list of characters up to U+00FF. On these, \<open>s.includes(sub)\<close>,
  \<open>xs.join(sep)\<close>, \<open>s.toLowerCase()\<close> (the capitals \<open>A\<close> to \<open>Z\<close> and U+00C0 to U+00DE
  but the sign U+00D7 have a small letter, 32 places on) and \<open>s.trim()\<close> (the white
  space and the line ends are U+0009 to U+000D, the space and the no-break space
  U+00A0).
\<close>

fun str_includes :: "string \<Rightarrow> string \<Rightarrow> bool" where
  "str_includes [] sub = (sub = [])"
| "str_includes (c # cs) sub = (take (length sub) (c # cs) = sub \<or> str_includes cs sub)"

fun join :: "string \<Rightarrow> string list \<Rightarrow> string" where
  "join sep [] = []"
| "join sep [x] = x"
| "join sep (x # y # ys) = x @ sep @ join sep (y # ys)"

definition lower_char :: "char \<Rightarrow> char" where
  "lower_char c =
     (let n = (of_char c :: nat)
      in if (65 \<le> n \<and> n \<le> 90) \<or> (192 \<le> n \<and> n \<le> 222 \<and> n \<noteq> 215) then char_of (n + 32)
         else c)"

definition toLowerCase :: "string \<Rightarrow> string" where
  "toLowerCase s = map lower_char s"

definition is_space :: "char \<Rightarrow> bool" where
  "is_space c = ((of_char c :: nat) \<in> {9, 10, 11, 12, 13, 32, 160})"

definition trim :: "string \<Rightarrow> string" where
  "trim s = rev (dropWhile is_space (rev (dropWhile is_space s)))"

text \<open>The decimal digits of a natural number, as a template literal renders it.\<close>

fun digits :: "nat \<Rightarrow> nat \<Rightarrow> string" where
  "digits 0 n = []"
| "digits (Suc fuel) n =
     (if n < 10 then [char_of (48 + n)]
      else digits fuel (n div 10) @ [char_of (48 + n mod 10)])"

definition string_of_nat :: "nat \<Rightarrow> string" where
  "string_of_nat n = digits (Suc n) n"

section \<open>The classifier (scripts/v2/classify-with-3-models.js): configuration\<close>

definition CATEGORIES :: "string list" where
  "CATEGORIES = [''INFORMATIONAL'', ''NAVIGATIONAL'', ''COMMERCIAL'', ''LOCAL'', ''QUESTION'']"

definition MAX_RETRIES :: nat where
  "MAX_RETRIES = 3"

text \<open>
  A pair of an input and an output quantity: the token totals (\<open>tokenCounts\<close>), and a
  price per million tokens (\<open>costs.standard\<close>, \<open>costs.cheap\<close>).
\<close>

record 'a in_out =
  input' :: 'a
  output' :: 'a

record model_entry =
  standard :: string
  cheap :: string
  costs_standard :: "real in_out"
  costs_cheap :: "real in_out"

text \<open>
  The outcome of the lookup \<open>MODELS[name]\<close>. The table is an object literal, so the
  lookup also finds what every object inherits from \<open>Object.prototype\<close>: an object that
  is truthy and has none of the properties \<open>standard\<close>, \<open>cheap\<close> and \<open>costs\<close>. The script
  looks up a lower-cased name, and the inherited properties written without a capital
  are \<open>constructor\<close> and \<open>__proto__\<close>.
\<close>

datatype 'a lookup = Own 'a | Inherited | Missing

definition MODELS :: "string \<Rightarrow> model_entry lookup" where
  "MODELS name =
    (if name = ''openai'' then
       Own \<lparr> standard = ''gpt-4-1106-preview'', cheap = ''o4-mini-2025-04-16'',
             costs_standard = \<lparr> input' = 2.0, output' = 8.0 \<rparr>,
             costs_cheap = \<lparr> input' = 1.10, output' = 4.40 \<rparr> \<rparr>
     else if name = ''anthropic'' then
       Own \<lparr> standard = ''claude-3-7-sonnet-latest'', cheap = ''claude-3-5-haiku-latest'',
             costs_standard = \<lparr> input' = 3.0, output' = 15.0 \<rparr>,
             costs_cheap = \<lparr> input' = 0.8, output' = 4.0 \<rparr> \<rparr>
     else if name = ''gemini'' then
       Own \<lparr> standard = ''gemini-2.5-pro-preview-03-25'', cheap = ''gemini-2.0-flash'',
             costs_standard = \<lparr> input' = 1.25, output' = 10.0 \<rparr>,
             costs_cheap = \<lparr> input' = 0.15, output' = 0.6 \<rparr> \<rparr>
     else if name = ''constructor'' \<or> name = ''__proto__'' then Inherited
     else Missing)"

text \<open>\<open>let tokenCounts = { input: 0, output: 0 }\<close>: the totals when a run starts.\<close>

definition tokenCounts_initial :: "nat in_out" where
  "tokenCounts_initial = \<lparr> input' = 0, output' = 0 \<rparr>"

text \<open>
  The spreadsheet, by its named ranges: the text of the cell of a one-cell range
  (\<open>getRangeByName(n).getValue()\<close>) and the texts of the cells of a range, row by row
  (\<open>getRangeByName(n).getValues().flat()\<close>). A name with no range gives \<open>None\<close>
  (\<open>getRangeByName\<close> returns null). Cells are taken as text; an empty cell is the
  empty text.
\<close>

record spreadsheet =
  range_value :: "string \<Rightarrow> string option"
  range_values :: "string \<Rightarrow> string list option"

record settings =
  model :: string
  use_cheap :: bool
  topTerms :: "string list"

text \<open>
  \<open>readAndValidateSettings\<close>. The field \<open>use_cheap\<close> is the source's \<open>settings.cheap\<close>.
  Reading a range that does not exist throws a TypeError.
\<close>

definition readAndValidateSettings :: "spreadsheet \<Rightarrow> js_error + settings" where
  "readAndValidateSettings sheet =
    (case range_value sheet ''model'' of
       None \<Rightarrow> Inl (TypeError ''Cannot read properties of null (reading getValue)'')
     | Some modelCell \<Rightarrow>
    (case range_value sheet ''cheap'' of
       None \<Rightarrow> Inl (TypeError ''Cannot read properties of null (reading getValue)'')
     | Some cheapCell \<Rightarrow>
    (case range_values sheet ''topTerms'' of
       None \<Rightarrow> Inl (TypeError ''Cannot read properties of null (reading getValues)'')
     | Some cells \<Rightarrow>
       let s0 = \<lparr> model = toLowerCase modelCell,
                   use_cheap = (toLowerCase cheapCell = ''true''),
                   topTerms = filter (\<lambda>t. trim t \<noteq> []) cells \<rparr>;
           s = (if model s0 = ''google'' then s0\<lparr> model := ''gemini'' \<rparr> else s0)
       in if MODELS (model s) = Missing then Inl (Error ''Invalid model'')
          else if length (topTerms s) = 0 then Inl (Error ''No search terms found'')
          else Inr s)))"

text \<open>\<open>getAPIKey\<close>: the account's own key when it is there, else the shared one.\<close>

definition getAPIKey :: "spreadsheet \<Rightarrow> string \<Rightarrow> js_error + string" where
  "getAPIKey sheet m =
    (let mikeKey = (case range_value sheet (''mike_key_'' @ m) of None \<Rightarrow> [] | Some k \<Rightarrow> k);
         regularKey = (case range_value sheet (''key_'' @ m) of None \<Rightarrow> [] | Some k \<Rightarrow> k);
         key = (if mikeKey \<noteq> [] then mikeKey else regularKey)
     in if key = [] then Inl (Error (''No API key found for '' @ m)) else Inr key)"

section \<open>The classifier: one provider call\<close>

text \<open>
  An object that holds a classification: the object parsed from the model's answer,
  which \<open>validateResponse\<close> returns, and the result objects that \<open>classifyTerms\<close> builds
  from it. It is given by the five properties that the script ever reads from such an
  object (\<open>term'\<close> is the property \<open>term\<close>); a property the object lacks is
  \<open>Undefined\<close>.
\<close>

record result =
  category :: jsval
  confidence :: jsval
  term' :: jsval
  duration :: jsval
  error :: jsval

text \<open>\<open>CATEGORIES.includes(v)\<close>: an element of the array is a string.\<close>

definition CATEGORIES_includes :: "jsval \<Rightarrow> bool" where
  "CATEGORIES_includes v = (v \<in> Str ` set CATEGORIES)"

text \<open>The second test of \<open>validateResponse\<close>: not a number, or below 0, or above 1.\<close>

fun bad_confidence :: "jsval \<Rightarrow> bool" where
  "bad_confidence (Number (Fin a)) = (a < 0 \<or> 1 < a)"
| "bad_confidence (Number PInf) = True"
| "bad_confidence (Number NInf) = True"
| "bad_confidence v = True"

definition validateResponse :: "(dbl \<Rightarrow> string) \<Rightarrow> result \<Rightarrow> js_error + result" where
  "validateResponse nstr r =
    (if \<not> truthy (category r) \<or> \<not> CATEGORIES_includes (category r)
     then Inl (Error (''Invalid category: '' @ js_String nstr (category r)))
     else if bad_confidence (confidence r)
     then Inr (r\<lparr> confidence := Number (Fin 0.5) \<rparr>)
     else Inr r)"

text \<open>
  The usage object that \<open>extractResponse\<close> builds: a property is \<open>None\<close> when the
  provider's answer lacks it. Token counts are natural numbers.
\<close>

record usage =
  inputTokens :: "nat option"
  outputTokens :: "nat option"

fun or_0 :: "nat option \<Rightarrow> nat" where
  "or_0 None = 0"
| "or_0 (Some n) = n"

fun updateTokenCounts :: "usage option \<Rightarrow> nat in_out \<Rightarrow> nat in_out" where
  "updateTokenCounts None tokenCounts = tokenCounts"
| "updateTokenCounts (Some u) tokenCounts =
     \<lparr> input' = input' tokenCounts + or_0 (inputTokens u),
       output' = output' tokenCounts + or_0 (outputTokens u) \<rparr>"

text \<open>
  The body of a provider's answer after \<open>JSON.parse\<close>, by what the three
  \<open>extractResponse\<close> functions read from it. A text path
  (\<open>data.choices[0].message.content\<close>, \<open>data.content[0].text\<close>,
  \<open>data.candidates[0].content.parts[0].text\<close>) either throws a TypeError, when a
  property on the way is undefined or null, or gives a value. The objects \<open>data.usage\<close>
  and \<open>data.usageMetadata\<close> are \<open>None\<close> when undefined or null; a count in them is
  \<open>None\<close> when the property is absent.
\<close>

record usage_object =
  prompt_tokens :: "nat option"
  completion_tokens :: "nat option"
  input_tokens :: "nat option"
  output_tokens :: "nat option"
  promptTokenCount :: "nat option"
  candidatesTokenCount :: "nat option"

record api_data =
  choices_0_message_content :: "js_error + jsval"
  content_0_text :: "js_error + jsval"
  candidates_0_content_parts_0_text :: "js_error + jsval"
  data_usage :: "usage_object option"
  data_usageMetadata :: "usage_object option"

datatype provider = openai | anthropic | gemini

text \<open>
  The object that \<open>createPayload\<close> builds and \<open>JSON.stringify\<close> serialises, as a tree.
\<close>

datatype json = JString string | JNumber nat | JArray "json list" | JObject "(string \<times> json) list"

record endpoint =
  url :: string
  headers :: "(string \<times> string) list"

definition endpoints :: "provider \<Rightarrow> string \<Rightarrow> string \<Rightarrow> endpoint" where
  "endpoints p apiKey modelConfig =
    (case p of
       openai \<Rightarrow> \<lparr> url = ''https://api.openai.com/v1/chat/completions'',
                    headers = [(''Authorization'', ''Bearer '' @ apiKey)] \<rparr>
     | anthropic \<Rightarrow> \<lparr> url = ''https://api.anthropic.com/v1/messages'',
                       headers = [(''x-api-key'', apiKey)] \<rparr>
     | gemini \<Rightarrow> \<lparr> url = ''https://generativelanguage.googleapis.com/v1beta/models/''
                           @ modelConfig @ '':generateContent?key='' @ apiKey,
                    headers = [] \<rparr>)"

definition createPayload :: "provider \<Rightarrow> string \<Rightarrow> string \<Rightarrow> json" where
  "createPayload p modelConfig prompt =
    (case p of
       openai \<Rightarrow>
         JObject [(''model'', JString modelConfig),
                  (''messages'', JArray [JObject [(''role'', JString ''user''),
                                                  (''content'', JString prompt)]])]
     | anthropic \<Rightarrow>
         JObject [(''messages'', JArray [JObject [(''role'', JString ''user''),
                                                  (''content'', JString prompt)]]),
                  (''model'', JString modelConfig),
                  (''max_tokens'', JNumber 500)]
     | gemini \<Rightarrow>
         JObject [(''contents'', JArray [JObject [(''parts'',
                                          JArray [JObject [(''text'', JString prompt)]])]]),
                  (''generationConfig'', JObject [(''maxOutputTokens'', JNumber 500)])])"

definition extractResponse :: "provider \<Rightarrow> api_data \<Rightarrow> js_error + (jsval \<times> usage)" where
  "extractResponse p data =
    (case p of
       openai \<Rightarrow>
         (case choices_0_message_content data of
            Inl e \<Rightarrow> Inl e
          | Inr text \<Rightarrow>
              (case data_usage data of
                 None \<Rightarrow> Inl (TypeError ''Cannot read properties of undefined (reading prompt_tokens)'')
               | Some u \<Rightarrow> Inr (text, \<lparr> inputTokens = prompt_tokens u,
                                        outputTokens = completion_tokens u \<rparr>)))
     | anthropic \<Rightarrow>
         (case content_0_text data of
            Inl e \<Rightarrow> Inl e
          | Inr text \<Rightarrow>
              (case data_usage data of
                 None \<Rightarrow> Inl (TypeError ''Cannot read properties of undefined (reading input_tokens)'')
               | Some u \<Rightarrow> Inr (text, \<lparr> inputTokens = input_tokens u,
                                        outputTokens = output_tokens u \<rparr>)))
     | gemini \<Rightarrow>
         (case candidates_0_content_parts_0_text data of
            Inl e \<Rightarrow> Inl e
          | Inr text \<Rightarrow>
              Inr (text,
                \<lparr> inputTokens =
                    Some (case data_usageMetadata data of None \<Rightarrow> 0
                          | Some u \<Rightarrow> or_0 (promptTokenCount u)),
                  outputTokens =
                    Some (case data_usageMetadata data of None \<Rightarrow> 0
                          | Some u \<Rightarrow> or_0 (candidatesTokenCount u)) \<rparr>)))"

text \<open>
  The provider is found from the model's name; a name of no provider throws.
\<close>

definition modelType :: "string \<Rightarrow> js_error + provider" where
  "modelType modelConfig =
    (if str_includes modelConfig ''gemini'' then Inr gemini
     else if str_includes modelConfig ''claude'' then Inr anthropic
     else if str_includes modelConfig ''gpt'' \<or> str_includes modelConfig ''o4-mini'' then Inr openai
     else Inl (Error (''Unknown model type: '' @ modelConfig)))"

definition newline :: string where
  "newline = [CHR 0x0A]"

definition quote :: string where
  "quote = [CHR 0x22]"

definition createClassificationPrompt :: "string \<Rightarrow> string" where
  "createClassificationPrompt t =
     ''Classify the following search term into exactly one of these categories: '' @ newline @
     ''  '' @ join '', '' CATEGORIES @ newline @
     ''  '' @ newline @
     ''  Search term: '' @ quote @ t @ quote @ newline @
     ''  '' @ newline @
     ''  Respond with ONLY a JSON object in this EXACT format:'' @ newline @
     ''  {'' @ newline @
     ''    '' @ quote @ ''category'' @ quote @ '': '' @ quote @ ''ONE_OF_THE_CATEGORIES_ABOVE'' @ quote @ '','' @ newline @
     ''    '' @ quote @ ''confidence'' @ quote @ '': 0.XX (a number between 0 and 1)'' @ newline @
     ''  }''"

text \<open>
  \<open>text.match(/\{[\s\S]*\}/)\<close>: the match runs from the first opening brace to the
  last closing brace after it; there is none when no closing brace follows the first
  opening one.
\<close>

definition match_braces :: "string \<Rightarrow> string option" where
  "match_braces s =
    (case dropWhile (\<lambda>c. c \<noteq> CHR ''{'') s of
       [] \<Rightarrow> None
     | c # rest \<Rightarrow>
         (case rev (dropWhile (\<lambda>c. c \<noteq> CHR ''}'') (rev rest)) of
            [] \<Rightarrow> None
          | body \<Rightarrow> Some (c # body)))"

text \<open>The call \<open>UrlFetchApp.fetch(url, options)\<close>, by its arguments.\<close>

record request =
  request_url :: string
  method' :: string
  request_headers :: "(string \<times> string) list"
  contentType :: string
  muteHttpExceptions :: bool
  payload :: json

record http_response =
  getResponseCode :: nat
  getContentText :: string

text \<open>
  What lies outside the script. \<open>fetch n req\<close> is the outcome of the call of
  \<open>UrlFetchApp.fetch\<close> that follows \<open>n\<close> earlier ones: it throws or returns a
  response, after a time in milliseconds. \<open>JSON.parse\<close> is used at two types: on the
  body of the provider's answer and on the braces matched in the model's text; each
  throws a SyntaxError or returns the parsed object. \<open>number_toString\<close> is the decimal
  text of a number.
\<close>

record env =
  fetch :: "nat \<Rightarrow> request \<Rightarrow> (js_error + http_response) \<times> nat"
  JSON_parse_data :: "string \<Rightarrow> js_error + api_data"
  JSON_parse_result :: "string \<Rightarrow> js_error + result"
  number_toString :: "dbl \<Rightarrow> string"

text \<open>
  The state a provider call changes: the module's \<open>tokenCounts\<close>, and the requests
  sent so far, the latest last.
\<close>

record call_state =
  tokenCounts :: "nat in_out"
  requests :: "request list"

text \<open>
  The arguments of the fetch of \<open>classifyTerm\<close>: \<open>config.url\<close>, and the options with
  \<open>config.headers\<close> and the payload that \<open>config.createPayload(prompt)\<close> builds.
\<close>

definition fetch_request :: "provider \<Rightarrow> string \<Rightarrow> string \<Rightarrow> string \<Rightarrow> request" where
  "fetch_request p t apiKey modelConfig =
    (let config = endpoints p apiKey modelConfig;
         prompt = createClassificationPrompt t
     in \<lparr> request_url = url config,
          method' = ''POST'',
          request_headers = headers config,
          contentType = ''application/json'',
          muteHttpExceptions = True,
          payload = createPayload p modelConfig prompt \<rparr>)"

text \<open>
  \<open>classifyTerm\<close> returns what the call returns or throws, the time the call took in
  milliseconds (that of its fetch, if it made one), and the state after it.
\<close>

definition classifyTerm ::
  "env \<Rightarrow> string \<Rightarrow> string \<Rightarrow> string \<Rightarrow> call_state \<Rightarrow> (js_error + result) \<times> nat \<times> call_state" where
  "classifyTerm E t apiKey modelConfig st =
    (case modelType modelConfig of
       Inl e \<Rightarrow> (Inl e, 0, st)
     | Inr p \<Rightarrow>
        let req = fetch_request p t apiKey modelConfig;
            st1 = st\<lparr> requests := requests st @ [req] \<rparr>
        in (case fetch E (length (requests st)) req of
             (Inl e, ms) \<Rightarrow> (Inl e, ms, st1)
           | (Inr response, ms) \<Rightarrow>
               if getResponseCode response \<noteq> 200
               then (Inl (Error (''API error ('' @ string_of_nat (getResponseCode response)
                                  @ ''): '' @ getContentText response)), ms, st1)
               else
                 (case JSON_parse_data E (getContentText response) of
                    Inl e \<Rightarrow> (Inl e, ms, st1)
                  | Inr data \<Rightarrow>
                 (case extractResponse p data of
                    Inl e \<Rightarrow> (Inl e, ms, st1)
                  | Inr (text, u) \<Rightarrow>
                     let st2 = st1\<lparr> tokenCounts := updateTokenCounts (Some u) (tokenCounts st1) \<rparr>
                     in (case text of
                           Str s \<Rightarrow>
                             (case match_braces s of
                                None \<Rightarrow> (Inl (Error ''No JSON found in response''), ms, st2)
                              | Some m \<Rightarrow>
                                  (case JSON_parse_result E m of
                                     Inl e \<Rightarrow> (Inl e, ms, st2)
                                   | Inr r \<Rightarrow> (validateResponse (number_toString E) r, ms, st2)))
                         | other \<Rightarrow> (Inl (TypeError ''text.match is not a function''), ms, st2))))))"

section \<open>The classifier: retries, results and costs\<close>

text \<open>
  A classify function, as \<open>classifyTerms\<close> calls it: from the term, the API key and
  the model version (\<open>None\<close> when undefined) it returns a result or throws, takes a
  time in milliseconds (the difference of the two \<open>Date.now()\<close>), and changes a state
  of its own.
\<close>

type_synonym 's classifier =
  "string \<Rightarrow> string \<Rightarrow> string option \<Rightarrow> 's \<Rightarrow> (js_error + result) \<times> nat \<times> 's"

text \<open>
  \<open>getClassifierFunction\<close> returns a function that calls \<open>classifyTerm\<close>. With an
  undefined model version \<open>classifyTerm\<close> throws at \<open>modelConfig.includes\<close>.
\<close>

definition getClassifierFunction :: "env \<Rightarrow> string \<Rightarrow> call_state classifier" where
  "getClassifierFunction E m =
    (\<lambda>t apiKey modelVersion st.
       case modelVersion of
         None \<Rightarrow> (Inl (TypeError ''Cannot read properties of undefined (reading includes)''), 0, st)
       | Some v \<Rightarrow> classifyTerm E t apiKey v st)"

text \<open>
  The state of a run: the arguments of \<open>Utilities.sleep\<close> so far, in milliseconds and
  the latest last, and the state of the classify function.
\<close>

record 's run_state =
  slept :: "nat list"
  calls :: 's

text \<open>
  The loop \<open>for (let attempt = 0; attempt < MAX_RETRIES; attempt++)\<close> for one term, from
  a value of \<open>attempt\<close> on; the bound is the parameter \<open>maxAttempts\<close>. The result is
  \<open>None\<close> when the loop ends without a \<open>return\<close>.
\<close>

function attempts ::
  "'s classifier \<Rightarrow> nat \<Rightarrow> string \<Rightarrow> string \<Rightarrow> string option \<Rightarrow> nat \<Rightarrow> 's run_state
     \<Rightarrow> result option \<times> 's run_state" where
  "attempts classifyFn maxAttempts t apiKey modelVersion attempt st =
    (if attempt < maxAttempts then
       (case classifyFn t apiKey modelVersion (calls st) of
          (Inr r, ms, c) \<Rightarrow>
            (Some (r\<lparr> term' := Str t, duration := Number (rnd (real ms / 1000)) \<rparr>),
             st\<lparr> calls := c \<rparr>)
        | (Inl e, ms, c) \<Rightarrow>
            if attempt = maxAttempts - 1
            then (Some \<lparr> category = Str ''ERROR'', confidence = Number (Fin 0),
                         term' = Str t, duration = Undefined, error = Str (toString e) \<rparr>,
                  st\<lparr> calls := c \<rparr>)
            else attempts classifyFn maxAttempts t apiKey modelVersion (attempt + 1)
                   (st\<lparr> calls := c, slept := slept st @ [2 ^ attempt * 1000] \<rparr>))
     else (None, st))"
  by pat_completeness auto
termination
  by (relation "measure (\<lambda>(classifyFn, maxAttempts, t, apiKey, modelVersion, attempt, st).
        maxAttempts - attempt)") auto

declare attempts.simps [simp del]

text \<open>\<open>topTerms.map(term => ...)\<close>: the terms in order, each from the state the last left.\<close>

fun map_terms ::
  "(string \<Rightarrow> 's run_state \<Rightarrow> result option \<times> 's run_state) \<Rightarrow> string list \<Rightarrow> 's run_state
     \<Rightarrow> result option list \<times> 's run_state" where
  "map_terms f [] st = ([], st)"
| "map_terms f (t # ts) st =
     (case f t st of (r, st1) \<Rightarrow>
        (case map_terms f ts st1 of (rs, st2) \<Rightarrow> (r # rs, st2)))"

text \<open>
  \<open>classifyTerms\<close>, for a classify function: reading the model version throws when
  the table has nothing under the provider's name.
\<close>

definition classifyTerms_with ::
  "'s classifier \<Rightarrow> nat \<Rightarrow> settings \<Rightarrow> string \<Rightarrow> 's run_state
     \<Rightarrow> js_error + (result option list \<times> 's run_state)" where
  "classifyTerms_with classifyFn maxAttempts s apiKey st =
    (case MODELS (model s) of
       Missing \<Rightarrow> Inl (TypeError ''Cannot read properties of undefined (reading standard)'')
     | Inherited \<Rightarrow>
         Inr (map_terms (\<lambda>t. attempts classifyFn maxAttempts t apiKey None 0) (topTerms s) st)
     | Own entry \<Rightarrow>
         Inr (map_terms
               (\<lambda>t. attempts classifyFn maxAttempts t apiKey
                      (Some (if use_cheap s then cheap entry else standard entry)) 0)
               (topTerms s) st))"

definition classifyTerms ::
  "env \<Rightarrow> settings \<Rightarrow> string \<Rightarrow> call_state run_state
     \<Rightarrow> js_error + (result option list \<times> call_state run_state)" where
  "classifyTerms E s apiKey st =
     classifyTerms_with (getClassifierFunction E (model s)) MAX_RETRIES s apiKey st"

text \<open>
  \<open>outputResults\<close>: the rows of the tab Results after the call, the header first. A cell
  holds a value. Reading a property of an undefined result throws; the operations of
  the sheet are taken to succeed.
\<close>

definition result_row :: "result \<Rightarrow> jsval list" where
  "result_row r =
     [term' r, category r, js_or (confidence r) (Str []), js_or (duration r) (Str []),
      js_or (error r) (Str [])]"

fun result_rows :: "result option list \<Rightarrow> js_error + jsval list list" where
  "result_rows [] = Inr []"
| "result_rows (None # rs) = Inl (TypeError ''Cannot read properties of undefined (reading term)'')"
| "result_rows (Some r # rs) =
     (case result_rows rs of Inl e \<Rightarrow> Inl e | Inr rows \<Rightarrow> Inr (result_row r # rows))"

definition results_header :: "jsval list" where
  "results_header =
     [Str ''Search Term'', Str ''Category'', Str ''Confidence'', Str ''Duration (sec)'', Str ''Error'']"

definition outputResults :: "result option list \<Rightarrow> js_error + jsval list list" where
  "outputResults results =
    (if length results \<noteq> 0
     then (case result_rows results of Inl e \<Rightarrow> Inl e | Inr rows \<Rightarrow> Inr (results_header # rows))
     else Inr [results_header])"

text \<open>
  \<open>logCosts\<close>: the totals and the three costs that are logged, before \<open>toFixed(4)\<close>
  renders the costs. A price of the table is the double nearest to its decimal
  literal, and a total is the double nearest to the count (the count itself below
  \<open>2^53\<close>); the quotient, the products and the sum are rounded one by one.
\<close>

record cost_log =
  logged_tokens :: "nat in_out"
  inputCost :: jsnum
  outputCost :: jsnum
  totalCost :: jsnum

definition logCosts :: "settings \<Rightarrow> nat in_out \<Rightarrow> js_error + cost_log" where
  "logCosts s tokens =
    (case MODELS (model s) of
       Missing \<Rightarrow> Inl (TypeError ''Cannot read properties of undefined (reading standard)'')
     | Inherited \<Rightarrow> Inl (TypeError ''Cannot read properties of undefined (reading standard)'')
     | Own entry \<Rightarrow>
         let costs = (if use_cheap s then costs_cheap entry else costs_standard entry);
             inputCost = fl_mul (fl_div (Num (fl (real (input' tokens)))) (Num (Fin 1000000)))
                           (Num (fl (input' costs)));
             outputCost = fl_mul (fl_div (Num (fl (real (output' tokens)))) (Num (Fin 1000000)))
                            (Num (fl (output' costs)))
         in Inr \<lparr> logged_tokens = tokens, inputCost = inputCost, outputCost = outputCost,
                   totalCost = fl_add inputCost outputCost \<rparr>)"

section \<open>The classifier: a run\<close>

text \<open>
  What a run leaves: the rows of the tab Results (\<open>None\<close> when \<open>outputResults\<close> was not
  reached), the messages that \<open>handleError\<close> appended to the tab Logs, what \<open>logCosts\<close>
  logged, and the last state. The spreadsheet is the one at \<open>SHEET_URL\<close>.
\<close>

record run =
  results_tab :: "jsval list list option"
  logs_tab :: "string list"
  costs_logged :: "cost_log option"
  last_state :: "call_state run_state"

definition initial_state :: "call_state run_state" where
  "initial_state = \<lparr> slept = [], calls = \<lparr> tokenCounts = tokenCounts_initial, requests = [] \<rparr> \<rparr>"

text \<open>\<open>handleError\<close> appends a row with \<open>error.toString()\<close> to the tab Logs.\<close>

definition handleError :: "js_error \<Rightarrow> jsval list list option \<Rightarrow> call_state run_state \<Rightarrow> run" where
  "handleError e tab st =
     \<lparr> results_tab = tab, logs_tab = [toString e], costs_logged = None, last_state = st \<rparr>"

definition main :: "env \<Rightarrow> spreadsheet \<Rightarrow> run" where
  "main E sheet =
    (case readAndValidateSettings sheet of
       Inl e \<Rightarrow> handleError e None initial_state
     | Inr s \<Rightarrow>
    (case getAPIKey sheet (model s) of
       Inl e \<Rightarrow> handleError e None initial_state
     | Inr apiKey \<Rightarrow>
    (case classifyTerms E s apiKey initial_state of
       Inl e \<Rightarrow> handleError e None initial_state
     | Inr (results, st) \<Rightarrow>
    (case outputResults results of
       Inl e \<Rightarrow> handleError e (Some [results_header]) st
     | Inr tab \<Rightarrow>
    (case logCosts s (tokenCounts (calls st)) of
       Inl e \<Rightarrow> handleError e (Some tab) st
     | Inr c \<Rightarrow>
         \<lparr> results_tab = Some tab, logs_tab = [], costs_logged = Some c, last_state = st \<rparr>)))))"

section \<open>Example inputs\<close>

text \<open>
  Rows of the search term report: one with every metric field missing, one with clicks
  and a cost of 2,500,000 micros, one whose conversion fields are the text \<open>Infinity\<close>,
  and one with the smallest positive double (\<open>5e-324\<close>) as its conversions.
\<close>

definition row_missing :: report_row where
  "row_missing =
     \<lparr> search_term = ''red shoes'', campaign_name = ''Brand'', ad_group_name = ''Shoes'',
       parsed_impressions = NaN, parsed_clicks = NaN, parsed_cost_micros = NaN,
       parsed_conversions = NaN, parsed_conversions_value = NaN \<rparr>"

definition row_paid :: report_row where
  "row_paid =
     \<lparr> search_term = ''red shoes'', campaign_name = ''Brand'', ad_group_name = ''Shoes'',
       parsed_impressions = Num (Fin 100), parsed_clicks = Num (Fin 10),
       parsed_cost_micros = Num (Fin 2500000),
       parsed_conversions = Num (Fin 2), parsed_conversions_value = Num (Fin 50) \<rparr>"

definition row_infinity :: report_row where
  "row_infinity =
     \<lparr> search_term = ''red shoes'', campaign_name = ''Brand'', ad_group_name = ''Shoes'',
       parsed_impressions = Num (Fin 100), parsed_clicks = Num (Fin 10),
       parsed_cost_micros = Num (Fin 1000000),
       parsed_conversions = Num PInf, parsed_conversions_value = Num PInf \<rparr>"

definition row_tiny :: report_row where
  "row_tiny =
     \<lparr> search_term = ''red shoes'', campaign_name = ''Brand'', ad_group_name = ''Shoes'',
       parsed_impressions = Num (Fin 100), parsed_clicks = Num (Fin 10),
       parsed_cost_micros = Num (Fin 1000000),
       parsed_conversions = Num (Fin (1 / 2 ^ 1074)), parsed_conversions_value = Num (Fin 0) \<rparr>"

text \<open>Every metric field of the row parsed to a finite number or to \<open>NaN\<close>.\<close>

definition parses_finite :: "report_row \<Rightarrow> bool" where
  "parses_finite row =
     ((parsed_impressions row = NaN \<or> is_finite (parsed_impressions row)) \<and>
      (parsed_clicks row = NaN \<or> is_finite (parsed_clicks row)) \<and>
      (parsed_cost_micros row = NaN \<or> is_finite (parsed_cost_micros row)) \<and>
      (parsed_conversions row = NaN \<or> is_finite (parsed_conversions row)) \<and>
      (parsed_conversions_value row = NaN \<or> is_finite (parsed_conversions_value row)))"

section \<open>The calls of a classify function for one term\<close>

text \<open>
  The attempts for a term call the classify function with the same arguments, each
  from the state the call before left. \<open>state_after f t k v j c\<close> is the state after \<open>j\<close>
  calls that start in \<open>c\<close>; \<open>outcome\<close> and \<open>elapsed\<close> are what the call that follows them
  returns or throws, and the time it takes.
\<close>

fun state_after :: "'s classifier \<Rightarrow> string \<Rightarrow> string \<Rightarrow> string option \<Rightarrow> nat \<Rightarrow> 's \<Rightarrow> 's" where
  "state_after f t k v 0 c = c"
| "state_after f t k v (Suc j) c = state_after f t k v j (snd (snd (f t k v c)))"

definition outcome ::
  "'s classifier \<Rightarrow> string \<Rightarrow> string \<Rightarrow> string option \<Rightarrow> nat \<Rightarrow> 's \<Rightarrow> js_error + result" where
  "outcome f t k v j c = fst (f t k v (state_after f t k v j c))"

definition elapsed ::
  "'s classifier \<Rightarrow> string \<Rightarrow> string \<Rightarrow> string option \<Rightarrow> nat \<Rightarrow> 's \<Rightarrow> nat" where
  "elapsed f t k v j c = fst (snd (f t k v (state_after f t k v j c)))"

text \<open>The sleeps, in milliseconds, that follow the failed attempts \<open>a\<close> to \<open>b - 1\<close>.\<close>

definition backoff :: "nat \<Rightarrow> nat \<Rightarrow> nat list" where
  "backoff a b = map (\<lambda>j. 2 ^ j * 1000) [a..<b]"

section \<open>The tokens that the answers report, and the cost in exact arithmetic\<close>

text \<open>
  What the answer to a request adds to the totals. \<open>reported E p n req\<close> is the two
  counts of the usage that \<open>extractResponse\<close> reads from the answer to the \<open>n\<close>-th
  request, an absent count being 0. It is 0 and 0 when the fetch throws, when the status
  is not 200, when the body does not parse and when \<open>extractResponse\<close> throws: then
  \<open>updateTokenCounts\<close> is not reached. \<open>total_reported E p n reqs\<close> adds this up over
  the requests \<open>reqs\<close>, the first of which is the \<open>n\<close>-th.
\<close>

definition add_counts :: "nat in_out \<Rightarrow> nat in_out \<Rightarrow> nat in_out" where
  "add_counts a b = \<lparr> input' = input' a + input' b, output' = output' a + output' b \<rparr>"

definition reported :: "env \<Rightarrow> provider \<Rightarrow> nat \<Rightarrow> request \<Rightarrow> nat in_out" where
  "reported E p n req =
    (case fst (fetch E n req) of
       Inl e \<Rightarrow> \<lparr> input' = 0, output' = 0 \<rparr>
     | Inr response \<Rightarrow>
         if getResponseCode response \<noteq> 200 then \<lparr> input' = 0, output' = 0 \<rparr>
         else (case JSON_parse_data E (getContentText response) of
                 Inl e \<Rightarrow> \<lparr> input' = 0, output' = 0 \<rparr>
               | Inr data \<Rightarrow>
                   (case extractResponse p data of
                      Inl e \<Rightarrow> \<lparr> input' = 0, output' = 0 \<rparr>
                    | Inr (text, u) \<Rightarrow>
                        \<lparr> input' = or_0 (inputTokens u), output' = or_0 (outputTokens u) \<rparr>)))"

fun total_reported :: "env \<Rightarrow> provider \<Rightarrow> nat \<Rightarrow> request list \<Rightarrow> nat in_out" where
  "total_reported E p n [] = \<lparr> input' = 0, output' = 0 \<rparr>"
| "total_reported E p n (req # reqs) =
     add_counts (reported E p n req) (total_reported E p (Suc n) reqs)"

text \<open>
  The requests for the terms \<open>ts\<close>, in order: for each term the same request, as often
  as the list \<open>as\<close> says.
\<close>

definition requests_of :: "provider \<Rightarrow> string \<Rightarrow> string \<Rightarrow> string list \<Rightarrow> nat list \<Rightarrow> request list" where
  "requests_of p apiKey v ts as =
     concat (map (\<lambda>(t, a). replicate a (fetch_request p t apiKey v)) (zip ts as))"

text \<open>
  The cost formula of the specification, in exact arithmetic, for a pair of prices and
  a pair of totals. \<open>close k X y\<close>: the value \<open>y\<close> is \<open>X\<close> after \<open>k\<close> roundings, each of
  which changes a value by at most the fraction \<open>2^-53\<close> of it.
\<close>

definition exact_cost :: "real in_out \<Rightarrow> nat in_out \<Rightarrow> real" where
  "exact_cost costs tokens =
     real (input' tokens) / 1000000 * input' costs + real (output' tokens) / 1000000 * output' costs"

definition close :: "nat \<Rightarrow> real \<Rightarrow> real \<Rightarrow> bool" where
  "close k X y = (X * (1 - 1 / 2 ^ 53) ^ k \<le> y \<and> y \<le> X * (1 + 1 / 2 ^ 53) ^ k)"

section \<open>Example environments\<close>

text \<open>
  Answers of a model, as JSON text and as \<open>JSON.parse\<close> reads them: a plain
  classification, and one whose object also has a property \<open>error\<close>.
\<close>

definition quoted :: "string \<Rightarrow> string" where
  "quoted s = quote @ s @ quote"

definition answer_plain :: string where
  "answer_plain =
     ''{'' @ quoted ''category'' @ '': '' @ quoted ''COMMERCIAL'' @ '', '' @
     quoted ''confidence'' @ '': 0.92}''"

definition parsed_plain :: result where
  "parsed_plain =
     \<lparr> category = Str ''COMMERCIAL'', confidence = Number (Fin 0.92),
       term' = Undefined, duration = Undefined, error = Undefined \<rparr>"

definition answer_with_error :: string where
  "answer_with_error =
     ''{'' @ quoted ''category'' @ '': '' @ quoted ''LOCAL'' @ '', '' @
     quoted ''confidence'' @ '': 0.9, '' @ quoted ''error'' @ '': '' @ quoted ''boom'' @ ''}''"

definition parsed_with_error :: result where
  "parsed_with_error =
     \<lparr> category = Str ''LOCAL'', confidence = Number (Fin 0.9),
       term' = Undefined, duration = Undefined, error = Str ''boom'' \<rparr>"

text \<open>
  The body of an answer of the OpenAI endpoint that carries a text, escaped as a JSON
  string, and a usage; and what \<open>JSON.parse\<close> makes of it.
\<close>

definition json_string :: "string \<Rightarrow> string" where
  "json_string s =
     quote @ concat (map (\<lambda>c. if c = CHR 0x22 then [CHR 0x5C, c] else [c]) s) @ quote"

definition chat_body :: "string \<Rightarrow> nat \<Rightarrow> nat \<Rightarrow> string" where
  "chat_body content p c =
     ''{'' @ quoted ''choices'' @ '':[{'' @ quoted ''message'' @ '':{'' @ quoted ''content'' @ '':''
     @ json_string content @ ''}}],'' @ quoted ''usage'' @ '':{'' @ quoted ''prompt_tokens'' @ '':''
     @ string_of_nat p @ '','' @ quoted ''completion_tokens'' @ '':'' @ string_of_nat c @ ''}}''"

definition chat_data :: "string \<Rightarrow> nat \<Rightarrow> nat \<Rightarrow> api_data" where
  "chat_data content p c =
     \<lparr> choices_0_message_content = Inr (Str content),
       content_0_text = Inl (TypeError ''Cannot read properties of undefined (reading 0)''),
       candidates_0_content_parts_0_text =
         Inl (TypeError ''Cannot read properties of undefined (reading 0)''),
       data_usage = Some \<lparr> prompt_tokens = Some p, completion_tokens = Some c,
                           input_tokens = None, output_tokens = None,
                           promptTokenCount = None, candidatesTokenCount = None \<rparr>,
       data_usageMetadata = None \<rparr>"

text \<open>
  An environment: the first \<open>failures\<close> fetches are answered with status 429, every
  later one with status 200 and a body that carries the answer and a usage of 10 and 5
  tokens. \<open>JSON.parse\<close> reads that body and that answer.
\<close>

definition env_after :: "nat \<Rightarrow> string \<Rightarrow> result \<Rightarrow> env" where
  "env_after failures answer parsed =
     \<lparr> fetch = (\<lambda>n req.
         if n < failures
         then (Inr \<lparr> getResponseCode = 429, getContentText = ''rate limited'' \<rparr>, 120)
         else (Inr \<lparr> getResponseCode = 200, getContentText = chat_body answer 10 5 \<rparr>, 900)),
       JSON_parse_data = (\<lambda>s.
         if s = chat_body answer 10 5 then Inr (chat_data answer 10 5)
         else Inl (SyntaxError ''Unexpected token'')),
       JSON_parse_result = (\<lambda>s.
         if s = answer then Inr parsed else Inl (SyntaxError ''Unexpected token'')),
       number_toString = (\<lambda>d. ''0'') \<rparr>"

text \<open>
  A spreadsheet that names the provider OpenAI and the standard model, with a key and
  three terms; one that names a provider the table does not have; and one that names
  the provider \<open>Constructor\<close> and has a key for it, with the settings read from it.
\<close>

definition example_sheet :: spreadsheet where
  "example_sheet =
     \<lparr> range_value = (\<lambda>n.
         if n = ''model'' then Some ''OpenAI''
         else if n = ''cheap'' then Some ''FALSE''
         else if n = ''key_openai'' then Some ''sk-123''
         else None),
       range_values = (\<lambda>n.
         if n = ''topTerms''
         then Some [''best running shoes'', ''shoe shop near me'', [], ''trail shoes'']
         else None) \<rparr>"

definition example_settings :: settings where
  "example_settings =
     \<lparr> model = ''openai'', use_cheap = False,
       topTerms = [''best running shoes'', ''shoe shop near me'', ''trail shoes''] \<rparr>"

definition mistral_sheet :: spreadsheet where
  "mistral_sheet =
     example_sheet\<lparr> range_value := (range_value example_sheet)(''model'' := Some ''Mistral'') \<rparr>"

definition constructor_sheet :: spreadsheet where
  "constructor_sheet =
     example_sheet\<lparr> range_value := (range_value example_sheet)
       (''model'' := Some ''Constructor'', ''key_constructor'' := Some ''sk-123'') \<rparr>"

definition constructor_settings :: settings where
  "constructor_settings = example_settings\<lparr> model := ''constructor'' \<rparr>"

text \<open>
  An environment in which every fetch is answered with status 200 and the plain
  classification: the first answer reports a usage of 10 and 5 tokens, every later one
  a usage of 20 and 15. A spreadsheet that names the provider OpenAI and the cheap
  model, with a key and two terms, and the settings read from it.
\<close>

definition env_two_usages :: env where
  "env_two_usages =
     \<lparr> fetch = (\<lambda>n req.
         (Inr \<lparr> getResponseCode = 200,
                getContentText = (if n = 0 then chat_body answer_plain 10 5
                                  else chat_body answer_plain 20 15) \<rparr>, 900)),
       JSON_parse_data = (\<lambda>s.
         if s = chat_body answer_plain 10 5 then Inr (chat_data answer_plain 10 5)
         else if s = chat_body answer_plain 20 15 then Inr (chat_data answer_plain 20 15)
         else Inl (SyntaxError ''Unexpected token'')),
       JSON_parse_result = (\<lambda>s.
         if s = answer_plain then Inr parsed_plain else Inl (SyntaxError ''Unexpected token'')),
       number_toString = (\<lambda>d. ''0'') \<rparr>"

definition two_terms_sheet :: spreadsheet where
  "two_terms_sheet =
     \<lparr> range_value = (\<lambda>n.
         if n = ''model'' then Some ''OpenAI''
         else if n = ''cheap'' then Some ''TRUE''
         else if n = ''key_openai'' then Some ''sk-123''
         else None),
       range_values = (\<lambda>n.
         if n = ''topTerms'' then Some [''best running shoes'', ''trail shoes''] else None) \<rparr>"

definition two_terms_settings :: settings where
  "two_terms_settings =
     \<lparr> model = ''openai'', use_cheap = True,
       topTerms = [''best running shoes'', ''trail shoes''] \<rparr>"

text \<open>
  The body of an answer of the Anthropic endpoint whose usage has the input count only,
  and one of the Gemini endpoint that has no usage.
\<close>

definition claude_data :: api_data where
  "claude_data =
     \<lparr> choices_0_message_content =
         Inl (TypeError ''Cannot read properties of undefined (reading 0)''),
       content_0_text = Inr (Str answer_plain),
       candidates_0_content_parts_0_text =
         Inl (TypeError ''Cannot read properties of undefined (reading 0)''),
       data_usage = Some \<lparr> prompt_tokens = None, completion_tokens = None,
                           input_tokens = Some 12, output_tokens = None,
                           promptTokenCount = None, candidatesTokenCount = None \<rparr>,
       data_usageMetadata = None \<rparr>"

definition gemini_data :: api_data where
  "gemini_data =
     \<lparr> choices_0_message_content =
         Inl (TypeError ''Cannot read properties of undefined (reading 0)''),
       content_0_text = Inl (TypeError ''Cannot read properties of undefined (reading 0)''),
       candidates_0_content_parts_0_text = Inr (Str answer_plain),
       data_usage = None,
       data_usageMetadata = None \<rparr>"

section \<open>Properties of the search term report\<close>

lemma rnd_zero: "rnd 0 = Fin 0"
  by (simp add: rnd_def dbl_overflow_def dbl_underflow_def)

lemma or_zero_not_NaN: "or_zero x \<noteq> NaN"
  by (simp add: or_zero_def)

lemma or_zero_finite: "x = NaN \<or> is_finite x \<Longrightarrow> is_finite (or_zero x)"
  by (auto simp: or_zero_def)

lemma jsdiv_zero_num: "gt0 y \<Longrightarrow> jsdiv (Num (Fin 0)) y = Num (Fin 0)"
  by (cases y rule: gt0.cases) (simp_all add: rnd_zero)

lemma jsdiv_finite_num: "is_finite x \<Longrightarrow> gt0 y \<Longrightarrow> jsdiv x y \<noteq> NaN"
  by (cases "(x, y)" rule: jsdiv.cases) auto

lemma jsdiv_finite_den: "x \<noteq> NaN \<Longrightarrow> is_finite y \<Longrightarrow> gt0 y \<Longrightarrow> jsdiv x y \<noteq> NaN"
  by (cases "(x, y)" rule: jsdiv.cases) auto

lemma cost_not_NaN: "jsdiv (or_zero x) (Num (Fin 1000000)) \<noteq> NaN"
  by (rule jsdiv_finite_den) (simp_all add: or_zero_not_NaN)

lemma calculateMetrics_map: "calculateMetrics rows = map newRow rows"
  by (induction rows) simp_all

lemma newRow_guards:
  "cost (newRow row) = jsdiv (or_zero (parsed_cost_micros row)) (Num (Fin 1000000))"
  "clicks (newRow row) = Num (Fin 0) \<Longrightarrow> cpc (newRow row) = Num (Fin 0)"
  "clicks (newRow row) = Num (Fin 0) \<Longrightarrow> ctr (newRow row) = Num (Fin 0)"
  "clicks (newRow row) = Num (Fin 0) \<Longrightarrow> convRate (newRow row) = Num (Fin 0)"
  "impressions (newRow row) = Num (Fin 0) \<Longrightarrow> ctr (newRow row) = Num (Fin 0)"
  "conversions (newRow row) = Num (Fin 0) \<Longrightarrow> cpa (newRow row) = Num (Fin 0)"
  "conversions (newRow row) = Num (Fin 0) \<Longrightarrow> aov (newRow row) = Num (Fin 0)"
  "cost (newRow row) = Num (Fin 0) \<Longrightarrow> roas (newRow row) = Num (Fin 0)"
  by (simp_all add: newRow_def Let_def jsdiv_zero_num)

lemma newRow_coerces:
  "parsed_impressions row = NaN \<Longrightarrow> impressions (newRow row) = Num (Fin 0)"
  "parsed_clicks row = NaN \<Longrightarrow> clicks (newRow row) = Num (Fin 0)"
  "parsed_cost_micros row = NaN \<Longrightarrow> cost (newRow row) = Num (Fin 0)"
  "parsed_conversions row = NaN \<Longrightarrow> conversions (newRow row) = Num (Fin 0)"
  "parsed_conversions_value row = NaN \<Longrightarrow> conversionValue (newRow row) = Num (Fin 0)"
  by (simp_all add: newRow_def Let_def or_zero_def rnd_zero)

lemma newRow_cost_25:
  "parsed_cost_micros row = Num (Fin 2500000) \<Longrightarrow> cost (newRow row) = Num (Fin 2.5)"
  by (simp add: newRow_def Let_def or_zero_def rnd_def dbl_overflow_def dbl_underflow_def)

lemma newRow_no_NaN:
  assumes "parses_finite row"
  shows "cost (newRow row) \<noteq> NaN" "cpc (newRow row) \<noteq> NaN" "ctr (newRow row) \<noteq> NaN"
    "convRate (newRow row) \<noteq> NaN" "cpa (newRow row) \<noteq> NaN" "roas (newRow row) \<noteq> NaN"
    "aov (newRow row) \<noteq> NaN"
  using assms
  by (simp_all add: newRow_def Let_def parses_finite_def cost_not_NaN or_zero_finite
      or_zero_not_NaN jsdiv_finite_num jsdiv_finite_den)

lemma dbl_bounds: "dbl_underflow < 1 / 10 ^ 9" "10 ^ 9 < dbl_overflow"
  by (simp_all add: dbl_overflow_def dbl_underflow_def)

lemma rnd_moderate: "1 / 10 ^ 9 \<le> \<bar>x\<bar> \<Longrightarrow> \<bar>x\<bar> \<le> 10 ^ 9 \<Longrightarrow> rnd x = Fin x"
  using dbl_bounds by (auto simp: rnd_def)

lemma newRow_row_paid:
  "newRow row_paid =
     \<lparr> searchTerm = ''red shoes'', campaign = ''Brand'', adGroup = ''Shoes'',
       impressions = Num (Fin 100), clicks = Num (Fin 10), cost = Num (Fin 2.5),
       conversions = Num (Fin 2), conversionValue = Num (Fin 50),
       cpc = Num (Fin 0.25), ctr = Num (Fin 0.1), convRate = Num (Fin 0.2),
       cpa = Num (Fin 1.25), roas = Num (Fin 20), aov = Num (Fin 25) \<rparr>"
  by (simp add: row_paid_def newRow_def Let_def or_zero_def rnd_moderate)

lemma newRow_row_missing:
  "newRow row_missing =
     \<lparr> searchTerm = ''red shoes'', campaign = ''Brand'', adGroup = ''Shoes'',
       impressions = Num (Fin 0), clicks = Num (Fin 0), cost = Num (Fin 0),
       conversions = Num (Fin 0), conversionValue = Num (Fin 0),
       cpc = Num (Fin 0), ctr = Num (Fin 0), convRate = Num (Fin 0),
       cpa = Num (Fin 0), roas = Num (Fin 0), aov = Num (Fin 0) \<rparr>"
  by (simp add: row_missing_def newRow_def Let_def or_zero_def rnd_zero)

lemma row_paid_parsed:
  "parsed_cost_micros row_paid = Num (Fin 2500000)" "parses_finite row_paid"
  by (simp_all add: row_paid_def parses_finite_def)

lemma row_missing_parsed:
  "parsed_impressions row_missing = NaN" "parsed_clicks row_missing = NaN"
  "parsed_cost_micros row_missing = NaN" "parsed_conversions row_missing = NaN"
  "parsed_conversions_value row_missing = NaN"
  by (simp_all add: row_missing_def)

text \<open>
  C1, as the claim states it, fails. The claim: no input, malformed numeric fields
  included, ever produces \<open>NaN\<close> or \<open>Infinity\<close> in a derived metric. A row whose
  conversions and conversion value are the text \<open>Infinity\<close> is not coerced to 0
  (\<open>Infinity || 0\<close> is \<open>Infinity\<close>) and gets the AOV \<open>Infinity / Infinity = NaN\<close>; a
  row with a cost of 1 and \<open>5e-324\<close> conversions gets the CPA \<open>1 / 5e-324 = Infinity\<close>.
\<close>

theorem calculateMetrics_nan_infinity_counterexample:
  "aov (newRow row_infinity) = NaN \<and> cpa (newRow row_tiny) = Num PInf"
  by (simp add: row_infinity_def row_tiny_def newRow_def Let_def or_zero_def rnd_def
      dbl_overflow_def dbl_underflow_def)

text \<open>
  C1, amended. \<open>calculateMetrics\<close> returns one row for each row of the report, in
  order, and raises no error. In each row: the cost is the cost in micros divided by
  1,000,000, so 2,500,000 micros give exactly 2.5; with 0 clicks the CPC, the CTR and
  the conversion rate are 0; with 0 impressions the CTR is 0; with 0 conversions the CPA
  and the AOV are 0; with a cost of 0 the ROAS is 0; a metric field that parses to
  \<open>NaN\<close> (missing, or not a number) counts as 0; and when every metric field parses
  to a finite number or to \<open>NaN\<close>, neither the cost nor any of the six ratios is
  \<open>NaN\<close>.
\<close>

theorem calculateMetrics_zero_guarded:
  "calculateMetrics rows = map newRow rows \<and>
   cost (newRow row) = jsdiv (or_zero (parsed_cost_micros row)) (Num (Fin 1000000)) \<and>
   (parsed_cost_micros row = Num (Fin 2500000) \<longrightarrow> cost (newRow row) = Num (Fin 2.5)) \<and>
   (clicks (newRow row) = Num (Fin 0) \<longrightarrow>
      cpc (newRow row) = Num (Fin 0) \<and> ctr (newRow row) = Num (Fin 0) \<and>
      convRate (newRow row) = Num (Fin 0)) \<and>
   (impressions (newRow row) = Num (Fin 0) \<longrightarrow> ctr (newRow row) = Num (Fin 0)) \<and>
   (conversions (newRow row) = Num (Fin 0) \<longrightarrow>
      cpa (newRow row) = Num (Fin 0) \<and> aov (newRow row) = Num (Fin 0)) \<and>
   (cost (newRow row) = Num (Fin 0) \<longrightarrow> roas (newRow row) = Num (Fin 0)) \<and>
   (parsed_impressions row = NaN \<longrightarrow> impressions (newRow row) = Num (Fin 0)) \<and>
   (parsed_clicks row = NaN \<longrightarrow> clicks (newRow row) = Num (Fin 0)) \<and>
   (parsed_cost_micros row = NaN \<longrightarrow> cost (newRow row) = Num (Fin 0)) \<and>
   (parsed_conversions row = NaN \<longrightarrow> conversions (newRow row) = Num (Fin 0)) \<and>
   (parsed_conversions_value row = NaN \<longrightarrow> conversionValue (newRow row) = Num (Fin 0)) \<and>
   (parses_finite row \<longrightarrow>
      cost (newRow row) \<noteq> NaN \<and> cpc (newRow row) \<noteq> NaN \<and> ctr (newRow row) \<noteq> NaN \<and>
      convRate (newRow row) \<noteq> NaN \<and> cpa (newRow row) \<noteq> NaN \<and> roas (newRow row) \<noteq> NaN \<and>
      aov (newRow row) \<noteq> NaN)"
  by (intro conjI impI)
    (fact calculateMetrics_map newRow_guards newRow_coerces newRow_cost_25 newRow_no_NaN)+

theorem calculateMetrics_zero_guarded_witness:
  "parsed_cost_micros row_paid = Num (Fin 2500000) \<and> cost (newRow row_paid) = Num (Fin 2.5) \<and>
   parses_finite row_paid \<and> cpa (newRow row_paid) \<noteq> NaN \<and>
   parsed_clicks row_missing = NaN \<and> clicks (newRow row_missing) = Num (Fin 0) \<and>
   cpc (newRow row_missing) = Num (Fin 0) \<and> ctr (newRow row_missing) = Num (Fin 0) \<and>
   convRate (newRow row_missing) = Num (Fin 0) \<and>
   impressions (newRow row_missing) = Num (Fin 0) \<and>
   conversions (newRow row_missing) = Num (Fin 0) \<and> cpa (newRow row_missing) = Num (Fin 0) \<and>
   aov (newRow row_missing) = Num (Fin 0) \<and>
   cost (newRow row_missing) = Num (Fin 0) \<and> roas (newRow row_missing) = Num (Fin 0) \<and>
   calculateMetrics [row_paid, row_missing] = map newRow [row_paid, row_missing]"
  using calculateMetrics_zero_guarded [of "[row_paid, row_missing]" row_paid]
    calculateMetrics_zero_guarded [of "[]" row_missing]
  by (simp add: newRow_row_paid newRow_row_missing row_paid_parsed row_missing_parsed)

section \<open>Properties of the retry loop\<close>

lemma outcome_Suc: "outcome f t k v (Suc j) c = outcome f t k v j (snd (snd (f t k v c)))"
  by (simp add: outcome_def)

lemma elapsed_Suc: "elapsed f t k v (Suc j) c = elapsed f t k v j (snd (snd (f t k v c)))"
  by (simp add: elapsed_def)

lemma backoff_step: "a < b \<Longrightarrow> backoff a b = 2 ^ a * 1000 # backoff (Suc a) b"
  by (simp add: backoff_def upt_conv_Cons)

lemma backoff_empty: "b \<le> a \<Longrightarrow> backoff a b = []"
  by (simp add: backoff_def)

lemma sum_list_backoff: "sum_list (backoff 0 m) = (2 ^ m - 1) * 1000"
proof (induction m)
  case 0
  show ?case by (simp add: backoff_def)
next
  case (Suc m)
  have "sum_list (backoff 0 (Suc m)) = sum_list (backoff 0 m) + 2 ^ m * 1000"
    by (simp add: backoff_def)
  also have "\<dots> = (2 ^ m - 1) * 1000 + 2 ^ m * 1000"
    by (simp add: Suc.IH)
  also have "\<dots> = (2 ^ Suc m - 1) * 1000"
    by (simp add: algebra_simps)
  finally show ?case .
qed

lemma toString_not_empty: "toString e \<noteq> []"
  by (cases e) (simp_all add: toString_def)

text \<open>When every remaining attempt throws, the loop returns the error result.\<close>

lemma attempts_all_fail:
  "a < n \<Longrightarrow> \<forall>j < n - a. isl (outcome f t k v j (calls st)) \<Longrightarrow>
   attempts f n t k v a st =
     (Some \<lparr> category = Str ''ERROR'', confidence = Number (Fin 0), term' = Str t,
             duration = Undefined,
             error = Str (toString (projl (outcome f t k v (n - a - 1) (calls st)))) \<rparr>,
      st\<lparr> calls := state_after f t k v (n - a) (calls st),
          slept := slept st @ backoff a (n - 1) \<rparr>)"
proof (induction "n - a" arbitrary: a st)
  case 0
  then show ?case by simp
next
  case (Suc d)
  from Suc.prems have first: "isl (outcome f t k v 0 (calls st))" by simp
  then obtain e ms c where call: "f t k v (calls st) = (Inl e, ms, c)"
    by (cases "f t k v (calls st)") (auto simp: outcome_def isl_def)
  show ?case
  proof (cases "a = n - 1")
    case True
    with Suc.prems call show ?thesis
      by (subst attempts.simps) (simp add: outcome_def backoff_empty)
  next
    case False
    with Suc.prems have lt: "Suc a < n" by simp
    let ?st = "st\<lparr> calls := c, slept := slept st @ [2 ^ a * 1000] \<rparr>"
    have d: "d = n - Suc a" using Suc.hyps(2) by simp
    have fails: "\<forall>j < n - Suc a. isl (outcome f t k v j (calls ?st))"
    proof (intro allI impI)
      fix j assume "j < n - Suc a"
      then have "Suc j < n - a" by simp
      with Suc.prems(2) have "isl (outcome f t k v (Suc j) (calls st))" by blast
      then show "isl (outcome f t k v j (calls ?st))" by (simp add: outcome_Suc call)
    qed
    have n1: "n - a - 1 = Suc (n - Suc a - 1)" "n - a = Suc (n - Suc a)" using lt by simp_all
    have unfold: "attempts f n t k v a st = attempts f n t k v (Suc a) ?st"
      using Suc.prems(1) call False by (subst attempts.simps) simp
    have bs: "backoff a (n - Suc 0) = 2 ^ a * 1000 # backoff (Suc a) (n - Suc 0)"
      using backoff_step [of a "n - Suc 0"] lt by simp
    have idx: "n - Suc a = Suc (n - Suc (Suc a))" using lt by simp
    show ?thesis
      unfolding unfold Suc.hyps(1) [OF d lt fails]
      by (simp add: n1 idx outcome_Suc call bs)
  qed
qed

text \<open>When an attempt returns after \<open>j\<close> that threw, the loop returns its result.\<close>

lemma attempts_success:
  "a + j < n \<Longrightarrow> \<forall>i < j. isl (outcome f t k v i (calls st)) \<Longrightarrow>
   outcome f t k v j (calls st) = Inr r \<Longrightarrow>
   attempts f n t k v a st =
     (Some (r\<lparr> term' := Str t,
               duration := Number (rnd (real (elapsed f t k v j (calls st)) / 1000)) \<rparr>),
      st\<lparr> calls := state_after f t k v (Suc j) (calls st),
          slept := slept st @ backoff a (a + j) \<rparr>)"
proof (induction j arbitrary: a st)
  case 0
  then obtain ms c where call: "f t k v (calls st) = (Inr r, ms, c)"
    by (cases "f t k v (calls st)") (auto simp: outcome_def)
  with 0 show ?case
    by (subst attempts.simps) (simp add: elapsed_def backoff_empty)
next
  case (Suc j)
  from Suc.prems(2) have first: "isl (outcome f t k v 0 (calls st))" by simp
  then obtain e ms c where call: "f t k v (calls st) = (Inl e, ms, c)"
    by (cases "f t k v (calls st)") (auto simp: outcome_def isl_def)
  let ?st = "st\<lparr> calls := c, slept := slept st @ [2 ^ a * 1000] \<rparr>"
  have lt: "Suc a + j < n" "a < n" "a \<noteq> n - 1" using Suc.prems(1) by simp_all
  have fails: "\<forall>i < j. isl (outcome f t k v i (calls ?st))"
  proof (intro allI impI)
    fix i assume "i < j"
    then have "Suc i < Suc j" by simp
    with Suc.prems(2) have "isl (outcome f t k v (Suc i) (calls st))" by blast
    then show "isl (outcome f t k v i (calls ?st))" by (simp add: outcome_Suc call)
  qed
  have succ: "outcome f t k v j (calls ?st) = Inr r"
    using Suc.prems(3) by (simp add: outcome_Suc call)
  have unfold: "attempts f n t k v a st = attempts f n t k v (Suc a) ?st"
    using lt call by (subst attempts.simps) simp
  have bs: "backoff a (Suc (a + j)) = 2 ^ a * 1000 # backoff (Suc a) (Suc (a + j))"
    using backoff_step [of a "Suc (a + j)"] by simp
  show ?case
    unfolding unfold Suc.IH [OF lt(1) fails succ]
    by (simp add: elapsed_Suc call bs)
qed

text \<open>The loop returns a result for the term, whatever the classify function does.\<close>

lemma attempts_returns:
  "a < n \<Longrightarrow> \<exists>r st'. attempts f n t k v a st = (Some r, st') \<and> term' r = Str t"
proof (induction "n - a" arbitrary: a st)
  case 0
  then show ?case by simp
next
  case (Suc d)
  obtain x ms c where call: "f t k v (calls st) = (x, ms, c)"
    by (cases "f t k v (calls st)") auto
  show ?case
  proof (cases x)
    case (Inr r)
    with Suc.prems call show ?thesis
      by (subst attempts.simps) simp
  next
    case (Inl e)
    show ?thesis
    proof (cases "a = n - 1")
      case True
      with Suc.prems call Inl show ?thesis
        by (subst attempts.simps) simp
    next
      case False
      with Suc.prems have lt: "Suc a < n" by simp
      have d: "d = n - Suc a" using Suc.hyps(2) by simp
      from Suc.hyps(1) [OF d lt]
      obtain r st' where
        "attempts f n t k v (Suc a) (st\<lparr> calls := c, slept := slept st @ [2 ^ a * 1000] \<rparr>)
           = (Some r, st')" "term' r = Str t"
        by blast
      with Suc.prems call Inl False show ?thesis
        by (subst attempts.simps) simp
    qed
  qed
qed

lemma map_terms_all:
  assumes "\<And>t st. \<exists>r st'. g t st = (Some r, st') \<and> term' r = Str t"
  shows "\<exists>rs st'. map_terms g ts st = (map Some rs, st') \<and> map term' rs = map Str ts"
proof (induction ts arbitrary: st)
  case Nil
  show ?case by simp
next
  case (Cons t ts)
  from assms obtain r st1 where g: "g t st = (Some r, st1)" "term' r = Str t" by blast
  from Cons.IH obtain rs st2 where
    rest: "map_terms g ts st1 = (map Some rs, st2)" "map term' rs = map Str ts" by blast
  have "map_terms g (t # ts) st = (map Some (r # rs), st2)"
    using g rest by simp
  moreover have "map term' (r # rs) = map Str (t # ts)"
    using g rest by simp
  ultimately show ?case by blast
qed

lemma result_rows_Some: "result_rows (map Some rs) = Inr (map result_row rs)"
  by (induction rs) simp_all

lemma outputResults_Some: "outputResults (map Some rs) = Inr (results_header # map result_row rs)"
  by (simp add: outputResults_def result_rows_Some)

lemma hd_result_row: "hd (result_row r) = term' r"
  by (simp add: result_row_def)

lemma classifyTerms_with_all:
  assumes "MODELS (model s) \<noteq> Missing" "0 < n"
  shows "\<exists>rs st'. classifyTerms_with f n s k st = Inr (map Some rs, st') \<and>
           map term' rs = map Str (topTerms s)"
proof (cases "MODELS (model s)")
  case (Own entry)
  let ?v = "Some (if use_cheap s then cheap entry else standard entry)"
  have "\<And>t st. \<exists>r st'. attempts f n t k ?v 0 st = (Some r, st') \<and> term' r = Str t"
    using attempts_returns [OF assms(2)] by blast
  from map_terms_all [of "\<lambda>t. attempts f n t k ?v 0", OF this]
  show ?thesis using Own by (simp add: classifyTerms_with_def)
next
  case Inherited
  have "\<And>t st. \<exists>r st'. attempts f n t k None 0 st = (Some r, st') \<and> term' r = Str t"
    using attempts_returns [OF assms(2)] by blast
  from map_terms_all [of "\<lambda>t. attempts f n t k None 0", OF this]
  show ?thesis using Inherited by (simp add: classifyTerms_with_def)
next
  case Missing
  with assms show ?thesis by simp
qed

section \<open>The example environments, evaluated\<close>

lemma modelType_models:
  "modelType ''gpt-4-1106-preview'' = Inr openai"
  "modelType ''o4-mini-2025-04-16'' = Inr openai"
  "modelType ''claude-3-7-sonnet-latest'' = Inr anthropic"
  "modelType ''claude-3-5-haiku-latest'' = Inr anthropic"
  "modelType ''gemini-2.5-pro-preview-03-25'' = Inr gemini"
  "modelType ''gemini-2.0-flash'' = Inr gemini"
  by (simp_all add: modelType_def)

lemma match_braces_answers:
  "match_braces answer_plain = Some answer_plain"
  "match_braces answer_with_error = Some answer_with_error"
  by (simp_all add: match_braces_def answer_plain_def answer_with_error_def quoted_def quote_def)

lemma string_of_nat_429: "string_of_nat 429 = ''429''"
  by code_simp

lemma readAndValidateSettings_example: "readAndValidateSettings example_sheet = Inr example_settings"
  by code_simp

lemma readAndValidateSettings_mistral:
  "readAndValidateSettings mistral_sheet = Inl (Error ''Invalid model'')"
  by code_simp

lemma getAPIKey_example: "getAPIKey example_sheet ''openai'' = Inr ''sk-123''"
  by code_simp

text \<open>A call in the environment \<open>env_after\<close>, by the number of requests sent before it.\<close>

lemma classifyTerm_env_after:
  assumes "match_braces answer = Some answer"
  shows "classifyTerm (env_after failures answer parsed) t k ''gpt-4-1106-preview'' st =
    (if length (requests st) < failures
     then (Inl (Error ''API error (429): rate limited''), 120,
           st\<lparr> requests := requests st @ [fetch_request openai t k ''gpt-4-1106-preview''] \<rparr>)
     else (validateResponse (\<lambda>d. ''0'') parsed, 900,
           st\<lparr> requests := requests st @ [fetch_request openai t k ''gpt-4-1106-preview''],
               tokenCounts := \<lparr> input' = input' (tokenCounts st) + 10,
                                output' = output' (tokenCounts st) + 5 \<rparr> \<rparr>))"
  using assms
  by (simp add: classifyTerm_def modelType_models env_after_def Let_def string_of_nat_429
      extractResponse_def chat_data_def)

lemma validateResponse_parsed:
  "validateResponse nstr parsed_plain = Inr parsed_plain"
  "validateResponse nstr parsed_with_error = Inr parsed_with_error"
  by (simp_all add: validateResponse_def parsed_plain_def parsed_with_error_def
      CATEGORIES_includes_def CATEGORIES_def)

lemma getClassifierFunction_Some:
  "getClassifierFunction E m t k (Some v) st = classifyTerm E t k v st"
  by (simp add: getClassifierFunction_def)

lemma requests_state_after:
  assumes "match_braces a = Some a"
  shows "length (requests (state_after (getClassifierFunction (env_after F a p) m) t k
            (Some ''gpt-4-1106-preview'') j c)) = length (requests c) + j"
proof (induction j arbitrary: c)
  case 0
  show ?case by simp
next
  case (Suc j)
  show ?case
    by (simp add: Suc.IH getClassifierFunction_Some classifyTerm_env_after [OF assms])
qed

lemma outcome_env_after:
  assumes "match_braces a = Some a"
  shows "outcome (getClassifierFunction (env_after F a p) m) t k (Some ''gpt-4-1106-preview'') j c =
    (if length (requests c) + j < F then Inl (Error ''API error (429): rate limited'')
     else validateResponse (\<lambda>d. ''0'') p)"
  by (simp add: outcome_def getClassifierFunction_Some classifyTerm_env_after [OF assms]
      requests_state_after [OF assms])

lemma elapsed_env_after:
  assumes "match_braces a = Some a"
  shows "elapsed (getClassifierFunction (env_after F a p) m) t k (Some ''gpt-4-1106-preview'') j c =
    (if length (requests c) + j < F then 120 else 900)"
  by (simp add: elapsed_def getClassifierFunction_Some classifyTerm_env_after [OF assms]
      requests_state_after [OF assms])

lemma initial_requests: "requests (calls initial_state) = []" "slept initial_state = []"
  "tokenCounts (calls initial_state) = \<lparr> input' = 0, output' = 0 \<rparr>"
  by (simp_all add: initial_state_def tokenCounts_initial_def)

lemma MAX_RETRIES_pos: "0 < MAX_RETRIES"
  by (simp add: MAX_RETRIES_def)

lemma readAndValidateSettings_known:
  "readAndValidateSettings sheet = Inr s \<Longrightarrow> MODELS (model s) \<noteq> Missing"
  by (auto simp: readAndValidateSettings_def Let_def split: option.splits if_splits)

lemma main_results:
  assumes "readAndValidateSettings sheet = Inr s" "getAPIKey sheet (model s) = Inr k"
  shows "\<exists>rs. results_tab (main E sheet) = Some (results_header # map result_row rs) \<and>
               map term' rs = map Str (topTerms s)"
proof -
  from classifyTerms_with_all [OF readAndValidateSettings_known [OF assms(1)] MAX_RETRIES_pos]
  obtain rs st' where
    c: "classifyTerms E s k initial_state = Inr (map Some rs, st')"
      "map term' rs = map Str (topTerms s)"
    unfolding classifyTerms_def by blast
  have "results_tab (main E sheet) = Some (results_header # map result_row rs)"
    using assms c(1)
    by (simp add: main_def outputResults_Some handleError_def split: sum.splits)
  with c(2) show ?thesis by blast
qed

lemma example_settings_known: "MODELS (model example_settings) \<noteq> Missing"
  by (simp add: example_settings_def MODELS_def)

lemma rnd_900: "rnd (9 / 10) = Fin (9 / 10)"
  by (simp add: rnd_moderate)

section \<open>Claims about the retry loop\<close>

text \<open>
  C2, as the claim states it, fails in its last part: when an attempt succeeds the
  returned result carries no error field. The result is \<open>{ ...result, term, duration }\<close>,
  the object that \<open>validateResponse\<close> returned with two properties set, so it carries
  every other property of the object the model answered with. For the answer
  \<open>{"category": "LOCAL", "confidence": 0.9, "error": "boom"}\<close> the first attempt
  succeeds and the result has the error \<open>boom\<close>, which \<open>outputResults\<close> then writes
  into the column Error.
\<close>

theorem retry_success_error_field_counterexample:
  "attempts (getClassifierFunction (env_after 0 answer_with_error parsed_with_error) ''openai'')
     MAX_RETRIES ''shoe shop near me'' ''sk-123'' (Some ''gpt-4-1106-preview'') 0 initial_state =
   (Some \<lparr> category = Str ''LOCAL'', confidence = Number (Fin 0.9),
           term' = Str ''shoe shop near me'', duration = Number (Fin 0.9),
           error = Str ''boom'' \<rparr>,
    \<lparr> slept = [],
      calls = \<lparr> tokenCounts = \<lparr> input' = 10, output' = 5 \<rparr>,
                requests = [fetch_request openai ''shoe shop near me'' ''sk-123''
                              ''gpt-4-1106-preview''] \<rparr> \<rparr>)"
proof -
  have call: "classifyTerm (env_after 0 answer_with_error parsed_with_error) ''shoe shop near me''
      ''sk-123'' ''gpt-4-1106-preview'' (calls initial_state) =
    (Inr parsed_with_error, 900,
     \<lparr> tokenCounts = \<lparr> input' = 10, output' = 5 \<rparr>,
       requests = [fetch_request openai ''shoe shop near me'' ''sk-123''
                     ''gpt-4-1106-preview''] \<rparr>)"
    by (simp add: classifyTerm_env_after [OF match_braces_answers(2)] validateResponse_parsed
        initial_state_def tokenCounts_initial_def)
  show ?thesis
    by (subst attempts.simps,
        simp add: MAX_RETRIES_def getClassifierFunction_Some call rnd_900,
        simp add: parsed_with_error_def initial_state_def)
qed


text \<open>
  C2, amended. For every term: if every one of the \<open>n\<close> attempts (\<open>MAX_RETRIES\<close> is 3)
  throws, the loop returns the terminal result with the category ERROR, the confidence
  0 and as its error the text of the last error, which is not empty; if an attempt
  returns after \<open>j\<close> that threw, the loop stops there (the classify function was
  called \<open>j + 1\<close> times) and returns the object that attempt returned with \<open>term\<close> and
  \<open>duration\<close> set, so the loop adds no error field: the error field of the result is
  that of the object returned. Whatever the classify function does, \<open>classifyTerms\<close>
  returns a result for every term, and a run with valid settings and a key writes the
  tab Results with a row for every term.
\<close>

theorem retry_driver_outcome:
  "(0 < n \<and> (\<forall>j < n. isl (outcome f t k v j (calls st))) \<longrightarrow>
      attempts f n t k v 0 st =
        (Some \<lparr> category = Str ''ERROR'', confidence = Number (Fin 0), term' = Str t,
                duration = Undefined,
                error = Str (toString (projl (outcome f t k v (n - 1) (calls st)))) \<rparr>,
         st\<lparr> calls := state_after f t k v n (calls st),
             slept := slept st @ backoff 0 (n - 1) \<rparr>) \<and>
      toString (projl (outcome f t k v (n - 1) (calls st))) \<noteq> []) \<and>
   (j < n \<and> (\<forall>i < j. isl (outcome f t k v i (calls st))) \<and>
    outcome f t k v j (calls st) = Inr r \<longrightarrow>
      attempts f n t k v 0 st =
        (Some (r\<lparr> term' := Str t,
                  duration := Number (rnd (real (elapsed f t k v j (calls st)) / 1000)) \<rparr>),
         st\<lparr> calls := state_after f t k v (Suc j) (calls st),
             slept := slept st @ backoff 0 j \<rparr>) \<and>
      error (the (fst (attempts f n t k v 0 st))) = error r) \<and>
   (MODELS (model s) \<noteq> Missing \<longrightarrow>
      (\<exists>rs st'. classifyTerms E s apiKey cst = Inr (map Some rs, st') \<and>
                 map term' rs = map Str (topTerms s))) \<and>
   (readAndValidateSettings sheet = Inr s \<and> getAPIKey sheet (model s) = Inr apiKey \<longrightarrow>
      (\<exists>rs. results_tab (main E sheet) = Some (results_header # map result_row rs) \<and>
            map term' rs = map Str (topTerms s)))"
proof (intro conjI impI)
  assume h: "0 < n \<and> (\<forall>j < n. isl (outcome f t k v j (calls st)))"
  then show "attempts f n t k v 0 st =
        (Some \<lparr> category = Str ''ERROR'', confidence = Number (Fin 0), term' = Str t,
                duration = Undefined,
                error = Str (toString (projl (outcome f t k v (n - 1) (calls st)))) \<rparr>,
         st\<lparr> calls := state_after f t k v n (calls st),
             slept := slept st @ backoff 0 (n - 1) \<rparr>)"
    using attempts_all_fail [of 0 n f t k v st] by simp
next
  show "toString (projl (outcome f t k v (n - 1) (calls st))) \<noteq> []"
    by (rule toString_not_empty)
next
  assume h: "j < n \<and> (\<forall>i < j. isl (outcome f t k v i (calls st))) \<and>
    outcome f t k v j (calls st) = Inr r"
  then show eq: "attempts f n t k v 0 st =
        (Some (r\<lparr> term' := Str t,
                  duration := Number (rnd (real (elapsed f t k v j (calls st)) / 1000)) \<rparr>),
         st\<lparr> calls := state_after f t k v (Suc j) (calls st),
             slept := slept st @ backoff 0 j \<rparr>)"
    using attempts_success [of 0 j n f t k v st r] by simp
  show "error (the (fst (attempts f n t k v 0 st))) = error r"
    unfolding eq by simp
next
  assume "MODELS (model s) \<noteq> Missing"
  from classifyTerms_with_all [OF this MAX_RETRIES_pos]
  show "\<exists>rs st'. classifyTerms E s apiKey cst = Inr (map Some rs, st') \<and>
                 map term' rs = map Str (topTerms s)"
    unfolding classifyTerms_def by blast
next
  assume "readAndValidateSettings sheet = Inr s \<and> getAPIKey sheet (model s) = Inr apiKey"
  then show "\<exists>rs. results_tab (main E sheet) = Some (results_header # map result_row rs) \<and>
            map term' rs = map Str (topTerms s)"
    using main_results by blast
qed


theorem retry_driver_outcome_witness:
  "fst (attempts (getClassifierFunction (env_after 3 answer_plain parsed_plain) ''openai'')
         MAX_RETRIES ''trail shoes'' ''sk-123'' (Some ''gpt-4-1106-preview'') 0 initial_state) =
     Some \<lparr> category = Str ''ERROR'', confidence = Number (Fin 0), term' = Str ''trail shoes'',
            duration = Undefined, error = Str ''Error: API error (429): rate limited'' \<rparr> \<and>
   fst (attempts (getClassifierFunction (env_after 2 answer_plain parsed_plain) ''openai'')
         MAX_RETRIES ''trail shoes'' ''sk-123'' (Some ''gpt-4-1106-preview'') 0 initial_state) =
     Some (parsed_plain\<lparr> term' := Str ''trail shoes'', duration := Number (Fin 0.9) \<rparr>) \<and>
   error (the (fst (attempts (getClassifierFunction (env_after 2 answer_plain parsed_plain) ''openai'')
         MAX_RETRIES ''trail shoes'' ''sk-123'' (Some ''gpt-4-1106-preview'') 0 initial_state))) =
     Undefined \<and>
   (\<exists>rs st'. classifyTerms (env_after 2 answer_plain parsed_plain) example_settings ''sk-123''
                initial_state = Inr (map Some rs, st') \<and>
              map term' rs = map Str (topTerms example_settings)) \<and>
   (\<exists>rs. results_tab (main (env_after 2 answer_plain parsed_plain) example_sheet) =
            Some (results_header # map result_row rs) \<and>
          map term' rs = map Str (topTerms example_settings))"
proof -
  let ?F3 = "getClassifierFunction (env_after 3 answer_plain parsed_plain) ''openai''"
  let ?F2 = "getClassifierFunction (env_after 2 answer_plain parsed_plain) ''openai''"
  let ?v = "Some ''gpt-4-1106-preview''"
  note out = outcome_env_after [OF match_braces_answers(1)]
  have fail3: "0 < MAX_RETRIES \<and>
      (\<forall>j < MAX_RETRIES. isl (outcome ?F3 ''trail shoes'' ''sk-123'' ?v j (calls initial_state)))"
    by (simp add: out initial_requests MAX_RETRIES_def)
  have last3: "toString (projl (outcome ?F3 ''trail shoes'' ''sk-123'' ?v (MAX_RETRIES - Suc 0)
      (calls initial_state))) = ''Error: API error (429): rate limited''"
    by (simp add: out initial_requests MAX_RETRIES_def toString_def)
  have ok2: "2 < MAX_RETRIES \<and>
      (\<forall>i < 2. isl (outcome ?F2 ''trail shoes'' ''sk-123'' ?v i (calls initial_state))) \<and>
      outcome ?F2 ''trail shoes'' ''sk-123'' ?v 2 (calls initial_state) = Inr parsed_plain"
    by (simp add: out initial_requests MAX_RETRIES_def validateResponse_parsed)
  have ms2: "elapsed ?F2 ''trail shoes'' ''sk-123'' ?v 2 (calls initial_state) = 900"
    by (simp add: elapsed_env_after [OF match_braces_answers(1)] initial_requests)
  have error_parsed_plain: "error parsed_plain = Undefined"
    by (simp add: parsed_plain_def)
  have sheet: "readAndValidateSettings example_sheet = Inr example_settings \<and>
      getAPIKey example_sheet (model example_settings) = Inr ''sk-123''"
    by (simp add: readAndValidateSettings_example getAPIKey_example example_settings_def)
  note A = retry_driver_outcome [where n = MAX_RETRIES and f = ?F3 and t = "''trail shoes''"
      and k = "''sk-123''" and v = ?v and st = initial_state]
  note B = retry_driver_outcome [where n = MAX_RETRIES and f = ?F2 and t = "''trail shoes''"
      and k = "''sk-123''" and v = ?v and st = initial_state and j = 2 and r = parsed_plain
      and s = example_settings and E = "env_after 2 answer_plain parsed_plain"
      and apiKey = "''sk-123''" and cst = initial_state and sheet = example_sheet]
  from A [THEN conjunct1, THEN mp, OF fail3] have a: "fst (attempts ?F3 MAX_RETRIES
      ''trail shoes'' ''sk-123'' ?v 0 initial_state) =
     Some \<lparr> category = Str ''ERROR'', confidence = Number (Fin 0), term' = Str ''trail shoes'',
            duration = Undefined, error = Str ''Error: API error (429): rate limited'' \<rparr>"
    by (simp add: last3)
  from B [THEN conjunct2, THEN conjunct1, THEN mp, OF ok2] have b: "fst (attempts ?F2 MAX_RETRIES
      ''trail shoes'' ''sk-123'' ?v 0 initial_state) =
     Some (parsed_plain\<lparr> term' := Str ''trail shoes'', duration := Number (Fin 0.9) \<rparr>)"
    "error (the (fst (attempts ?F2 MAX_RETRIES ''trail shoes'' ''sk-123'' ?v 0 initial_state))) =
     Undefined"
    by (simp_all add: ms2 rnd_900 error_parsed_plain)
  from B [THEN conjunct2, THEN conjunct2, THEN conjunct1, THEN mp, OF example_settings_known]
  have c: "\<exists>rs st'. classifyTerms (env_after 2 answer_plain parsed_plain) example_settings ''sk-123''
                initial_state = Inr (map Some rs, st') \<and>
              map term' rs = map Str (topTerms example_settings)" .
  from B [THEN conjunct2, THEN conjunct2, THEN conjunct2, THEN mp, OF sheet]
  have d: "\<exists>rs. results_tab (main (env_after 2 answer_plain parsed_plain) example_sheet) =
            Some (results_header # map result_row rs) \<and>
          map term' rs = map Str (topTerms example_settings)" .
  from a b c d show ?thesis by (intro conjI)
qed

lemma backoff_0_2: "backoff 0 2 = [1000, 2000]"
  by (simp add: backoff_def upt_rec)

text \<open>
  C3, as the claim states it, fails. The claim: the attempt counts from 1, so that the
  first back-off sleep is 2 seconds, and the sleeps of \<open>maxAttempts\<close> failures add up to
  \<open>2^1 + ... + 2^(maxAttempts-1)\<close> seconds. The loop counts \<open>attempt\<close> from 0 and sleeps
  \<open>Math.pow(2, attempt) * 1000\<close> milliseconds: when the three attempts for a term fail,
  it sleeps 1000 and then 2000 milliseconds, not 2000 and 4000.
\<close>

theorem backoff_first_sleep_counterexample:
  "slept (snd (attempts (getClassifierFunction (env_after 3 answer_plain parsed_plain) ''openai'')
      MAX_RETRIES ''trail shoes'' ''sk-123'' (Some ''gpt-4-1106-preview'') 0 initial_state)) =
     [1000, 2000] \<and>
   slept (snd (attempts (getClassifierFunction (env_after 3 answer_plain parsed_plain) ''openai'')
      MAX_RETRIES ''trail shoes'' ''sk-123'' (Some ''gpt-4-1106-preview'') 0 initial_state)) \<noteq>
     [2 ^ 1 * 1000, 2 ^ 2 * 1000]"
proof -
  let ?F3 = "getClassifierFunction (env_after 3 answer_plain parsed_plain) ''openai''"
  let ?v = "Some ''gpt-4-1106-preview''"
  have fail3: "\<forall>j < 3 - 0. isl (outcome ?F3 ''trail shoes'' ''sk-123'' ?v j (calls initial_state))"
    by (simp add: outcome_env_after [OF match_braces_answers(1)] initial_requests)
  have "slept (snd (attempts ?F3 3 ''trail shoes'' ''sk-123'' ?v 0 initial_state)) = [1000, 2000]"
    by (subst attempts_all_fail [OF _ fail3]) (simp_all add: initial_requests backoff_0_2)
  then show ?thesis by (simp add: MAX_RETRIES_def)
qed

text \<open>
  C3, amended. Between consecutive attempts the loop sleeps \<open>2^attempt\<close> seconds with
  \<open>attempt\<close> starting at 0, so the first back-off sleep is 1 second. When all \<open>n\<close>
  attempts throw, there are \<open>n - 1\<close> sleeps, of \<open>2^0, ..., 2^(n-2)\<close> seconds, which add up
  to \<open>2^(n-1) - 1\<close> seconds, and no sleep follows the last failed attempt. When an attempt
  returns after \<open>j\<close> that threw, there were \<open>j\<close> sleeps, of \<open>2^0, ..., 2^(j-1)\<close> seconds.
\<close>

theorem backoff_schedule:
  "(0 < n \<and> (\<forall>j < n. isl (outcome f t k v j (calls st))) \<longrightarrow>
      slept (snd (attempts f n t k v 0 st)) = slept st @ map (\<lambda>j. 2 ^ j * 1000) [0..<n - 1] \<and>
      length (map (\<lambda>j. 2 ^ j * 1000 :: nat) [0..<n - 1]) = n - 1 \<and>
      sum_list (map (\<lambda>j. 2 ^ j * 1000 :: nat) [0..<n - 1]) = (2 ^ (n - 1) - 1) * 1000) \<and>
   (j < n \<and> (\<forall>i < j. isl (outcome f t k v i (calls st))) \<and>
    outcome f t k v j (calls st) = Inr r \<longrightarrow>
      slept (snd (attempts f n t k v 0 st)) = slept st @ map (\<lambda>j. 2 ^ j * 1000) [0..<j])"
proof (intro conjI impI)
  assume h: "0 < n \<and> (\<forall>j < n. isl (outcome f t k v j (calls st)))"
  then show "slept (snd (attempts f n t k v 0 st)) =
      slept st @ map (\<lambda>j. 2 ^ j * 1000) [0..<n - 1]"
    using attempts_all_fail [of 0 n f t k v st] by (simp add: backoff_def)
next
  show "length (map (\<lambda>j. 2 ^ j * 1000 :: nat) [0..<n - 1]) = n - 1"
    by simp
next
  show "sum_list (map (\<lambda>j. 2 ^ j * 1000 :: nat) [0..<n - 1]) = (2 ^ (n - 1) - 1) * 1000"
    using sum_list_backoff [of "n - 1"] by (simp add: backoff_def)
next
  assume "j < n \<and> (\<forall>i < j. isl (outcome f t k v i (calls st))) \<and>
    outcome f t k v j (calls st) = Inr r"
  then show "slept (snd (attempts f n t k v 0 st)) = slept st @ map (\<lambda>j. 2 ^ j * 1000) [0..<j]"
    using attempts_success [of 0 j n f t k v st r] by (simp add: backoff_def)
qed

theorem backoff_schedule_witness:
  "slept (snd (attempts (getClassifierFunction (env_after 3 answer_plain parsed_plain) ''openai'')
      MAX_RETRIES ''trail shoes'' ''sk-123'' (Some ''gpt-4-1106-preview'') 0 initial_state)) =
     [2 ^ 0 * 1000, 2 ^ 1 * 1000] \<and>
   sum_list [2 ^ 0 * 1000, 2 ^ 1 * 1000] = (2 ^ (MAX_RETRIES - 1) - 1) * (1000 :: nat) \<and>
   slept (snd (attempts (getClassifierFunction (env_after 2 answer_plain parsed_plain) ''openai'')
      MAX_RETRIES ''trail shoes'' ''sk-123'' (Some ''gpt-4-1106-preview'') 0 initial_state)) =
     [2 ^ 0 * 1000, 2 ^ 1 * 1000] \<and>
   slept (snd (attempts (getClassifierFunction (env_after 1 answer_plain parsed_plain) ''openai'')
      MAX_RETRIES ''trail shoes'' ''sk-123'' (Some ''gpt-4-1106-preview'') 0 initial_state)) =
     [2 ^ 0 * 1000]"
proof -
  let ?F3 = "getClassifierFunction (env_after 3 answer_plain parsed_plain) ''openai''"
  let ?F2 = "getClassifierFunction (env_after 2 answer_plain parsed_plain) ''openai''"
  let ?F1 = "getClassifierFunction (env_after 1 answer_plain parsed_plain) ''openai''"
  let ?v = "Some ''gpt-4-1106-preview''"
  note out = outcome_env_after [OF match_braces_answers(1)]
  have fail3: "0 < MAX_RETRIES \<and>
      (\<forall>j < MAX_RETRIES. isl (outcome ?F3 ''trail shoes'' ''sk-123'' ?v j (calls initial_state)))"
    by (simp add: out initial_requests MAX_RETRIES_def)
  have ok2: "2 < MAX_RETRIES \<and>
      (\<forall>i < 2. isl (outcome ?F2 ''trail shoes'' ''sk-123'' ?v i (calls initial_state))) \<and>
      outcome ?F2 ''trail shoes'' ''sk-123'' ?v 2 (calls initial_state) = Inr parsed_plain"
    by (simp add: out initial_requests MAX_RETRIES_def validateResponse_parsed)
  have ok1: "1 < MAX_RETRIES \<and>
      (\<forall>i < 1. isl (outcome ?F1 ''trail shoes'' ''sk-123'' ?v i (calls initial_state))) \<and>
      outcome ?F1 ''trail shoes'' ''sk-123'' ?v 1 (calls initial_state) = Inr parsed_plain"
    by (simp add: out initial_requests MAX_RETRIES_def validateResponse_parsed)
  note A = backoff_schedule [where n = MAX_RETRIES and f = ?F3 and t = "''trail shoes''"
      and k = "''sk-123''" and v = ?v and st = initial_state, THEN conjunct1, THEN mp, OF fail3]
  note B = backoff_schedule [where n = MAX_RETRIES and f = ?F2 and t = "''trail shoes''"
      and k = "''sk-123''" and v = ?v and st = initial_state and j = 2 and r = parsed_plain,
      THEN conjunct2, THEN mp, OF ok2]
  note C = backoff_schedule [where n = MAX_RETRIES and f = ?F1 and t = "''trail shoes''"
      and k = "''sk-123''" and v = ?v and st = initial_state and j = 1 and r = parsed_plain,
      THEN conjunct2, THEN mp, OF ok1]
  have upt: "[0..<MAX_RETRIES - 1] = [0, 1]" "[0..<2] = [0, 1]" "[0..<1] = [0]"
    by (simp_all add: MAX_RETRIES_def upt_rec)
  from A B C show ?thesis
    by (simp add: upt initial_requests MAX_RETRIES_def)
qed

section \<open>Claims about the validation of an answer\<close>

lemma validateResponse_fails_iff:
  "isl (validateResponse nstr r) \<longleftrightarrow> \<not> (truthy (category r) \<and> CATEGORIES_includes (category r))"
  by (simp add: validateResponse_def)

lemma validateResponse_valid:
  "truthy (category r) \<Longrightarrow> CATEGORIES_includes (category r) \<Longrightarrow>
   validateResponse nstr r =
     Inr (if bad_confidence (confidence r) then r\<lparr> confidence := Number (Fin 0.5) \<rparr> else r)"
  by (simp add: validateResponse_def)

lemma bad_confidence_not_number: "\<forall>d. v \<noteq> Number d \<Longrightarrow> bad_confidence v"
  by (cases v rule: bad_confidence.cases) simp_all

lemma validateResponse_Inr:
  "validateResponse nstr r = Inr r' \<Longrightarrow> category r' = category r \<and> CATEGORIES_includes (category r)"
  by (auto simp: validateResponse_def split: if_splits)

lemma classifyTerm_success:
  assumes "classifyTerm E t k m st = (Inr r', ms, st')"
  shows "\<exists>p response data text u r.
    modelType m = Inr p \<and>
    fetch E (length (requests st)) (fetch_request p t k m) = (Inr response, ms) \<and>
    getResponseCode response = 200 \<and>
    JSON_parse_data E (getContentText response) = Inr data \<and>
    extractResponse p data = Inr (Str text, u) \<and>
    validateResponse (number_toString E) r = Inr r' \<and>
    st' = st\<lparr> requests := requests st @ [fetch_request p t k m],
               tokenCounts := updateTokenCounts (Some u) (tokenCounts st) \<rparr>"
  using assms
  by (auto simp: classifyTerm_def Let_def
      split: sum.splits prod.splits if_splits option.splits jsval.splits)

text \<open>
  C4. Validation fails exactly when the category is not a valid one: the confidence
  alone never makes it fail. For every parsed object with a valid category: when the
  confidence is missing, is not a number, or is a number outside the interval from 0 to
  1 (an infinity included), \<open>validateResponse\<close> replaces it with exactly 0.5 and returns
  the object; a confidence in the interval, 0 and 1 included, is returned unchanged.
\<close>

theorem validateResponse_confidence:
  "(isl (validateResponse nstr r) \<longleftrightarrow>
      \<not> (truthy (category r) \<and> CATEGORIES_includes (category r))) \<and>
   (truthy (category r) \<and> CATEGORIES_includes (category r) \<longrightarrow>
      (confidence r = Undefined \<longrightarrow>
         validateResponse nstr r = Inr (r\<lparr> confidence := Number (Fin 0.5) \<rparr>)) \<and>
      ((\<forall>d. confidence r \<noteq> Number d) \<longrightarrow>
         validateResponse nstr r = Inr (r\<lparr> confidence := Number (Fin 0.5) \<rparr>)) \<and>
      (\<forall>a. confidence r = Number (Fin a) \<and> (a < 0 \<or> 1 < a) \<longrightarrow>
         validateResponse nstr r = Inr (r\<lparr> confidence := Number (Fin 0.5) \<rparr>)) \<and>
      (confidence r = Number PInf \<or> confidence r = Number NInf \<longrightarrow>
         validateResponse nstr r = Inr (r\<lparr> confidence := Number (Fin 0.5) \<rparr>)) \<and>
      (\<forall>a. confidence r = Number (Fin a) \<and> 0 \<le> a \<and> a \<le> 1 \<longrightarrow>
         validateResponse nstr r = Inr r))"
proof (intro conjI impI allI)
  show "isl (validateResponse nstr r) \<longleftrightarrow>
      \<not> (truthy (category r) \<and> CATEGORIES_includes (category r))"
    by (rule validateResponse_fails_iff)
next
  assume "truthy (category r) \<and> CATEGORIES_includes (category r)"
  then have v: "validateResponse nstr r =
     Inr (if bad_confidence (confidence r) then r\<lparr> confidence := Number (Fin 0.5) \<rparr> else r)"
    by (simp add: validateResponse_valid)
  {
    assume "confidence r = Undefined"
    then show "validateResponse nstr r = Inr (r\<lparr> confidence := Number (Fin 0.5) \<rparr>)"
      by (simp add: v)
  next
    assume "\<forall>d. confidence r \<noteq> Number d"
    then show "validateResponse nstr r = Inr (r\<lparr> confidence := Number (Fin 0.5) \<rparr>)"
      by (simp add: v bad_confidence_not_number)
  next
    fix a assume "confidence r = Number (Fin a) \<and> (a < 0 \<or> 1 < a)"
    then show "validateResponse nstr r = Inr (r\<lparr> confidence := Number (Fin 0.5) \<rparr>)"
      by (auto simp: v)
  next
    assume "confidence r = Number PInf \<or> confidence r = Number NInf"
    then show "validateResponse nstr r = Inr (r\<lparr> confidence := Number (Fin 0.5) \<rparr>)"
      by (auto simp: v)
  next
    fix a assume "confidence r = Number (Fin a) \<and> 0 \<le> a \<and> a \<le> 1"
    then show "validateResponse nstr r = Inr r"
      by (auto simp: v)
  }
qed

lemma parsed_plain_category:
  "truthy (category (parsed_plain\<lparr> confidence := c \<rparr>)) \<and>
   CATEGORIES_includes (category (parsed_plain\<lparr> confidence := c \<rparr>))"
  by (simp add: parsed_plain_def CATEGORIES_includes_def CATEGORIES_def)

theorem validateResponse_confidence_witness:
  "validateResponse (\<lambda>d. ''0'') (parsed_plain\<lparr> confidence := Undefined \<rparr>) =
     Inr (parsed_plain\<lparr> confidence := Number (Fin 0.5) \<rparr>) \<and>
   validateResponse (\<lambda>d. ''0'') (parsed_plain\<lparr> confidence := Str ''high'' \<rparr>) =
     Inr (parsed_plain\<lparr> confidence := Number (Fin 0.5) \<rparr>) \<and>
   validateResponse (\<lambda>d. ''0'') (parsed_plain\<lparr> confidence := Number (Fin 1.5) \<rparr>) =
     Inr (parsed_plain\<lparr> confidence := Number (Fin 0.5) \<rparr>) \<and>
   validateResponse (\<lambda>d. ''0'') (parsed_plain\<lparr> confidence := Number (Fin (- 0.2)) \<rparr>) =
     Inr (parsed_plain\<lparr> confidence := Number (Fin 0.5) \<rparr>) \<and>
   validateResponse (\<lambda>d. ''0'') (parsed_plain\<lparr> confidence := Number PInf \<rparr>) =
     Inr (parsed_plain\<lparr> confidence := Number (Fin 0.5) \<rparr>) \<and>
   validateResponse (\<lambda>d. ''0'') (parsed_plain\<lparr> confidence := Number (Fin 0) \<rparr>) =
     Inr (parsed_plain\<lparr> confidence := Number (Fin 0) \<rparr>) \<and>
   validateResponse (\<lambda>d. ''0'') (parsed_plain\<lparr> confidence := Number (Fin 1) \<rparr>) =
     Inr (parsed_plain\<lparr> confidence := Number (Fin 1) \<rparr>) \<and>
   \<not> isl (validateResponse (\<lambda>d. ''0'') (parsed_plain\<lparr> confidence := Str ''high'' \<rparr>))"
proof -
  note T = validateResponse_confidence [where nstr = "\<lambda>d. ''0''"]
  note V = T [THEN conjunct2, THEN mp, OF parsed_plain_category]
  have a: "validateResponse (\<lambda>d. ''0'') (parsed_plain\<lparr> confidence := Undefined \<rparr>) =
     Inr (parsed_plain\<lparr> confidence := Number (Fin 0.5) \<rparr>)"
    using V [of Undefined, THEN conjunct1] by simp
  have b: "validateResponse (\<lambda>d. ''0'') (parsed_plain\<lparr> confidence := Str ''high'' \<rparr>) =
     Inr (parsed_plain\<lparr> confidence := Number (Fin 0.5) \<rparr>)"
    using V [of "Str ''high''", THEN conjunct2, THEN conjunct1] by simp
  have c: "validateResponse (\<lambda>d. ''0'') (parsed_plain\<lparr> confidence := Number (Fin 1.5) \<rparr>) =
     Inr (parsed_plain\<lparr> confidence := Number (Fin 0.5) \<rparr>)"
    using V [of "Number (Fin 1.5)", THEN conjunct2, THEN conjunct2, THEN conjunct1,
      THEN spec, of "1.5"] by simp
  have d: "validateResponse (\<lambda>d. ''0'') (parsed_plain\<lparr> confidence := Number (Fin (- 0.2)) \<rparr>) =
     Inr (parsed_plain\<lparr> confidence := Number (Fin 0.5) \<rparr>)"
    using V [of "Number (Fin (- 0.2))", THEN conjunct2, THEN conjunct2, THEN conjunct1,
      THEN spec, of "- 0.2"] by simp
  have e: "validateResponse (\<lambda>d. ''0'') (parsed_plain\<lparr> confidence := Number PInf \<rparr>) =
     Inr (parsed_plain\<lparr> confidence := Number (Fin 0.5) \<rparr>)"
    using V [of "Number PInf", THEN conjunct2, THEN conjunct2, THEN conjunct2, THEN conjunct1]
    by simp
  have f: "validateResponse (\<lambda>d. ''0'') (parsed_plain\<lparr> confidence := Number (Fin 0) \<rparr>) =
     Inr (parsed_plain\<lparr> confidence := Number (Fin 0) \<rparr>)"
    using V [of "Number (Fin 0)", THEN conjunct2, THEN conjunct2, THEN conjunct2, THEN conjunct2,
      THEN spec, of 0] by simp
  have g: "validateResponse (\<lambda>d. ''0'') (parsed_plain\<lparr> confidence := Number (Fin 1) \<rparr>) =
     Inr (parsed_plain\<lparr> confidence := Number (Fin 1) \<rparr>)"
    using V [of "Number (Fin 1)", THEN conjunct2, THEN conjunct2, THEN conjunct2, THEN conjunct2,
      THEN spec, of 1] by simp
  have h: "\<not> isl (validateResponse (\<lambda>d. ''0'') (parsed_plain\<lparr> confidence := Str ''high'' \<rparr>))"
    using T [of "parsed_plain\<lparr> confidence := Str ''high'' \<rparr>", THEN conjunct1]
      parsed_plain_category [of "Str ''high''"] by simp
  from a b c d e f g h show ?thesis by (intro conjI)
qed


text \<open>
  C6. \<open>validateResponse\<close> throws the error \<open>Invalid category\<close> when the category is
  absent, and whenever the category is not one of \<open>CATEGORIES\<close>. A result that it
  returns has the category of the parsed object, one of \<open>CATEGORIES\<close>; so has every
  result that \<open>classifyTerm\<close> returns.
\<close>

theorem validateResponse_category:
  "(category r = Undefined \<longrightarrow>
      validateResponse nstr r = Inl (Error ''Invalid category: undefined'')) \<and>
   (\<not> CATEGORIES_includes (category r) \<longrightarrow>
      validateResponse nstr r =
        Inl (Error (''Invalid category: '' @ js_String nstr (category r)))) \<and>
   (\<forall>r'. validateResponse nstr r = Inr r' \<longrightarrow>
      category r' = category r \<and> (\<exists>c \<in> set CATEGORIES. category r' = Str c)) \<and>
   (\<forall>r' ms st'. classifyTerm E t k m st = (Inr r', ms, st') \<longrightarrow>
      (\<exists>c \<in> set CATEGORIES. category r' = Str c))"
proof (intro conjI impI allI)
  assume "category r = Undefined"
  then show "validateResponse nstr r = Inl (Error ''Invalid category: undefined'')"
    by (simp add: validateResponse_def)
next
  assume "\<not> CATEGORIES_includes (category r)"
  then show "validateResponse nstr r =
        Inl (Error (''Invalid category: '' @ js_String nstr (category r)))"
    by (simp add: validateResponse_def)
next
  fix r' assume "validateResponse nstr r = Inr r'"
  from validateResponse_Inr [OF this]
  show "category r' = category r" "\<exists>c \<in> set CATEGORIES. category r' = Str c"
    by (auto simp: CATEGORIES_includes_def)
next
  fix r' ms st' assume "classifyTerm E t k m st = (Inr r', ms, st')"
  from classifyTerm_success [OF this] obtain r0 where
    "validateResponse (number_toString E) r0 = Inr r'" by blast
  from validateResponse_Inr [OF this]
  show "\<exists>c \<in> set CATEGORIES. category r' = Str c"
    by (auto simp: CATEGORIES_includes_def)
qed

theorem validateResponse_category_witness:
  "validateResponse (\<lambda>d. ''0'') (parsed_plain\<lparr> category := Undefined \<rparr>) =
     Inl (Error ''Invalid category: undefined'') \<and>
   validateResponse (\<lambda>d. ''0'') (parsed_plain\<lparr> category := Str ''TRANSACTIONAL'' \<rparr>) =
     Inl (Error ''Invalid category: TRANSACTIONAL'') \<and>
   validateResponse (\<lambda>d. ''0'') (parsed_plain\<lparr> category := Str ''commercial'' \<rparr>) =
     Inl (Error ''Invalid category: commercial'') \<and>
   validateResponse (\<lambda>d. ''0'') parsed_plain = Inr parsed_plain \<and>
   (\<exists>c \<in> set CATEGORIES. category parsed_plain = Str c) \<and>
   (\<exists>c \<in> set CATEGORIES.
      category (the (fst (attempts
        (getClassifierFunction (env_after 0 answer_plain parsed_plain) ''openai'') MAX_RETRIES
        ''best running shoes'' ''sk-123'' (Some ''gpt-4-1106-preview'') 0 initial_state))) = Str c)"
proof -
  note T = validateResponse_category [where nstr = "\<lambda>d. ''0''"]
  have a: "validateResponse (\<lambda>d. ''0'') (parsed_plain\<lparr> category := Undefined \<rparr>) =
     Inl (Error ''Invalid category: undefined'')"
    using T [of "parsed_plain\<lparr> category := Undefined \<rparr>", THEN conjunct1] by simp
  have b: "validateResponse (\<lambda>d. ''0'') (parsed_plain\<lparr> category := Str ''TRANSACTIONAL'' \<rparr>) =
     Inl (Error ''Invalid category: TRANSACTIONAL'')"
    using T [of "parsed_plain\<lparr> category := Str ''TRANSACTIONAL'' \<rparr>", THEN conjunct2, THEN conjunct1]
    by (simp add: CATEGORIES_includes_def CATEGORIES_def)
  have c: "validateResponse (\<lambda>d. ''0'') (parsed_plain\<lparr> category := Str ''commercial'' \<rparr>) =
     Inl (Error ''Invalid category: commercial'')"
    using T [of "parsed_plain\<lparr> category := Str ''commercial'' \<rparr>", THEN conjunct2, THEN conjunct1]
    by (simp add: CATEGORIES_includes_def CATEGORIES_def)
  have d: "validateResponse (\<lambda>d. ''0'') parsed_plain = Inr parsed_plain"
    by (rule validateResponse_parsed)
  have e: "\<exists>c \<in> set CATEGORIES. category parsed_plain = Str c"
    using T [of parsed_plain, THEN conjunct2, THEN conjunct2, THEN conjunct1, THEN spec,
      of parsed_plain] d by simp
  have call: "classifyTerm (env_after 0 answer_plain parsed_plain) ''best running shoes''
      ''sk-123'' ''gpt-4-1106-preview'' (calls initial_state) =
    (Inr parsed_plain, 900,
     (calls initial_state)\<lparr> requests := requests (calls initial_state) @
         [fetch_request openai ''best running shoes'' ''sk-123'' ''gpt-4-1106-preview''],
       tokenCounts := \<lparr> input' = input' (tokenCounts (calls initial_state)) + 10,
                        output' = output' (tokenCounts (calls initial_state)) + 5 \<rparr> \<rparr>)"
    by (simp add: classifyTerm_env_after [OF match_braces_answers(1)] validateResponse_parsed)
  have att: "fst (attempts
        (getClassifierFunction (env_after 0 answer_plain parsed_plain) ''openai'') MAX_RETRIES
        ''best running shoes'' ''sk-123'' (Some ''gpt-4-1106-preview'') 0 initial_state) =
      Some (parsed_plain\<lparr> term' := Str ''best running shoes'', duration := Number (Fin (9 / 10)) \<rparr>)"
    by (subst attempts.simps)
      (simp add: MAX_RETRIES_def getClassifierFunction_Some call rnd_900)
  have f: "\<exists>c \<in> set CATEGORIES.
      category (the (fst (attempts
        (getClassifierFunction (env_after 0 answer_plain parsed_plain) ''openai'') MAX_RETRIES
        ''best running shoes'' ''sk-123'' (Some ''gpt-4-1106-preview'') 0 initial_state))) = Str c"
    using T [where E = "env_after 0 answer_plain parsed_plain" and t = "''best running shoes''"
        and k = "''sk-123''" and m = "''gpt-4-1106-preview''" and st = "calls initial_state",
        THEN conjunct2, THEN conjunct2, THEN conjunct2, THEN spec, THEN spec, THEN spec,
        THEN mp, OF call]
    by (simp add: att)
  from a b c d e f show ?thesis by (intro conjI)
qed

section \<open>Claims about the results\<close>

lemma result_row_nth:
  "result_row r ! 0 = term' r" "result_row r ! 1 = category r"
  "result_row r ! 2 = js_or (confidence r) (Str [])"
  "result_row r ! 3 = js_or (duration r) (Str [])"
  "result_row r ! 4 = js_or (error r) (Str [])"
  by (simp_all add: result_row_def)

lemma map_hd_result_row: "map hd (map result_row rs) = map term' rs"
  by (simp add: hd_result_row)

text \<open>
  C9. For settings whose provider the table knows, and whatever the classify function
  does, \<open>classifyTerms\<close> returns exactly one result for each term, in the order of the
  terms, and the property \<open>term\<close> of each result is its term; \<open>outputResults\<close> then
  writes the header and one row for each term, in that order, with the term in the
  first column. A run whose settings are valid and which finds a key has a term list
  that is not empty and leaves such a tab Results.
\<close>

theorem classifyTerms_one_result_per_term:
  "(MODELS (model s) \<noteq> Missing \<longrightarrow>
      (\<exists>rs st'. classifyTerms_with f MAX_RETRIES s apiKey st = Inr (map Some rs, st') \<and>
         length rs = length (topTerms s) \<and>
         map term' rs = map Str (topTerms s) \<and>
         outputResults (map Some rs) = Inr (results_header # map result_row rs) \<and>
         map hd (map result_row rs) = map Str (topTerms s))) \<and>
   (readAndValidateSettings sheet = Inr s \<and> getAPIKey sheet (model s) = Inr apiKey \<longrightarrow>
      topTerms s \<noteq> [] \<and>
      (\<exists>rows. results_tab (main E sheet) = Some (results_header # rows) \<and>
              length rows = length (topTerms s) \<and>
              map hd rows = map Str (topTerms s)))"
proof (intro conjI impI)
  assume "MODELS (model s) \<noteq> Missing"
  from classifyTerms_with_all [OF this MAX_RETRIES_pos, of f apiKey st]
  obtain rs st' where
    c: "classifyTerms_with f MAX_RETRIES s apiKey st = Inr (map Some rs, st')"
      "map term' rs = map Str (topTerms s)"
    by blast
  from c(2) have "length rs = length (topTerms s)"
    using map_eq_imp_length_eq by blast
  with c show "\<exists>rs st'. classifyTerms_with f MAX_RETRIES s apiKey st = Inr (map Some rs, st') \<and>
         length rs = length (topTerms s) \<and>
         map term' rs = map Str (topTerms s) \<and>
         outputResults (map Some rs) = Inr (results_header # map result_row rs) \<and>
         map hd (map result_row rs) = map Str (topTerms s)"
    using outputResults_Some [of rs] map_hd_result_row [of rs] by auto
next
  assume "readAndValidateSettings sheet = Inr s \<and> getAPIKey sheet (model s) = Inr apiKey"
  then show "topTerms s \<noteq> []"
    by (auto simp: readAndValidateSettings_def Let_def split: option.splits if_splits)
next
  assume "readAndValidateSettings sheet = Inr s \<and> getAPIKey sheet (model s) = Inr apiKey"
  then obtain rs where
    r: "results_tab (main E sheet) = Some (results_header # map result_row rs)"
      "map term' rs = map Str (topTerms s)"
    using main_results by blast
  from r(2) have "length rs = length (topTerms s)"
    using map_eq_imp_length_eq by blast
  with r show "\<exists>rows. results_tab (main E sheet) = Some (results_header # rows) \<and>
              length rows = length (topTerms s) \<and>
              map hd rows = map Str (topTerms s)"
    using map_hd_result_row [of rs] by auto
qed

theorem classifyTerms_one_result_per_term_witness:
  "(\<exists>rs st'. classifyTerms_with (getClassifierFunction (env_after 4 answer_plain parsed_plain) ''openai'')
        MAX_RETRIES example_settings ''sk-123'' initial_state = Inr (map Some rs, st') \<and>
      length rs = length (topTerms example_settings) \<and>
      map term' rs = map Str (topTerms example_settings) \<and>
      outputResults (map Some rs) = Inr (results_header # map result_row rs) \<and>
      map hd (map result_row rs) = map Str (topTerms example_settings)) \<and>
   topTerms example_settings =
     [''best running shoes'', ''shoe shop near me'', ''trail shoes''] \<and>
   (\<exists>rows. results_tab (main (env_after 4 answer_plain parsed_plain) example_sheet) =
        Some (results_header # rows) \<and>
      length rows = length (topTerms example_settings) \<and>
      map hd rows = map Str (topTerms example_settings))"
proof -
  have sheet: "readAndValidateSettings example_sheet = Inr example_settings \<and>
      getAPIKey example_sheet (model example_settings) = Inr ''sk-123''"
    by (simp add: readAndValidateSettings_example getAPIKey_example example_settings_def)
  have terms: "topTerms example_settings =
      [''best running shoes'', ''shoe shop near me'', ''trail shoes'']"
    by (simp add: example_settings_def)
  note T = classifyTerms_one_result_per_term [where s = example_settings
      and f = "getClassifierFunction (env_after 4 answer_plain parsed_plain) ''openai''"
      and apiKey = "''sk-123''" and st = initial_state and sheet = example_sheet
      and E = "env_after 4 answer_plain parsed_plain"]
  note a = T [THEN conjunct1, THEN mp, OF example_settings_known]
  note b = T [THEN conjunct2, THEN mp, OF sheet, THEN conjunct2]
  from a terms b show ?thesis by (intro conjI)
qed

text \<open>
  C10. A result whose confidence is 0 is written with the empty string in the column
  Confidence, and a duration of 0 with the empty string in the column Duration; a
  truthy confidence or duration is written as it is. The terminal result of a term
  whose attempts all threw has the confidence 0, and no duration: its row holds the
  empty string in both columns.
\<close>

theorem outputResults_falsy_cells:
  "(confidence r = Number (Fin 0) \<longrightarrow> result_row r ! 2 = Str []) \<and>
   (duration r = Number (Fin 0) \<longrightarrow> result_row r ! 3 = Str []) \<and>
   (truthy (confidence r) \<longrightarrow> result_row r ! 2 = confidence r) \<and>
   (truthy (duration r) \<longrightarrow> result_row r ! 3 = duration r) \<and>
   result_row \<lparr> category = Str ''ERROR'', confidence = Number (Fin 0), term' = Str t,
                duration = Undefined, error = Str (toString e) \<rparr> =
     [Str t, Str ''ERROR'', Str [], Str [], Str (toString e)] \<and>
   (0 < n \<and> (\<forall>j < n. isl (outcome f t k v j (calls st))) \<longrightarrow>
      (\<exists>res. fst (attempts f n t k v 0 st) = Some res \<and>
         confidence res = Number (Fin 0) \<and> result_row res ! 2 = Str [] \<and>
         result_row res ! 3 = Str [])) \<and>
   outputResults (map Some rs) = Inr (results_header # map result_row rs)"
proof (intro conjI impI)
  assume h: "0 < n \<and> (\<forall>j < n. isl (outcome f t k v j (calls st)))"
  then have "fst (attempts f n t k v 0 st) =
      Some \<lparr> category = Str ''ERROR'', confidence = Number (Fin 0), term' = Str t,
             duration = Undefined,
             error = Str (toString (projl (outcome f t k v (n - 1) (calls st)))) \<rparr>"
    using attempts_all_fail [of 0 n f t k v st] by simp
  then show "\<exists>res. fst (attempts f n t k v 0 st) = Some res \<and>
         confidence res = Number (Fin 0) \<and> result_row res ! 2 = Str [] \<and>
         result_row res ! 3 = Str []"
    by (simp add: result_row_nth js_or_def)
qed (simp_all add: result_row_nth js_or_def result_row_def outputResults_Some toString_not_empty)

theorem outputResults_falsy_cells_witness:
  "result_row (parsed_plain\<lparr> confidence := Number (Fin 0), duration := Number (Fin 0) \<rparr>) ! 2 =
     Str [] \<and>
   result_row (parsed_plain\<lparr> confidence := Number (Fin 0), duration := Number (Fin 0) \<rparr>) ! 3 =
     Str [] \<and>
   result_row (parsed_plain\<lparr> duration := Number (Fin 0.9) \<rparr>) ! 2 = Number (Fin 0.92) \<and>
   result_row (parsed_plain\<lparr> duration := Number (Fin 0.9) \<rparr>) ! 3 = Number (Fin 0.9) \<and>
   (\<exists>res. fst (attempts (getClassifierFunction (env_after 3 answer_plain parsed_plain) ''openai'')
              MAX_RETRIES ''trail shoes'' ''sk-123'' (Some ''gpt-4-1106-preview'') 0
              initial_state) = Some res \<and>
      confidence res = Number (Fin 0) \<and> result_row res ! 2 = Str [] \<and>
      result_row res ! 3 = Str [])"
proof -
  let ?F3 = "getClassifierFunction (env_after 3 answer_plain parsed_plain) ''openai''"
  let ?v = "Some ''gpt-4-1106-preview''"
  let ?zero = "parsed_plain\<lparr> confidence := Number (Fin 0), duration := Number (Fin 0) \<rparr>"
  let ?fine = "parsed_plain\<lparr> duration := Number (Fin 0.9) \<rparr>"
  have fail3: "0 < MAX_RETRIES \<and>
      (\<forall>j < MAX_RETRIES. isl (outcome ?F3 ''trail shoes'' ''sk-123'' ?v j (calls initial_state)))"
    by (simp add: outcome_env_after [OF match_braces_answers(1)] initial_requests MAX_RETRIES_def)
  have z: "confidence ?zero = Number (Fin 0)" "duration ?zero = Number (Fin 0)"
    by simp_all
  have t: "truthy (confidence ?fine)" "truthy (duration ?fine)"
    "confidence ?fine = Number (Fin 0.92)" "duration ?fine = Number (Fin 0.9)"
    by (simp_all add: parsed_plain_def)
  note Z = outputResults_falsy_cells [where r = ?zero]
  note F = outputResults_falsy_cells [where r = ?fine]
  note A = outputResults_falsy_cells [where n = MAX_RETRIES and f = ?F3
      and t = "''trail shoes''" and k = "''sk-123''" and v = ?v and st = initial_state]
  have a: "result_row ?zero ! 2 = Str []"
    using Z [THEN conjunct1, THEN mp, OF z(1)] .
  have b: "result_row ?zero ! 3 = Str []"
    using Z [THEN conjunct2, THEN conjunct1, THEN mp, OF z(2)] .
  have c: "result_row ?fine ! 2 = Number (Fin 0.92)"
    using F [THEN conjunct2, THEN conjunct2, THEN conjunct1, THEN mp, OF t(1)] t(3) by simp
  have d: "result_row ?fine ! 3 = Number (Fin 0.9)"
    using F [THEN conjunct2, THEN conjunct2, THEN conjunct2, THEN conjunct1, THEN mp, OF t(2)] t(4)
    by simp
  note e = A [THEN conjunct2, THEN conjunct2, THEN conjunct2, THEN conjunct2, THEN conjunct2,
      THEN conjunct1, THEN mp, OF fail3]
  from a b c d e show ?thesis by (intro conjI)
qed

section \<open>Properties of the rounded arithmetic\<close>

lemma powi_nat: "0 \<le> k \<Longrightarrow> (2::real) powi k = 2 ^ nat k"
  by (simp add: power_int_def)

lemma binade_bounds:
  assumes "x \<noteq> 0"
  shows "2 powi binade x \<le> \<bar>x\<bar> \<and> \<bar>x\<bar> < 2 powi (binade x + 1)"
proof (cases "1 \<le> \<bar>x\<bar>")
  case True
  define n where "n = \<lfloor>\<bar>x\<bar>\<rfloor>"
  have n: "0 < n" "of_int n \<le> \<bar>x\<bar>" "\<bar>x\<bar> < of_int n + 1"
    using True by (simp_all add: n_def)
  from bitlen_bounds [OF n(1)]
  have b: "2 ^ nat (bitlen n - 1) \<le> n" "n < 2 ^ nat (bitlen n)" by simp_all
  have pos: "0 < bitlen n" using n(1) bitlen_eq_zero_iff [of n] bitlen_nonneg [of n] by linarith
  have e: "binade x = bitlen n - 1" using True by (simp add: binade_def n_def)
  have lo: "(2::real) ^ nat (bitlen n - 1) \<le> of_int n"
    using b(1) by simp
  have "n + 1 \<le> 2 ^ nat (bitlen n)" using b(2) by simp
  then have "of_int (n + 1) \<le> (2::real) ^ nat (bitlen n)"
    by (simp only: of_int_le_numeral_power_cancel_iff)
  then have hi: "of_int n + 1 \<le> (2::real) ^ nat (bitlen n)"
    by simp
  have p: "(2::real) powi (bitlen n - 1) = 2 ^ nat (bitlen n - 1)"
    "(2::real) powi (bitlen n) = 2 ^ nat (bitlen n)"
    using pos by (simp_all add: powi_nat)
  have "2 powi (bitlen n - 1) \<le> \<bar>x\<bar>" unfolding p using lo n(2) by linarith
  moreover have "\<bar>x\<bar> < 2 powi (bitlen n)" unfolding p using hi n(3) by linarith
  ultimately show ?thesis
    by (simp add: e)
next
  case False
  define z where "z = 1 / \<bar>x\<bar>"
  define m where "m = \<lceil>z\<rceil> - 1"
  have xpos: "0 < \<bar>x\<bar>" using assms by simp
  have z1: "1 < z" using False xpos by (simp add: z_def)
  have c: "of_int \<lceil>z\<rceil> - 1 < z" "z \<le> of_int \<lceil>z\<rceil>"
    using ceiling_correct [of z] by simp_all
  have "(1::real) < of_int \<lceil>z\<rceil>" using z1 c(2) by linarith
  then have "1 < \<lceil>z\<rceil>" by simp
  then have m: "0 < m" "of_int m < z" "z \<le> of_int m + 1"
    using c by (simp_all add: m_def)
  from bitlen_bounds [OF m(1)]
  have b: "2 ^ nat (bitlen m - 1) \<le> m" "m < 2 ^ nat (bitlen m)" by simp_all
  have pos: "0 < bitlen m" using m(1) bitlen_eq_zero_iff [of m] bitlen_nonneg [of m] by linarith
  have e: "binade x = - bitlen m" using False by (simp add: binade_def m_def z_def)
  have lo: "(2::real) ^ nat (bitlen m - 1) \<le> of_int m"
    using b(1) by simp
  have "m + 1 \<le> 2 ^ nat (bitlen m)" using b(2) by simp
  then have "of_int (m + 1) \<le> (2::real) ^ nat (bitlen m)"
    by (simp only: of_int_le_numeral_power_cancel_iff)
  then have hi: "of_int m + 1 \<le> (2::real) ^ nat (bitlen m)"
    by simp
  have zlo: "(2::real) ^ nat (bitlen m - 1) < z" using lo m(2) by linarith
  have zhi: "z \<le> (2::real) ^ nat (bitlen m)" using hi m(3) by linarith
  have x: "\<bar>x\<bar> = 1 / z" using xpos by (simp add: z_def)
  have a: "1 / (2::real) ^ nat (bitlen m) \<le> \<bar>x\<bar>"
    unfolding x using zhi z1 by (simp add: frac_le)
  have c: "\<bar>x\<bar> < 1 / (2::real) ^ nat (bitlen m - 1)"
    unfolding x using zlo by (simp add: frac_less2)
  have p1: "(2::real) powi (- bitlen m) = 1 / 2 ^ nat (bitlen m)"
    using pos by (simp add: power_int_minus powi_nat field_simps)
  have p2: "(2::real) powi (- bitlen m + 1) = 1 / 2 ^ nat (bitlen m - 1)"
  proof -
    have eq: "- bitlen m + 1 = - (bitlen m - 1)" by simp
    have "(2::real) powi (- (bitlen m - 1)) = inverse (2 powi (bitlen m - 1))"
      by (rule power_int_minus)
    also have "\<dots> = 1 / 2 ^ nat (bitlen m - 1)"
      using pos by (simp add: powi_nat inverse_eq_divide)
    finally show ?thesis unfolding eq .
  qed
  show ?thesis unfolding e p1 p2 using a c by blast
qed

lemma round_half_even_error: "\<bar>of_int (round_half_even q) - q\<bar> \<le> 1 / 2"
  by (simp add: round_half_even_def Let_def)

lemma fl_bound:
  assumes "1 / 2 ^ 64 \<le> \<bar>x\<bar>" "\<bar>x\<bar> \<le> 2 ^ 64"
  shows "\<exists>y. fl x = Fin y \<and> \<bar>y - x\<bar> \<le> \<bar>x\<bar> / 2 ^ 53"
proof -
  have x0: "x \<noteq> 0" using assms(1) by auto
  define e where "e = binade x"
  from binade_bounds [OF x0] have b: "2 powi e \<le> \<bar>x\<bar>" "\<bar>x\<bar> < 2 powi (e + 1)"
    by (simp_all add: e_def)
  have lo: "- 1022 \<le> e"
  proof (rule ccontr)
    assume "\<not> - 1022 \<le> e"
    then have "e + 1 \<le> - 64" by simp
    then have "(2::real) powi (e + 1) \<le> 2 powi (- 64)"
      by (rule power_int_increasing) simp
    with b(2) assms(1) show False by simp
  qed
  have hi: "e \<le> 64"
  proof (rule ccontr)
    assume "\<not> e \<le> 64"
    then have "65 \<le> e" by simp
    then have "(2::real) powi 65 \<le> 2 powi e"
      by (rule power_int_increasing) simp
    with b(1) assms(2) show False by simp
  qed
  define s where "s = (2::real) powi (e - 52)"
  define y where "y = of_int (round_half_even (x / s)) * s"
  have s0: "0 < s" by (simp add: s_def)
  have s53: "s / 2 = 2 powi e / 2 ^ 53"
    by (simp add: s_def power_int_diff)
  have "y - x = (of_int (round_half_even (x / s)) - x / s) * s"
    using s0 by (simp add: y_def field_simps)
  then have "\<bar>y - x\<bar> = \<bar>of_int (round_half_even (x / s)) - x / s\<bar> * s"
    using s0 by (simp add: abs_mult)
  also have "\<dots> \<le> (1 / 2) * s"
    using round_half_even_error [of "x / s"] s0
    by (intro mult_right_mono) simp_all
  also have "\<dots> = 2 powi e / 2 ^ 53" using s53 by simp
  also have "\<dots> \<le> \<bar>x\<bar> / 2 ^ 53" using b(1) by (simp add: divide_right_mono)
  finally have err: "\<bar>y - x\<bar> \<le> \<bar>x\<bar> / 2 ^ 53" .
  have "\<bar>y\<bar> \<le> \<bar>x\<bar> + \<bar>x\<bar> / 2 ^ 53" using err by linarith
  also have "\<dots> \<le> 2 ^ 64 + 2 ^ 64 / 2 ^ 53"
    using assms(2) by (intro add_mono divide_right_mono) simp_all
  also have "\<dots> < 2 ^ 65" by simp
  finally have ylt: "\<bar>y\<bar> < 2 ^ 65" .
  have big: "(2::real) ^ 65 \<le> 2 ^ 1024"
    by (rule power_increasing) simp_all
  have fin: "(2 ^ 1024 \<le> \<bar>y\<bar>) = False"
  proof -
    have "\<not> 2 ^ 1024 \<le> \<bar>y\<bar>"
    proof
      assume "2 ^ 1024 \<le> \<bar>y\<bar>"
      with big have "(2::real) ^ 65 \<le> \<bar>y\<bar>" by (rule order_trans)
      with ylt show False by simp
    qed
    then show ?thesis by (rule eq_False [THEN iffD2])
  qed
  have m: "max (binade x) (- 1022) = e" using lo by (simp add: e_def)
  have x0': "(x = 0) = False" using x0 by simp
  have "fl x = Fin y"
    by (simp only: fl_def Let_def x0' m s_def [symmetric] y_def [symmetric] fin if_False)
  with err show ?thesis by blast
qed

lemma close_refl: "close 0 X X"
  by (simp add: close_def)

lemma close_zero: "close k 0 y \<Longrightarrow> y = 0"
  by (simp add: close_def)

lemma close_nonneg: "0 \<le> X \<Longrightarrow> close k X y \<Longrightarrow> 0 \<le> y"
proof -
  assume a: "0 \<le> X" "close k X y"
  have "0 \<le> X * (1 - 1 / 2 ^ 53) ^ k" using a(1) by (intro mult_nonneg_nonneg zero_le_power) simp_all
  with a(2) show ?thesis by (simp add: close_def)
qed

lemma close_mult:
  assumes "0 \<le> X" "0 \<le> Y" "close j X x" "close k Y y"
  shows "close (j + k) (X * Y) (x * y)"
proof -
  let ?a = "(1 - 1 / 2 ^ 53 :: real)" and ?b = "(1 + 1 / 2 ^ 53 :: real)"
  have a0: "0 \<le> ?a ^ j" "0 \<le> ?a ^ k" by simp_all
  have x: "X * ?a ^ j \<le> x" "x \<le> X * ?b ^ j" using assms(3) by (simp_all add: close_def)
  have y: "Y * ?a ^ k \<le> y" "y \<le> Y * ?b ^ k" using assms(4) by (simp_all add: close_def)
  have x0: "0 \<le> x" using assms(1,3) by (rule close_nonneg)
  have y0: "0 \<le> y" using assms(2,4) by (rule close_nonneg)
  have "(X * ?a ^ j) * (Y * ?a ^ k) \<le> x * y"
    using x(1) y(1) x0 y0 assms(1,2) a0 by (intro mult_mono) simp_all
  moreover have "x * y \<le> (X * ?b ^ j) * (Y * ?b ^ k)"
    using x(2) y(2) x0 y0 assms(1,2) by (intro mult_mono) simp_all
  ultimately show ?thesis
    by (simp add: close_def power_add mult_ac)
qed

lemma close_div:
  assumes "0 < c" "close k X x"
  shows "close k (X / c) (x / c)"
proof -
  have "X * (1 - 1 / 2 ^ 53) ^ k / c \<le> x / c" "x / c \<le> X * (1 + 1 / 2 ^ 53) ^ k / c"
    using assms by (simp_all add: close_def divide_right_mono)
  then show ?thesis by (simp add: close_def)
qed

lemma close_add:
  assumes "close k X x" "close k Y y"
  shows "close k (X + Y) (x + y)"
  using assms by (simp add: close_def distrib_right)

lemma close_mono:
  assumes "0 \<le> X" "close j X x" "j \<le> k"
  shows "close k X x"
proof -
  let ?a = "(1 - 1 / 2 ^ 53 :: real)" and ?b = "(1 + 1 / 2 ^ 53 :: real)"
  have "?a ^ k \<le> ?a ^ j" using assms(3) by (intro power_decreasing) simp_all
  then have 1: "X * ?a ^ k \<le> X * ?a ^ j" using assms(1) by (rule mult_left_mono)
  have "?b ^ j \<le> ?b ^ k" using assms(3) by (intro power_increasing) simp_all
  then have 2: "X * ?b ^ j \<le> X * ?b ^ k" using assms(1) by (rule mult_left_mono)
  from 1 2 assms(2) show ?thesis by (simp add: close_def)
qed

lemma close_bound_rev:
  "\<bar>y - x\<bar> \<le> x / d \<Longrightarrow> x * (1 - 1 / d) \<le> y \<and> y \<le> x * (1 + 1 / (d::real))"
  by (simp add: algebra_simps abs_le_iff)

lemma close_fl:
  assumes "0 \<le> X" "close k X x" "k \<le> 4" "X = 0 \<or> (1 / 2 ^ 60 \<le> X \<and> X \<le> 2 ^ 60)"
  shows "\<exists>y. fl x = Fin y \<and> close (Suc k) X y"
proof (cases "X = 0")
  case True
  with assms(2) have "x = 0" by (simp add: close_zero)
  with True show ?thesis by (simp add: fl_def close_def)
next
  case False
  with assms(4) have X: "1 / 2 ^ 60 \<le> X" "X \<le> 2 ^ 60" by simp_all
  let ?a = "(1 - 1 / 2 ^ 53 :: real)" and ?b = "(1 + 1 / 2 ^ 53 :: real)"
  have x: "X * ?a ^ k \<le> x" "x \<le> X * ?b ^ k" using assms(2) by (simp_all add: close_def)
  have "?a ^ 4 \<le> ?a ^ k" using assms(3) by (intro power_decreasing) simp_all
  moreover have "1 / 2 \<le> ?a ^ 4" by (simp add: power_divide)
  ultimately have ak: "1 / 2 \<le> ?a ^ k" by linarith
  have "?b ^ k \<le> ?b ^ 4" using assms(3) by (intro power_increasing) simp_all
  moreover have "?b ^ 4 \<le> 2" by (simp add: power_divide)
  ultimately have bk: "?b ^ k \<le> 2" by linarith
  have "(1 / 2 ^ 64 :: real) \<le> 1 / 2 ^ 60 * (1 / 2)" by simp
  also have "\<dots> \<le> X * (1 / 2)" using X(1) by (intro mult_right_mono) simp_all
  also have "\<dots> \<le> X * ?a ^ k" using ak assms(1) by (rule mult_left_mono)
  also note x(1)
  finally have xlo: "1 / 2 ^ 64 \<le> x" .
  note x(2)
  also have "X * ?b ^ k \<le> X * 2" using bk assms(1) by (rule mult_left_mono)
  also have "\<dots> \<le> 2 ^ 60 * 2" using X(2) by (intro mult_right_mono) simp_all
  also have "\<dots> \<le> (2 ^ 64 :: real)" by simp
  finally have xhi: "x \<le> 2 ^ 64" .
  have xpos: "0 < x" using xlo by (rule less_le_trans [rotated]) simp
  from fl_bound [of x] xlo xhi xpos obtain y where
    y: "fl x = Fin y" "\<bar>y - x\<bar> \<le> x / 2 ^ 53" by auto
  have "x * ?a \<le> y" "y \<le> x * ?b" using close_bound_rev [OF y(2)] by simp_all
  moreover have "X * ?a ^ k * ?a \<le> x * ?a" using x(1) by (intro mult_right_mono) simp_all
  moreover have "x * ?b \<le> X * ?b ^ k * ?b" using x(2) by (intro mult_right_mono) simp_all
  ultimately have "close (Suc k) X y" by (simp add: close_def mult_ac)
  with y(1) show ?thesis by blast
qed

lemma close_bound: "X * (1 - c) \<le> y \<Longrightarrow> y \<le> X * (1 + c) \<Longrightarrow> \<bar>y - X\<bar> \<le> X * (c::real)"
  by (simp add: algebra_simps abs_le_iff)

lemma close_final:
  assumes "0 \<le> X" "close 5 X y"
  shows "\<bar>y - X\<bar> \<le> X / 2 ^ 50"
proof -
  let ?a = "(1 - 1 / 2 ^ 53 :: real)" and ?b = "(1 + 1 / 2 ^ 53 :: real)"
  have y: "X * ?a ^ 5 \<le> y" "y \<le> X * ?b ^ 5" using assms(2) by (simp_all add: close_def)
  have "1 - 1 / 2 ^ 50 \<le> ?a ^ 5" by (simp add: power_divide)
  then have "X * (1 - 1 / 2 ^ 50) \<le> X * ?a ^ 5" using assms(1) by (rule mult_left_mono)
  moreover have "?b ^ 5 \<le> 1 + 1 / 2 ^ 50" by (simp add: power_divide)
  then have "X * ?b ^ 5 \<le> X * (1 + 1 / 2 ^ 50)" using assms(1) by (rule mult_left_mono)
  ultimately have "X * (1 - 1 / 2 ^ 50) \<le> y" "y \<le> X * (1 + 1 / 2 ^ 50)"
    using y by (blast intro: order_trans)+
  then have "\<bar>y - X\<bar> \<le> X * (1 / 2 ^ 50)"
    by (rule close_bound)
  then show ?thesis by simp
qed

lemma term_range:
  assumes "n < 2 ^ 53" "1 / 10 \<le> P" "P \<le> 16"
  shows "0 \<le> real n / 1000000 * P"
    "real n / 1000000 * P = 0 \<or> (1 / 2 ^ 60 \<le> real n / 1000000 * P \<and> real n / 1000000 * P \<le> 2 ^ 60)"
proof -
  show "0 \<le> real n / 1000000 * P" using assms(2) by simp
  show "real n / 1000000 * P = 0 \<or> (1 / 2 ^ 60 \<le> real n / 1000000 * P \<and> real n / 1000000 * P \<le> 2 ^ 60)"
  proof (cases "n = 0")
    case True
    then show ?thesis by simp
  next
    case False
    then have n1: "1 \<le> real n" by simp
    have n2: "real n \<le> 2 ^ 53" using assms(1) by simp
    have "(1 / 2 ^ 60 :: real) \<le> 1 / 1000000 * (1 / 10)" by simp
    also have "\<dots> \<le> real n / 1000000 * P"
      using n1 assms(2) by (intro mult_mono) simp_all
    finally have lo: "1 / 2 ^ 60 \<le> real n / 1000000 * P" .
    have "real n / 1000000 * P \<le> 2 ^ 53 / 1000000 * 16"
      using n2 assms(2,3) by (intro mult_mono) simp_all
    also have "\<dots> \<le> (2 ^ 60 :: real)" by simp
    finally have hi: "real n / 1000000 * P \<le> 2 ^ 60" .
    from lo hi show ?thesis by blast
  qed
qed

lemma count_range:
  assumes "n < 2 ^ 53"
  shows "real n = 0 \<or> (1 / 2 ^ 60 \<le> real n \<and> real n \<le> 2 ^ 60)"
    "real n / 1000000 = 0 \<or> (1 / 2 ^ 60 \<le> real n / 1000000 \<and> real n / 1000000 \<le> 2 ^ 60)"
proof -
  have n2: "real n \<le> 2 ^ 53" using assms(1) by simp
  have a: "real n \<le> 2 ^ 60" using n2 by (rule order_trans) simp
  have "real n / 1000000 \<le> real n" by simp
  then have b: "real n / 1000000 \<le> 2 ^ 60" using a by (rule order_trans)
  show "real n = 0 \<or> (1 / 2 ^ 60 \<le> real n \<and> real n \<le> 2 ^ 60)"
  proof (cases "n = 0")
    case False
    then have "1 \<le> real n" by simp
    then have "1 / 2 ^ 60 \<le> real n" by (rule order_trans [rotated]) simp
    with a show ?thesis by blast
  qed simp
  show "real n / 1000000 = 0 \<or> (1 / 2 ^ 60 \<le> real n / 1000000 \<and> real n / 1000000 \<le> 2 ^ 60)"
  proof (cases "n = 0")
    case False
    then have "1 \<le> real n" by simp
    then have "1 / 1000000 \<le> real n / 1000000" by (simp add: divide_right_mono)
    then have "1 / 2 ^ 60 \<le> real n / 1000000" by (rule order_trans [rotated]) simp
    with b show ?thesis by blast
  qed simp
qed

lemma cost_term:
  assumes "n < 2 ^ 53" "1 / 10 \<le> P" "P \<le> 16"
  shows "\<exists>c. fl_mul (fl_div (Num (fl (real n))) (Num (Fin 1000000))) (Num (fl P)) = Num (Fin c) \<and>
             close 4 (real n / 1000000 * P) c"
proof -
  have P0: "0 \<le> P" using assms(2) by simp
  have Pr: "P = 0 \<or> (1 / 2 ^ 60 \<le> P \<and> P \<le> 2 ^ 60)"
  proof -
    have "1 / 2 ^ 60 \<le> P" using assms(2) by (rule order_trans [rotated]) simp
    moreover have "P \<le> 2 ^ 60" using assms(3) by (rule order_trans) simp
    ultimately show ?thesis by blast
  qed
  from close_fl [OF _ close_refl _ count_range(1) [OF assms(1)]]
  obtain n1 where n1: "fl (real n) = Fin n1" "close (Suc 0) (real n) n1" by auto
  have "close (Suc 0) (real n / 1000000) (n1 / 1000000)"
    using n1(2) by (intro close_div) simp_all
  from close_fl [OF _ this _ count_range(2) [OF assms(1)]]
  obtain a where a: "fl (n1 / 1000000) = Fin a" "close (Suc (Suc 0)) (real n / 1000000) a" by auto
  from close_fl [OF P0 close_refl _ Pr]
  obtain p where p: "fl P = Fin p" "close (Suc 0) P p" by auto
  have "close (Suc (Suc 0) + Suc 0) (real n / 1000000 * P) (a * p)"
    using a(2) p(2) P0 by (intro close_mult) simp_all
  then have "close 3 (real n / 1000000 * P) (a * p)" by (simp add: numeral_3_eq_3)
  from close_fl [OF term_range(1) [OF assms] this _ term_range(2) [OF assms]]
  obtain c where c: "fl (a * p) = Fin c" "close (Suc 3) (real n / 1000000 * P) c" by auto
  have "fl_mul (fl_div (Num (fl (real n))) (Num (Fin 1000000))) (Num (fl P)) = Num (Fin c)"
    by (simp add: n1(1) a(1) p(1) c(1))
  moreover have "close 4 (real n / 1000000 * P) c" using c(2) by simp
  ultimately show ?thesis by blast
qed

lemma cost_sum:
  assumes "n < 2 ^ 53" "m < 2 ^ 53" "1 / 10 \<le> P" "P \<le> 16" "1 / 10 \<le> Q" "Q \<le> 16"
  shows "\<exists>y. fl_add
           (fl_mul (fl_div (Num (fl (real n))) (Num (Fin 1000000))) (Num (fl P)))
           (fl_mul (fl_div (Num (fl (real m))) (Num (Fin 1000000))) (Num (fl Q))) = Num (Fin y) \<and>
         \<bar>y - (real n / 1000000 * P + real m / 1000000 * Q)\<bar>
           \<le> (real n / 1000000 * P + real m / 1000000 * Q) / 2 ^ 50"
proof -
  let ?X = "real n / 1000000 * P" and ?Y = "real m / 1000000 * Q"
  from cost_term [OF assms(1,3,4)] obtain c where
    c: "fl_mul (fl_div (Num (fl (real n))) (Num (Fin 1000000))) (Num (fl P)) = Num (Fin c)"
      "close 4 ?X c" by blast
  from cost_term [OF assms(2,5,6)] obtain d where
    d: "fl_mul (fl_div (Num (fl (real m))) (Num (Fin 1000000))) (Num (fl Q)) = Num (Fin d)"
      "close 4 ?Y d" by blast
  note X = term_range [OF assms(1,3,4)] and Y = term_range [OF assms(2,5,6)]
  have XY0: "0 \<le> ?X + ?Y" using X(1) Y(1) by (rule add_nonneg_nonneg)
  have hi: "?X + ?Y \<le> 2 ^ 60"
  proof -
    have "real n / 1000000 * P \<le> 2 ^ 53 / 1000000 * 16"
      using assms(1,3,4) by (intro mult_mono) simp_all
    moreover have "real m / 1000000 * Q \<le> 2 ^ 53 / 1000000 * 16"
      using assms(2,5,6) by (intro mult_mono) simp_all
    ultimately have "?X + ?Y \<le> 2 ^ 53 / 1000000 * 16 + 2 ^ 53 / 1000000 * 16"
      by (rule add_mono)
    also have "\<dots> \<le> (2 ^ 60 :: real)" by simp
    finally show ?thesis .
  qed
  have XYr: "?X + ?Y = 0 \<or> (1 / 2 ^ 60 \<le> ?X + ?Y \<and> ?X + ?Y \<le> 2 ^ 60)"
  proof (cases "?X = 0 \<and> ?Y = 0")
    case True
    then have x: "?X = 0" and y: "?Y = 0" by blast+
    have "?X + ?Y = 0" unfolding x y by simp
    then show ?thesis by (rule disjI1)
  next
    case False
    then consider "1 / 2 ^ 60 \<le> ?X" | "1 / 2 ^ 60 \<le> ?Y" using X(2) Y(2) by blast
    then have "1 / 2 ^ 60 \<le> ?X + ?Y"
    proof cases
      case 1
      then show ?thesis using Y(1) by (rule add_increasing2 [rotated])
    next
      case 2
      then show ?thesis using X(1) by (rule add_increasing [rotated])
    qed
    with hi show ?thesis by blast
  qed
  have "close 4 (?X + ?Y) (c + d)" using c(2) d(2) by (rule close_add)
  from close_fl [OF XY0 this _ XYr]
  obtain y where y: "fl (c + d) = Fin y" "close (Suc 4) (?X + ?Y) y" by auto
  have "close 5 (?X + ?Y) y" using y(2) by simp
  from close_final [OF XY0 this] have "\<bar>y - (?X + ?Y)\<bar> \<le> (?X + ?Y) / 2 ^ 50" .
  moreover have "fl_add
           (fl_mul (fl_div (Num (fl (real n))) (Num (Fin 1000000))) (Num (fl P)))
           (fl_mul (fl_div (Num (fl (real m))) (Num (Fin 1000000))) (Num (fl Q))) = Num (Fin y)"
    by (simp add: c(1) d(1) y(1))
  ultimately show ?thesis by blast
qed

section \<open>Properties of the token accounting\<close>

lemma updateTokenCounts_twice:
  "updateTokenCounts (Some \<lparr> inputTokens = Some 20, outputTokens = Some 15 \<rparr>)
     (updateTokenCounts (Some \<lparr> inputTokens = Some 10, outputTokens = Some 5 \<rparr>)
        tokenCounts_initial) = \<lparr> input' = 30, output' = 20 \<rparr>"
  by (simp add: tokenCounts_initial_def)

lemma logCosts_Own:
  "MODELS (model s) = Own entry \<Longrightarrow>
   \<exists>c. logCosts s tokens = Inr c \<and> logged_tokens c = tokens \<and>
     inputCost c =
       fl_mul (fl_div (Num (fl (real (input' tokens)))) (Num (Fin 1000000)))
         (Num (fl (input' (if use_cheap s then costs_cheap entry else costs_standard entry)))) \<and>
     outputCost c =
       fl_mul (fl_div (Num (fl (real (output' tokens)))) (Num (Fin 1000000)))
         (Num (fl (output' (if use_cheap s then costs_cheap entry else costs_standard entry)))) \<and>
     totalCost c = fl_add (inputCost c) (outputCost c)"
  by (simp add: logCosts_def Let_def)

lemma extractResponse_reads:
  "extractResponse openai data = Inr (text, u) \<Longrightarrow>
     \<exists>usg. data_usage data = Some usg \<and> inputTokens u = prompt_tokens usg \<and>
           outputTokens u = completion_tokens usg"
  "extractResponse anthropic data = Inr (text, u) \<Longrightarrow>
     \<exists>usg. data_usage data = Some usg \<and> inputTokens u = input_tokens usg \<and>
           outputTokens u = output_tokens usg"
  "extractResponse gemini data = Inr (text, u) \<Longrightarrow>
     or_0 (inputTokens u) =
       (case data_usageMetadata data of None \<Rightarrow> 0 | Some usg \<Rightarrow> or_0 (promptTokenCount usg)) \<and>
     or_0 (outputTokens u) =
       (case data_usageMetadata data of None \<Rightarrow> 0 | Some usg \<Rightarrow> or_0 (candidatesTokenCount usg))"
  by (auto simp: extractResponse_def split: sum.splits option.splits)

lemma main_costs:
  "costs_logged (main E sheet) = Some c \<Longrightarrow>
   \<exists>s. readAndValidateSettings sheet = Inr s \<and>
       logCosts s (tokenCounts (calls (last_state (main E sheet)))) = Inr c"
  by (auto simp: main_def handleError_def split: sum.splits prod.splits)

lemma add_counts_assoc: "add_counts (add_counts a b) c = add_counts a (add_counts b c)"
  by (simp add: add_counts_def)

lemma add_counts_zero: "add_counts a \<lparr> input' = 0, output' = 0 \<rparr> = a"
  by (simp add: add_counts_def)

lemma total_reported_append:
  "total_reported E p n (xs @ ys) =
     add_counts (total_reported E p n xs) (total_reported E p (n + length xs) ys)"
  by (induction xs arbitrary: n) (simp_all add: add_counts_def)

lemma classifyTerm_accounts:
  assumes "modelType m = Inr p"
  shows "requests (snd (snd (classifyTerm E t k m st))) = requests st @ [fetch_request p t k m]"
    "tokenCounts (snd (snd (classifyTerm E t k m st))) =
       add_counts (tokenCounts st) (reported E p (length (requests st)) (fetch_request p t k m))"
  using assms
  by (auto simp: classifyTerm_def reported_def add_counts_def Let_def
      split: sum.splits prod.splits option.splits jsval.splits)

lemma state_after_accounts:
  assumes "modelType v = Inr p"
  shows "requests (state_after (getClassifierFunction E m) t k (Some v) j c) =
       requests c @ replicate j (fetch_request p t k v) \<and>
     tokenCounts (state_after (getClassifierFunction E m) t k (Some v) j c) =
       add_counts (tokenCounts c)
         (total_reported E p (length (requests c)) (replicate j (fetch_request p t k v)))"
proof (induction j arbitrary: c)
  case 0
  show ?case by (simp add: add_counts_zero)
next
  case (Suc j)
  show ?case
    by (simp add: Suc.IH getClassifierFunction_Some classifyTerm_accounts [OF assms]
        add_counts_assoc replicate_app_Cons_same)
qed

lemma attempts_calls:
  "a < n \<Longrightarrow>
   \<exists>j. 1 \<le> j \<and> j \<le> n - a \<and>
     calls (snd (attempts f n t k v a st)) = state_after f t k v j (calls st) \<and>
     length (slept (snd (attempts f n t k v a st))) = length (slept st) + (j - 1) \<and>
     (\<not> isl (fst (f t k v (calls st))) \<longrightarrow> j = 1)"
proof (induction "n - a" arbitrary: a st)
  case 0
  then show ?case by simp
next
  case (Suc d)
  obtain x ms c where call: "f t k v (calls st) = (x, ms, c)"
    by (cases "f t k v (calls st)") auto
  show ?case
  proof (cases x)
    case (Inr r)
    with Suc.prems call have
      "calls (snd (attempts f n t k v a st)) = state_after f t k v 1 (calls st)"
      "length (slept (snd (attempts f n t k v a st))) = length (slept st) + (1 - 1)"
      by (subst attempts.simps, simp)+
    with Suc.prems show ?thesis by (intro exI [of _ 1]) simp
  next
    case (Inl e)
    show ?thesis
    proof (cases "a = n - 1")
      case True
      with Suc.prems call Inl have
        "calls (snd (attempts f n t k v a st)) = state_after f t k v 1 (calls st)"
        "length (slept (snd (attempts f n t k v a st))) = length (slept st) + (1 - 1)"
        by (subst attempts.simps, simp)+
      with Suc.prems show ?thesis by (intro exI [of _ 1]) simp
    next
      case False
      with Suc.prems have lt: "Suc a < n" by simp
      have d: "d = n - Suc a" using Suc.hyps(2) by simp
      let ?st = "st\<lparr> calls := c, slept := slept st @ [2 ^ a * 1000] \<rparr>"
      from Suc.hyps(1) [OF d lt, of ?st]
      obtain j where j: "1 \<le> j" "j \<le> n - Suc a"
        "calls (snd (attempts f n t k v (Suc a) ?st)) = state_after f t k v j (calls ?st)"
        "length (slept (snd (attempts f n t k v (Suc a) ?st))) = length (slept ?st) + (j - 1)"
        by blast
      have unfold: "attempts f n t k v a st = attempts f n t k v (Suc a) ?st"
        using Suc.prems call Inl False by (subst attempts.simps) simp
      have "calls (snd (attempts f n t k v a st)) = state_after f t k v (Suc j) (calls st)"
        unfolding unfold j(3) by (simp add: call)
      moreover have "length (slept (snd (attempts f n t k v a st))) = length (slept st) + (Suc j - 1)"
        unfolding unfold j(4) using j(1) by simp
      moreover have "isl (fst (f t k v (calls st)))" by (simp add: call Inl)
      ultimately show ?thesis using j(1,2) lt by (intro exI [of _ "Suc j"]) simp
    qed
  qed
qed


lemma snd_map_terms_Cons:
  "snd (map_terms g (t # ts) st) = snd (map_terms g ts (snd (g t st)))"
  by (simp split: prod.splits)

lemma requests_of_Cons:
  "requests_of p k v (t # ts) (a # as) =
     replicate a (fetch_request p t k v) @ requests_of p k v ts as"
  by (simp add: requests_of_def)

lemma map_terms_accounts:
  assumes mt: "modelType v = Inr p" and n: "0 < n"
  shows "\<exists>as. length as = length ts \<and> (\<forall>a \<in> set as. 1 \<le> a \<and> a \<le> n) \<and>
     requests (calls (snd (map_terms
         (\<lambda>t. attempts (getClassifierFunction E m) n t k (Some v) 0) ts st))) =
       requests (calls st) @ requests_of p k v ts as \<and>
     tokenCounts (calls (snd (map_terms
         (\<lambda>t. attempts (getClassifierFunction E m) n t k (Some v) 0) ts st))) =
       add_counts (tokenCounts (calls st))
         (total_reported E p (length (requests (calls st))) (requests_of p k v ts as)) \<and>
     length (slept (snd (map_terms
         (\<lambda>t. attempts (getClassifierFunction E m) n t k (Some v) 0) ts st))) =
       length (slept st) + sum_list (map (\<lambda>a. a - 1) as) \<and>
     ((\<forall>t \<in> set ts. \<forall>c. \<not> isl (fst (classifyTerm E t k v c))) \<longrightarrow>
        as = replicate (length ts) 1)"
proof (induction ts arbitrary: st)
  case Nil
  show ?case by (simp add: requests_of_def add_counts_zero)
next
  case (Cons t ts)
  let ?f = "getClassifierFunction E m"
  let ?g = "\<lambda>t. attempts ?f n t k (Some v) 0"
  let ?st1 = "snd (?g t st)"
  let ?req = "fetch_request p t k v"
  have "\<exists>j. 1 \<le> j \<and> j \<le> n \<and>
      calls ?st1 = state_after ?f t k (Some v) j (calls st) \<and>
      length (slept ?st1) = length (slept st) + (j - 1) \<and>
      (\<not> isl (fst (?f t k (Some v) (calls st))) \<longrightarrow> j = 1)"
    using attempts_calls [OF n, of ?f t k "Some v" st] by simp
  then obtain j where j: "1 \<le> j" "j \<le> n"
    "calls ?st1 = state_after ?f t k (Some v) j (calls st)"
    "length (slept ?st1) = length (slept st) + (j - 1)"
    "\<not> isl (fst (?f t k (Some v) (calls st))) \<longrightarrow> j = 1"
    by blast
  note sa = state_after_accounts [OF mt, of E m t k j "calls st"]
  have r1: "requests (calls ?st1) = requests (calls st) @ replicate j ?req"
    using sa by (simp add: j(3))
  have t1: "tokenCounts (calls ?st1) =
      add_counts (tokenCounts (calls st))
        (total_reported E p (length (requests (calls st))) (replicate j ?req))"
    using sa by (simp add: j(3))
  from Cons.IH [of ?st1] obtain as where as: "length as = length ts"
    "\<forall>a \<in> set as. 1 \<le> a \<and> a \<le> n"
    "requests (calls (snd (map_terms ?g ts ?st1))) = requests (calls ?st1) @ requests_of p k v ts as"
    "tokenCounts (calls (snd (map_terms ?g ts ?st1))) =
       add_counts (tokenCounts (calls ?st1))
         (total_reported E p (length (requests (calls ?st1))) (requests_of p k v ts as))"
    "length (slept (snd (map_terms ?g ts ?st1))) =
       length (slept ?st1) + sum_list (map (\<lambda>a. a - 1) as)"
    "(\<forall>t \<in> set ts. \<forall>c. \<not> isl (fst (classifyTerm E t k v c))) \<longrightarrow> as = replicate (length ts) 1"
    by blast
  have "length (j # as) = length (t # ts)" using as(1) by simp
  moreover have "\<forall>a \<in> set (j # as). 1 \<le> a \<and> a \<le> n" using as(2) j(1,2) by simp
  moreover have "requests (calls (snd (map_terms ?g (t # ts) st))) =
      requests (calls st) @ requests_of p k v (t # ts) (j # as)"
    by (simp only: snd_map_terms_Cons as(3) r1 requests_of_Cons append_assoc)
  moreover have "tokenCounts (calls (snd (map_terms ?g (t # ts) st))) =
      add_counts (tokenCounts (calls st))
        (total_reported E p (length (requests (calls st))) (requests_of p k v (t # ts) (j # as)))"
    by (simp only: snd_map_terms_Cons as(4) r1 t1 requests_of_Cons total_reported_append
        add_counts_assoc length_append length_replicate)
  moreover have "length (slept (snd (map_terms ?g (t # ts) st))) =
      length (slept st) + sum_list (map (\<lambda>a. a - 1) (j # as))"
    by (simp add: snd_map_terms_Cons as(5) j(4) del: map_terms.simps)
  moreover have "(\<forall>t \<in> set (t # ts). \<forall>c. \<not> isl (fst (classifyTerm E t k v c))) \<longrightarrow>
      j # as = replicate (length (t # ts)) 1"
    using as(6) j(5) by (simp add: getClassifierFunction_Some)
  ultimately show ?case by blast
qed


lemma add_counts_zero_left: "add_counts \<lparr> input' = 0, output' = 0 \<rparr> a = a"
  by (simp add: add_counts_def)

lemma MODELS_modelType:
  "MODELS name = Own entry \<Longrightarrow>
   \<exists>p. modelType (standard entry) = Inr p \<and> modelType (cheap entry) = Inr p"
  by (auto simp: MODELS_def modelType_models split: if_splits)

lemma main_accounts:
  assumes "readAndValidateSettings sheet = Inr s" "getAPIKey sheet (model s) = Inr k"
    "MODELS (model s) = Own entry"
  shows "\<exists>p as c.
     modelType (if use_cheap s then cheap entry else standard entry) = Inr p \<and>
     length as = length (topTerms s) \<and> (\<forall>a \<in> set as. 1 \<le> a \<and> a \<le> MAX_RETRIES) \<and>
     requests (calls (last_state (main E sheet))) =
       requests_of p k (if use_cheap s then cheap entry else standard entry) (topTerms s) as \<and>
     length (slept (last_state (main E sheet))) = sum_list (map (\<lambda>a. a - 1) as) \<and>
     ((\<forall>t \<in> set (topTerms s). \<forall>c. \<not> isl (fst (classifyTerm E t k
          (if use_cheap s then cheap entry else standard entry) c))) \<longrightarrow>
        as = replicate (length (topTerms s)) 1) \<and>
     tokenCounts (calls (last_state (main E sheet))) =
       total_reported E p 0 (requests (calls (last_state (main E sheet)))) \<and>
     logCosts s (tokenCounts (calls (last_state (main E sheet)))) = Inr c \<and>
     costs_logged (main E sheet) = Some c \<and> logs_tab (main E sheet) = []"
proof -
  let ?v = "if use_cheap s then cheap entry else standard entry"
  let ?g = "\<lambda>t. attempts (getClassifierFunction E (model s)) MAX_RETRIES t k (Some ?v) 0"
  from MODELS_modelType [OF assms(3)] obtain p where mt: "modelType ?v = Inr p" by auto
  have known: "MODELS (model s) \<noteq> Missing" using assms(3) by simp
  from classifyTerms_with_all [OF known MAX_RETRIES_pos,
      of "getClassifierFunction E (model s)" k initial_state]
  obtain rs st' where
    ct: "classifyTerms E s k initial_state = Inr (map Some rs, st')"
    unfolding classifyTerms_def by blast
  have st': "st' = snd (map_terms ?g (topTerms s) initial_state)"
    using ct by (simp add: classifyTerms_def classifyTerms_with_def assms(3))
  from logCosts_Own [OF assms(3), of "tokenCounts (calls st')"]
  obtain c where c: "logCosts s (tokenCounts (calls st')) = Inr c" by blast
  have run: "main E sheet =
      \<lparr> results_tab = Some (results_header # map result_row rs), logs_tab = [],
        costs_logged = Some c, last_state = st' \<rparr>"
    by (simp add: main_def assms(1,2) ct outputResults_Some c)
  from map_terms_accounts [OF mt MAX_RETRIES_pos, of "topTerms s" E "model s" k initial_state]
  obtain as where as: "length as = length (topTerms s)"
    "\<forall>a \<in> set as. 1 \<le> a \<and> a \<le> MAX_RETRIES"
    "requests (calls st') = requests_of p k ?v (topTerms s) as"
    "tokenCounts (calls st') = total_reported E p 0 (requests_of p k ?v (topTerms s) as)"
    "length (slept st') = sum_list (map (\<lambda>a. a - 1) as)"
    "(\<forall>t \<in> set (topTerms s). \<forall>c. \<not> isl (fst (classifyTerm E t k ?v c))) \<longrightarrow>
        as = replicate (length (topTerms s)) 1"
    unfolding st' [symmetric] by (auto simp: initial_requests add_counts_zero_left)
  show ?thesis
    using mt as c by (intro exI [of _ p] exI [of _ as] exI [of _ c]) (simp add: run)
qed

lemma MODELS_prices:
  "MODELS name = Own entry \<Longrightarrow>
   1 / 10 \<le> input' (costs_standard entry) \<and> input' (costs_standard entry) \<le> 16 \<and>
   1 / 10 \<le> output' (costs_standard entry) \<and> output' (costs_standard entry) \<le> 16 \<and>
   1 / 10 \<le> input' (costs_cheap entry) \<and> input' (costs_cheap entry) \<le> 16 \<and>
   1 / 10 \<le> output' (costs_cheap entry) \<and> output' (costs_cheap entry) \<le> 16"
  by (auto simp: MODELS_def split: if_splits)

lemma logCosts_accurate:
  assumes "MODELS (model s) = Own entry" "input' tokens < 2 ^ 53" "output' tokens < 2 ^ 53"
  shows "\<exists>c y. logCosts s tokens = Inr c \<and> totalCost c = Num (Fin y) \<and>
     \<bar>y - exact_cost (if use_cheap s then costs_cheap entry else costs_standard entry) tokens\<bar>
       \<le> exact_cost (if use_cheap s then costs_cheap entry else costs_standard entry) tokens / 2 ^ 50"
proof -
  let ?costs = "if use_cheap s then costs_cheap entry else costs_standard entry"
  from MODELS_prices [OF assms(1)] have
    p: "1 / 10 \<le> input' ?costs" "input' ?costs \<le> 16" "1 / 10 \<le> output' ?costs" "output' ?costs \<le> 16"
    by (simp_all split: if_splits)
  from cost_sum [OF assms(2,3) p] obtain y where
    y: "fl_add
           (fl_mul (fl_div (Num (fl (real (input' tokens)))) (Num (Fin 1000000))) (Num (fl (input' ?costs))))
           (fl_mul (fl_div (Num (fl (real (output' tokens)))) (Num (Fin 1000000))) (Num (fl (output' ?costs))))
         = Num (Fin y)"
      "\<bar>y - exact_cost ?costs tokens\<bar> \<le> exact_cost ?costs tokens / 2 ^ 50"
    unfolding exact_cost_def by blast
  from logCosts_Own [OF assms(1), of tokens] obtain c where
    c: "logCosts s tokens = Inr c" "totalCost c = Num (Fin y)"
    using y(1) by auto
  with y(2) show ?thesis by blast
qed

lemma chat_body_differ: "chat_body answer_plain 20 15 \<noteq> chat_body answer_plain 10 5"
  by code_simp

lemma modelType_o4: "modelType ''o4-mini-2025-04-16'' = Inr openai"
  by (rule modelType_models)

lemma classifyTerm_two_usages:
  "classifyTerm env_two_usages t k ''o4-mini-2025-04-16'' st =
     (Inr parsed_plain, 900,
      st\<lparr> requests := requests st @ [fetch_request openai t k ''o4-mini-2025-04-16''],
          tokenCounts := (if length (requests st) = 0
             then \<lparr> input' = input' (tokenCounts st) + 10, output' = output' (tokenCounts st) + 5 \<rparr>
             else \<lparr> input' = input' (tokenCounts st) + 20, output' = output' (tokenCounts st) + 15 \<rparr>) \<rparr>)"
  by (simp add: classifyTerm_def modelType_o4 env_two_usages_def Let_def chat_body_differ
      extractResponse_def chat_data_def match_braces_answers validateResponse_parsed)

lemma reported_two_usages:
  "reported env_two_usages openai n req =
     (if n = 0 then \<lparr> input' = 10, output' = 5 \<rparr> else \<lparr> input' = 20, output' = 15 \<rparr>)"
  by (simp add: reported_def env_two_usages_def chat_body_differ extractResponse_def chat_data_def)

lemma readAndValidateSettings_two_terms:
  "readAndValidateSettings two_terms_sheet = Inr two_terms_settings"
  by code_simp

lemma getAPIKey_two_terms: "getAPIKey two_terms_sheet ''openai'' = Inr ''sk-123''"
  by code_simp

lemma MODELS_openai:
  "MODELS ''openai'' =
     Own \<lparr> standard = ''gpt-4-1106-preview'', cheap = ''o4-mini-2025-04-16'',
           costs_standard = \<lparr> input' = 2.0, output' = 8.0 \<rparr>,
           costs_cheap = \<lparr> input' = 1.10, output' = 4.40 \<rparr> \<rparr>"
  by (simp add: MODELS_def)

lemma logCosts_two_terms:
  "logCosts two_terms_settings \<lparr> input' = 30, output' = 20 \<rparr> =
     Inr \<lparr> logged_tokens = \<lparr> input' = 30, output' = 20 \<rparr>,
           inputCost = Num (Fin (2434970217729661 / 2 ^ 66)),
           outputCost = Num (Fin (6493253913945763 / 2 ^ 66)),
           totalCost = Num (Fin (279007004114857 / 2 ^ 61)) \<rparr>"
  by (simp add: logCosts_def two_terms_settings_def MODELS_openai Let_def
      fl_def binade_def compute_bitlen round_half_even_def)

lemma extractResponse_examples:
  "extractResponse openai (chat_data answer_plain 10 5) =
     Inr (Str answer_plain, \<lparr> inputTokens = Some 10, outputTokens = Some 5 \<rparr>)"
  "extractResponse anthropic claude_data =
     Inr (Str answer_plain, \<lparr> inputTokens = Some 12, outputTokens = None \<rparr>)"
  "extractResponse gemini gemini_data =
     Inr (Str answer_plain, \<lparr> inputTokens = Some 0, outputTokens = Some 0 \<rparr>)"
  by (simp_all add: extractResponse_def chat_data_def claude_data_def gemini_data_def)

lemma two_terms_all_return:
  "\<forall>t \<in> set (topTerms two_terms_settings). \<forall>c. \<not> isl (fst (classifyTerm env_two_usages t ''sk-123''
      (if use_cheap two_terms_settings
       then cheap \<lparr> standard = ''gpt-4-1106-preview'', cheap = ''o4-mini-2025-04-16'',
             costs_standard = \<lparr> input' = 2.0, output' = 8.0 \<rparr>,
             costs_cheap = \<lparr> input' = 1.10, output' = 4.40 \<rparr> \<rparr>
       else standard \<lparr> standard = ''gpt-4-1106-preview'', cheap = ''o4-mini-2025-04-16'',
             costs_standard = \<lparr> input' = 2.0, output' = 8.0 \<rparr>,
             costs_cheap = \<lparr> input' = 1.10, output' = 4.40 \<rparr> \<rparr>) c))"
  by (simp add: two_terms_settings_def classifyTerm_two_usages)


section \<open>Claims about tokens and costs\<close>

text \<open>
  C5. The totals start a run at 0 and 0. Every call of \<open>classifyTerm\<close> sends one
  request and adds to the totals exactly what the answer to it reports: for a call that
  returns, the two counts of the usage that \<open>extractResponse\<close> read from the provider's
  answer (the provider's own two fields; a count that is absent adds 0), so the usages
  10, 5 and 20, 15 give the totals 30 and 20. A run with valid settings, a key and a
  provider of the table sends for each term, in order, between one and \<open>MAX_RETRIES\<close>
  requests (one more than it slept for the term, and exactly one when every call
  returns); its totals are the sum of what the answers to all these requests reported,
  and it logs the cost of these totals. The cost that \<open>logCosts\<close> logs is
  \<open>(input / 1000000) * price_in + (output / 1000000) * price_out\<close>, with the prices of
  the provider and tier of the settings, as double arithmetic evaluates it, each
  operation rounded; while the totals are below \<open>2^53\<close> it differs from the value of
  that formula in exact arithmetic by at most the fraction \<open>2^-50\<close> of that value.
\<close>

theorem token_accounting:
  "tokenCounts (calls initial_state) = \<lparr> input' = 0, output' = 0 \<rparr> \<and>
   (classifyTerm E t k m st = (Inr r, ms, st') \<longrightarrow>
      (\<exists>p response data text u.
         modelType m = Inr p \<and>
         fetch E (length (requests st)) (fetch_request p t k m) = (Inr response, ms) \<and>
         JSON_parse_data E (getContentText response) = Inr data \<and>
         extractResponse p data = Inr (text, u) \<and>
         tokenCounts st' =
           \<lparr> input' = input' (tokenCounts st) + or_0 (inputTokens u),
             output' = output' (tokenCounts st) + or_0 (outputTokens u) \<rparr>)) \<and>
   (modelType m = Inr p \<longrightarrow>
      requests (snd (snd (classifyTerm E t k m st))) = requests st @ [fetch_request p t k m] \<and>
      tokenCounts (snd (snd (classifyTerm E t k m st))) =
        add_counts (tokenCounts st)
          (reported E p (length (requests st)) (fetch_request p t k m))) \<and>
   (extractResponse openai data = Inr (text, u) \<longrightarrow>
      (\<exists>usg. data_usage data = Some usg \<and> inputTokens u = prompt_tokens usg \<and>
             outputTokens u = completion_tokens usg)) \<and>
   (extractResponse anthropic data = Inr (text, u) \<longrightarrow>
      (\<exists>usg. data_usage data = Some usg \<and> inputTokens u = input_tokens usg \<and>
             outputTokens u = output_tokens usg)) \<and>
   (extractResponse gemini data = Inr (text, u) \<longrightarrow>
      or_0 (inputTokens u) =
        (case data_usageMetadata data of None \<Rightarrow> 0 | Some usg \<Rightarrow> or_0 (promptTokenCount usg)) \<and>
      or_0 (outputTokens u) =
        (case data_usageMetadata data of None \<Rightarrow> 0
         | Some usg \<Rightarrow> or_0 (candidatesTokenCount usg))) \<and>
   or_0 None = 0 \<and>
   updateTokenCounts (Some \<lparr> inputTokens = Some 20, outputTokens = Some 15 \<rparr>)
     (updateTokenCounts (Some \<lparr> inputTokens = Some 10, outputTokens = Some 5 \<rparr>)
        tokenCounts_initial) = \<lparr> input' = 30, output' = 20 \<rparr> \<and>
   (readAndValidateSettings sheet = Inr s \<and> getAPIKey sheet (model s) = Inr apiKey \<and>
    MODELS (model s) = Own entry \<longrightarrow>
      (\<exists>p as c.
         modelType (if use_cheap s then cheap entry else standard entry) = Inr p \<and>
         length as = length (topTerms s) \<and> (\<forall>a \<in> set as. 1 \<le> a \<and> a \<le> MAX_RETRIES) \<and>
         requests (calls (last_state (main E sheet))) =
           requests_of p apiKey (if use_cheap s then cheap entry else standard entry)
             (topTerms s) as \<and>
         length (slept (last_state (main E sheet))) = sum_list (map (\<lambda>a. a - 1) as) \<and>
         ((\<forall>t \<in> set (topTerms s). \<forall>c. \<not> isl (fst (classifyTerm E t apiKey
              (if use_cheap s then cheap entry else standard entry) c))) \<longrightarrow>
            as = replicate (length (topTerms s)) 1) \<and>
         tokenCounts (calls (last_state (main E sheet))) =
           total_reported E p 0 (requests (calls (last_state (main E sheet)))) \<and>
         logCosts s (tokenCounts (calls (last_state (main E sheet)))) = Inr c \<and>
         costs_logged (main E sheet) = Some c \<and> logs_tab (main E sheet) = [])) \<and>
   (costs_logged (main E sheet) = Some c \<longrightarrow>
      (\<exists>s. readAndValidateSettings sheet = Inr s \<and>
           logCosts s (tokenCounts (calls (last_state (main E sheet)))) = Inr c)) \<and>
   (MODELS (model s) = Own entry \<longrightarrow>
      (\<exists>c. logCosts s tokens = Inr c \<and> logged_tokens c = tokens \<and>
         inputCost c =
           fl_mul (fl_div (Num (fl (real (input' tokens)))) (Num (Fin 1000000)))
             (Num (fl (input' (if use_cheap s then costs_cheap entry else costs_standard entry)))) \<and>
         outputCost c =
           fl_mul (fl_div (Num (fl (real (output' tokens)))) (Num (Fin 1000000)))
             (Num (fl (output' (if use_cheap s then costs_cheap entry else costs_standard entry)))) \<and>
         totalCost c = fl_add (inputCost c) (outputCost c))) \<and>
   (MODELS (model s) = Own entry \<and> input' tokens < 2 ^ 53 \<and> output' tokens < 2 ^ 53 \<longrightarrow>
      (\<exists>c y. logCosts s tokens = Inr c \<and> totalCost c = Num (Fin y) \<and>
         \<bar>y - exact_cost (if use_cheap s then costs_cheap entry else costs_standard entry) tokens\<bar>
           \<le> exact_cost (if use_cheap s then costs_cheap entry else costs_standard entry) tokens
               / 2 ^ 50))"
proof (intro conjI impI)
  show "tokenCounts (calls initial_state) = \<lparr> input' = 0, output' = 0 \<rparr>"
    by (rule initial_requests)
next
  assume "classifyTerm E t k m st = (Inr r, ms, st')"
  from classifyTerm_success [OF this]
  show "\<exists>p response data text u.
         modelType m = Inr p \<and>
         fetch E (length (requests st)) (fetch_request p t k m) = (Inr response, ms) \<and>
         JSON_parse_data E (getContentText response) = Inr data \<and>
         extractResponse p data = Inr (text, u) \<and>
         tokenCounts st' =
           \<lparr> input' = input' (tokenCounts st) + or_0 (inputTokens u),
             output' = output' (tokenCounts st) + or_0 (outputTokens u) \<rparr>"
    by fastforce
next
  assume mt: "modelType m = Inr p"
  show "requests (snd (snd (classifyTerm E t k m st))) = requests st @ [fetch_request p t k m]"
    by (rule classifyTerm_accounts [OF mt])
  show "tokenCounts (snd (snd (classifyTerm E t k m st))) =
        add_counts (tokenCounts st)
          (reported E p (length (requests st)) (fetch_request p t k m))"
    by (rule classifyTerm_accounts [OF mt])
next
  show "updateTokenCounts (Some \<lparr> inputTokens = Some 20, outputTokens = Some 15 \<rparr>)
     (updateTokenCounts (Some \<lparr> inputTokens = Some 10, outputTokens = Some 5 \<rparr>)
        tokenCounts_initial) = \<lparr> input' = 30, output' = 20 \<rparr>"
    by (rule updateTokenCounts_twice)
next
  assume "readAndValidateSettings sheet = Inr s \<and> getAPIKey sheet (model s) = Inr apiKey \<and>
    MODELS (model s) = Own entry"
  then have a: "readAndValidateSettings sheet = Inr s" "getAPIKey sheet (model s) = Inr apiKey"
    "MODELS (model s) = Own entry" by blast+
  show "\<exists>p as c.
         modelType (if use_cheap s then cheap entry else standard entry) = Inr p \<and>
         length as = length (topTerms s) \<and> (\<forall>a \<in> set as. 1 \<le> a \<and> a \<le> MAX_RETRIES) \<and>
         requests (calls (last_state (main E sheet))) =
           requests_of p apiKey (if use_cheap s then cheap entry else standard entry)
             (topTerms s) as \<and>
         length (slept (last_state (main E sheet))) = sum_list (map (\<lambda>a. a - 1) as) \<and>
         ((\<forall>t \<in> set (topTerms s). \<forall>c. \<not> isl (fst (classifyTerm E t apiKey
              (if use_cheap s then cheap entry else standard entry) c))) \<longrightarrow>
            as = replicate (length (topTerms s)) 1) \<and>
         tokenCounts (calls (last_state (main E sheet))) =
           total_reported E p 0 (requests (calls (last_state (main E sheet)))) \<and>
         logCosts s (tokenCounts (calls (last_state (main E sheet)))) = Inr c \<and>
         costs_logged (main E sheet) = Some c \<and> logs_tab (main E sheet) = []"
    by (rule main_accounts [OF a])
next
  assume "costs_logged (main E sheet) = Some c"
  then show "\<exists>s. readAndValidateSettings sheet = Inr s \<and>
           logCosts s (tokenCounts (calls (last_state (main E sheet)))) = Inr c"
    by (rule main_costs)
next
  assume "MODELS (model s) = Own entry"
  then show "\<exists>c. logCosts s tokens = Inr c \<and> logged_tokens c = tokens \<and>
         inputCost c =
           fl_mul (fl_div (Num (fl (real (input' tokens)))) (Num (Fin 1000000)))
             (Num (fl (input' (if use_cheap s then costs_cheap entry else costs_standard entry)))) \<and>
         outputCost c =
           fl_mul (fl_div (Num (fl (real (output' tokens)))) (Num (Fin 1000000)))
             (Num (fl (output' (if use_cheap s then costs_cheap entry else costs_standard entry)))) \<and>
         totalCost c = fl_add (inputCost c) (outputCost c)"
    by (rule logCosts_Own)
next
  assume "MODELS (model s) = Own entry \<and> input' tokens < 2 ^ 53 \<and> output' tokens < 2 ^ 53"
  then have a: "MODELS (model s) = Own entry" "input' tokens < 2 ^ 53" "output' tokens < 2 ^ 53"
    by blast+
  show "\<exists>c y. logCosts s tokens = Inr c \<and> totalCost c = Num (Fin y) \<and>
         \<bar>y - exact_cost (if use_cheap s then costs_cheap entry else costs_standard entry) tokens\<bar>
           \<le> exact_cost (if use_cheap s then costs_cheap entry else costs_standard entry) tokens
               / 2 ^ 50"
    by (rule logCosts_accurate [OF a])
qed (simp_all add: extractResponse_reads)


theorem token_accounting_witness:
  "tokenCounts (snd (snd (classifyTerm env_two_usages ''best running shoes'' ''sk-123''
      ''o4-mini-2025-04-16'' (calls initial_state)))) = \<lparr> input' = 10, output' = 5 \<rparr> \<and>
   tokenCounts (snd (snd (classifyTerm env_two_usages ''trail shoes'' ''sk-123''
      ''o4-mini-2025-04-16''
      (snd (snd (classifyTerm env_two_usages ''best running shoes'' ''sk-123''
         ''o4-mini-2025-04-16'' (calls initial_state))))))) = \<lparr> input' = 30, output' = 20 \<rparr> \<and>
   (\<exists>p response data text u.
      modelType ''o4-mini-2025-04-16'' = Inr p \<and>
      fetch env_two_usages 0 (fetch_request p ''best running shoes'' ''sk-123''
        ''o4-mini-2025-04-16'') = (Inr response, 900) \<and>
      JSON_parse_data env_two_usages (getContentText response) = Inr data \<and>
      extractResponse p data = Inr (text, u) \<and>
      or_0 (inputTokens u) = 10 \<and> or_0 (outputTokens u) = 5) \<and>
   prompt_tokens (the (data_usage (chat_data answer_plain 10 5))) = Some 10 \<and>
   completion_tokens (the (data_usage (chat_data answer_plain 10 5))) = Some 5 \<and>
   input_tokens (the (data_usage claude_data)) = Some 12 \<and>
   output_tokens (the (data_usage claude_data)) = None \<and>
   or_0 (output_tokens (the (data_usage claude_data))) = 0 \<and>
   (\<exists>text u. extractResponse gemini gemini_data = Inr (text, u) \<and>
      or_0 (inputTokens u) = 0 \<and> or_0 (outputTokens u) = 0) \<and>
   requests (calls (last_state (main env_two_usages two_terms_sheet))) =
     [fetch_request openai ''best running shoes'' ''sk-123'' ''o4-mini-2025-04-16'',
      fetch_request openai ''trail shoes'' ''sk-123'' ''o4-mini-2025-04-16''] \<and>
   slept (last_state (main env_two_usages two_terms_sheet)) = [] \<and>
   tokenCounts (calls (last_state (main env_two_usages two_terms_sheet))) =
     \<lparr> input' = 30, output' = 20 \<rparr> \<and>
   costs_logged (main env_two_usages two_terms_sheet) =
     Some \<lparr> logged_tokens = \<lparr> input' = 30, output' = 20 \<rparr>,
            inputCost = Num (Fin (2434970217729661 / 2 ^ 66)),
            outputCost = Num (Fin (6493253913945763 / 2 ^ 66)),
            totalCost = Num (Fin (279007004114857 / 2 ^ 61)) \<rparr> \<and>
   logs_tab (main env_two_usages two_terms_sheet) = [] \<and>
   (\<exists>s. readAndValidateSettings two_terms_sheet = Inr s \<and>
      logCosts s (tokenCounts (calls (last_state (main env_two_usages two_terms_sheet)))) =
        Inr \<lparr> logged_tokens = \<lparr> input' = 30, output' = 20 \<rparr>,
              inputCost = Num (Fin (2434970217729661 / 2 ^ 66)),
              outputCost = Num (Fin (6493253913945763 / 2 ^ 66)),
              totalCost = Num (Fin (279007004114857 / 2 ^ 61)) \<rparr>) \<and>
   (\<exists>c. logCosts two_terms_settings \<lparr> input' = 30, output' = 20 \<rparr> = Inr c \<and>
      totalCost c = fl_add (inputCost c) (outputCost c)) \<and>
   exact_cost \<lparr> input' = 1.10, output' = 4.40 \<rparr> \<lparr> input' = 30, output' = 20 \<rparr> = 121 / 1000000 \<and>
   \<bar>279007004114857 / 2 ^ 61 -
      exact_cost \<lparr> input' = 1.10, output' = 4.40 \<rparr> \<lparr> input' = 30, output' = 20 \<rparr>\<bar>
     \<le> exact_cost \<lparr> input' = 1.10, output' = 4.40 \<rparr> \<lparr> input' = 30, output' = 20 \<rparr> / 2 ^ 50"
proof -
  let ?E = "env_two_usages" and ?v = "''o4-mini-2025-04-16''"
  let ?R = "main env_two_usages two_terms_sheet"
  let ?entry = "\<lparr> standard = ''gpt-4-1106-preview'', cheap = ''o4-mini-2025-04-16'',
             costs_standard = \<lparr> input' = 2.0, output' = 8.0 \<rparr>,
             costs_cheap = \<lparr> input' = 1.10, output' = 4.40 \<rparr> \<rparr>"
  let ?r1 = "fetch_request openai ''best running shoes'' ''sk-123'' ?v"
  let ?r2 = "fetch_request openai ''trail shoes'' ''sk-123'' ?v"
  let ?c1 = "snd (snd (classifyTerm ?E ''best running shoes'' ''sk-123'' ?v (calls initial_state)))"
  let ?log = "\<lparr> logged_tokens = \<lparr> input' = 30, output' = 20 \<rparr>,
            inputCost = Num (Fin (2434970217729661 / 2 ^ 66)),
            outputCost = Num (Fin (6493253913945763 / 2 ^ 66)),
            totalCost = Num (Fin (279007004114857 / 2 ^ 61)) \<rparr>"
  note T = token_accounting [where E = ?E and sheet = two_terms_sheet and s = two_terms_settings
      and apiKey = "''sk-123''" and entry = ?entry and tokens = "\<lparr> input' = 30, output' = 20 \<rparr>"
      and k = "''sk-123''" and m = ?v and p = openai]
  note T1 = T [where t = "''best running shoes''" and st = "calls initial_state"]
  note T2 = T [where t = "''trail shoes''" and st = ?c1]
  have own: "MODELS (model two_terms_settings) = Own ?entry"
    by (simp add: two_terms_settings_def MODELS_openai)
  have key: "getAPIKey two_terms_sheet (model two_terms_settings) = Inr ''sk-123''"
    by (simp add: two_terms_settings_def getAPIKey_two_terms)
  from readAndValidateSettings_two_terms key own
  have valid: "readAndValidateSettings two_terms_sheet = Inr two_terms_settings \<and>
      getAPIKey two_terms_sheet (model two_terms_settings) = Inr ''sk-123'' \<and>
      MODELS (model two_terms_settings) = Own ?entry"
    by (intro conjI)
  have version: "(if use_cheap two_terms_settings then cheap ?entry else standard ?entry) = ?v"
    "(if use_cheap two_terms_settings then costs_cheap ?entry else costs_standard ?entry) =
       \<lparr> input' = 1.10, output' = 4.40 \<rparr>"
    "topTerms two_terms_settings = [''best running shoes'', ''trail shoes'']"
    by (simp_all add: two_terms_settings_def)
  note call1 = T1 [THEN conjunct2, THEN conjunct2, THEN conjunct1, THEN mp, OF modelType_o4]
  have a: "tokenCounts ?c1 = \<lparr> input' = 10, output' = 5 \<rparr>"
    using call1 [THEN conjunct2]
    by (simp add: initial_requests reported_two_usages add_counts_def)
  have r1: "requests ?c1 = [?r1]"
    using call1 [THEN conjunct1] by (simp add: initial_requests)
  note call2 = T2 [THEN conjunct2, THEN conjunct2, THEN conjunct1, THEN mp, OF modelType_o4]
  have a2: "tokenCounts (snd (snd (classifyTerm ?E ''trail shoes'' ''sk-123'' ?v ?c1))) =
      \<lparr> input' = 30, output' = 20 \<rparr>"
    using call2 [THEN conjunct2] by (simp add: a r1 reported_two_usages add_counts_def)
  have ret: "classifyTerm ?E ''best running shoes'' ''sk-123'' ?v (calls initial_state) =
      (Inr parsed_plain, 900, ?c1)"
    by (simp add: classifyTerm_two_usages)
  from T1 [where r = parsed_plain and ms = 900 and st' = ?c1,
      THEN conjunct2, THEN conjunct1, THEN mp, OF ret]
  obtain p response data tx u where
    "modelType ?v = Inr p"
    "fetch ?E (length (requests (calls initial_state)))
       (fetch_request p ''best running shoes'' ''sk-123'' ?v) = (Inr response, 900)"
    "JSON_parse_data ?E (getContentText response) = Inr data"
    "extractResponse p data = Inr (tx, u)"
    "tokenCounts ?c1 =
       \<lparr> input' = input' (tokenCounts (calls initial_state)) + or_0 (inputTokens u),
         output' = output' (tokenCounts (calls initial_state)) + or_0 (outputTokens u) \<rparr>"
    by blast
  then have b: "\<exists>p response data text u.
      modelType ?v = Inr p \<and>
      fetch ?E 0 (fetch_request p ''best running shoes'' ''sk-123'' ?v) = (Inr response, 900) \<and>
      JSON_parse_data ?E (getContentText response) = Inr data \<and>
      extractResponse p data = Inr (text, u) \<and>
      or_0 (inputTokens u) = 10 \<and> or_0 (outputTokens u) = 5"
    by (simp add: a initial_requests)
  from token_accounting [where data = "chat_data answer_plain 10 5",
      THEN conjunct2, THEN conjunct2, THEN conjunct2, THEN conjunct1, THEN mp,
      OF extractResponse_examples(1)]
  have c: "prompt_tokens (the (data_usage (chat_data answer_plain 10 5))) = Some 10"
    "completion_tokens (the (data_usage (chat_data answer_plain 10 5))) = Some 5"
    by auto
  from token_accounting [where data = claude_data,
      THEN conjunct2, THEN conjunct2, THEN conjunct2, THEN conjunct2, THEN conjunct1, THEN mp,
      OF extractResponse_examples(2)]
  have d: "input_tokens (the (data_usage claude_data)) = Some 12"
    "output_tokens (the (data_usage claude_data)) = None"
    "or_0 (output_tokens (the (data_usage claude_data))) = 0"
    by auto
  from token_accounting [where data = gemini_data,
      THEN conjunct2, THEN conjunct2, THEN conjunct2, THEN conjunct2, THEN conjunct2,
      THEN conjunct1, THEN mp, OF extractResponse_examples(3)]
  have e: "\<exists>text u. extractResponse gemini gemini_data = Inr (text, u) \<and>
      or_0 (inputTokens u) = 0 \<and> or_0 (outputTokens u) = 0"
    using extractResponse_examples(3) by simp
  from T1 [THEN conjunct2, THEN conjunct2, THEN conjunct2, THEN conjunct2, THEN conjunct2,
      THEN conjunct2, THEN conjunct2, THEN conjunct2, THEN conjunct1, THEN mp, OF valid]
  obtain p as c where run:
    "modelType (if use_cheap two_terms_settings then cheap ?entry else standard ?entry) = Inr p"
    "requests (calls (last_state ?R)) =
       requests_of p ''sk-123'' (if use_cheap two_terms_settings then cheap ?entry else standard ?entry)
         (topTerms two_terms_settings) as"
    "length (slept (last_state ?R)) = sum_list (map (\<lambda>a. a - 1) as)"
    "(\<forall>t \<in> set (topTerms two_terms_settings). \<forall>c. \<not> isl (fst (classifyTerm ?E t ''sk-123''
          (if use_cheap two_terms_settings then cheap ?entry else standard ?entry) c))) \<longrightarrow>
        as = replicate (length (topTerms two_terms_settings)) 1"
    "tokenCounts (calls (last_state ?R)) = total_reported ?E p 0 (requests (calls (last_state ?R)))"
    "logCosts two_terms_settings (tokenCounts (calls (last_state ?R))) = Inr c"
    "costs_logged ?R = Some c" "logs_tab ?R = []"
    by blast
  from run(1) have p: "p = openai" by (simp add: version modelType_o4)
  from run(4) two_terms_all_return have "as = replicate (length (topTerms two_terms_settings)) 1"
    by (rule mp)
  then have as: "as = [1, 1]" by (simp add: version)
  have f: "requests (calls (last_state ?R)) = [?r1, ?r2]"
    by (simp add: run(2) p as version requests_of_def)
  have g: "slept (last_state ?R) = []"
    using run(3) by (simp add: as)
  have h: "tokenCounts (calls (last_state ?R)) = \<lparr> input' = 30, output' = 20 \<rparr>"
    by (simp add: run(5) f p reported_two_usages add_counts_def)
  have i: "costs_logged ?R = Some ?log"
    using run(6) by (simp add: run(7) h logCosts_two_terms)
  from T1 [where c = ?log, THEN conjunct2, THEN conjunct2, THEN conjunct2, THEN conjunct2,
      THEN conjunct2, THEN conjunct2, THEN conjunct2, THEN conjunct2, THEN conjunct2,
      THEN conjunct1, THEN mp, OF i]
  have j: "\<exists>s. readAndValidateSettings two_terms_sheet = Inr s \<and>
      logCosts s (tokenCounts (calls (last_state ?R))) = Inr ?log" .
  have k: "exact_cost \<lparr> input' = 1.10, output' = 4.40 \<rparr> \<lparr> input' = 30, output' = 20 \<rparr> =
      121 / 1000000"
    by (simp add: exact_cost_def)
  have "input' \<lparr> input' = 30, output' = 20 :: nat \<rparr> < 2 ^ 53"
    "output' \<lparr> input' = 30, output' = 20 :: nat \<rparr> < 2 ^ 53"
    by simp_all
  with own have small: "MODELS (model two_terms_settings) = Own ?entry \<and>
      input' \<lparr> input' = 30, output' = 20 :: nat \<rparr> < 2 ^ 53 \<and>
      output' \<lparr> input' = 30, output' = 20 :: nat \<rparr> < 2 ^ 53"
    by (intro conjI)
  from T1 [THEN conjunct2, THEN conjunct2, THEN conjunct2, THEN conjunct2, THEN conjunct2,
      THEN conjunct2, THEN conjunct2, THEN conjunct2, THEN conjunct2, THEN conjunct2,
      THEN conjunct1, THEN mp, OF own]
  have formula: "\<exists>c. logCosts two_terms_settings \<lparr> input' = 30, output' = 20 \<rparr> = Inr c \<and>
      totalCost c = fl_add (inputCost c) (outputCost c)"
    by blast
  from T1 [THEN conjunct2, THEN conjunct2, THEN conjunct2, THEN conjunct2, THEN conjunct2,
      THEN conjunct2, THEN conjunct2, THEN conjunct2, THEN conjunct2, THEN conjunct2,
      THEN conjunct2, THEN mp, OF small]
  obtain c' y where acc: "logCosts two_terms_settings \<lparr> input' = 30, output' = 20 \<rparr> = Inr c'"
    "totalCost c' = Num (Fin y)"
    "\<bar>y - exact_cost (if use_cheap two_terms_settings then costs_cheap ?entry
                       else costs_standard ?entry) \<lparr> input' = 30, output' = 20 \<rparr>\<bar>
       \<le> exact_cost (if use_cheap two_terms_settings then costs_cheap ?entry
                       else costs_standard ?entry) \<lparr> input' = 30, output' = 20 \<rparr> / 2 ^ 50"
    by blast
  from acc(1,2) have "y = 279007004114857 / 2 ^ 61"
    by (auto simp: logCosts_two_terms)
  with acc(3) have l: "\<bar>279007004114857 / 2 ^ 61 -
      exact_cost \<lparr> input' = 1.10, output' = 4.40 \<rparr> \<lparr> input' = 30, output' = 20 \<rparr>\<bar>
     \<le> exact_cost \<lparr> input' = 1.10, output' = 4.40 \<rparr> \<lparr> input' = 30, output' = 20 \<rparr> / 2 ^ 50"
    by (simp only: version)
  from a a2 b c d e f g h i run(8) j formula k l show ?thesis by (intro conjI)
qed

section \<open>Claims about the price table and the requests\<close>

lemma logCosts_known: "MODELS (model s) = Own entry \<Longrightarrow> \<not> isl (logCosts s tokens)"
  by (simp add: logCosts_def Let_def)

lemma main_invalid_settings:
  "readAndValidateSettings sheet = Inl e \<Longrightarrow>
   main E sheet =
     \<lparr> results_tab = None, logs_tab = [toString e], costs_logged = None,
       last_state = initial_state \<rparr>"
  by (simp add: main_def handleError_def)

lemma readAndValidateSettings_invalid_model:
  "range_value sheet ''model'' = Some m \<Longrightarrow> range_value sheet ''cheap'' = Some c \<Longrightarrow>
   range_values sheet ''topTerms'' = Some cells \<Longrightarrow>
   MODELS (if toLowerCase m = ''google'' then ''gemini'' else toLowerCase m) = Missing \<Longrightarrow>
   readAndValidateSettings sheet = Inl (Error ''Invalid model'')"
  by (auto simp: readAndValidateSettings_def Let_def split: if_splits)

lemma main_estimate:
  assumes "readAndValidateSettings sheet = Inr s" "getAPIKey sheet (model s) = Inr k"
    "MODELS (model s) = Own entry"
  shows "\<exists>c. costs_logged (main E sheet) = Some c \<and> logs_tab (main E sheet) = []"
proof -
  have known: "MODELS (model s) \<noteq> Missing" using assms(3) by simp
  from classifyTerms_with_all [OF known MAX_RETRIES_pos,
      of "getClassifierFunction E (model s)" k initial_state]
  obtain rs st' where
    ct: "classifyTerms E s k initial_state = Inr (map Some rs, st')"
    unfolding classifyTerms_def by blast
  from logCosts_Own [OF assms(3), of "tokenCounts (calls st')"]
  obtain c where c: "logCosts s (tokenCounts (calls st')) = Inr c" by blast
  have "main E sheet =
      \<lparr> results_tab = Some (results_header # map result_row rs), logs_tab = [],
        costs_logged = Some c, last_state = st' \<rparr>"
    by (simp add: main_def assms(1,2) ct outputResults_Some c)
  then show ?thesis by simp
qed

lemma MODELS_Missing_iff:
  "(MODELS name = Missing) =
     (name \<notin> {''openai'', ''anthropic'', ''gemini'', ''constructor'', ''__proto__''})"
  by (simp add: MODELS_def)

lemma MODELS_Own_iff:
  "(\<exists>entry. MODELS name = Own entry) = (name \<in> {''openai'', ''anthropic'', ''gemini''})"
  by (simp add: MODELS_def)

lemma readAndValidateSettings_constructor:
  "readAndValidateSettings constructor_sheet = Inr constructor_settings"
  by code_simp

lemma getAPIKey_constructor: "getAPIKey constructor_sheet ''constructor'' = Inr ''sk-123''"
  by code_simp

lemma state_after_undefined:
  "state_after (getClassifierFunction E m) t k None j c = c"
  by (induction j) (simp_all add: getClassifierFunction_def)

lemma outcome_undefined:
  "outcome (getClassifierFunction E m) t k None j c =
     Inl (TypeError ''Cannot read properties of undefined (reading includes)'')"
  by (simp add: outcome_def state_after_undefined getClassifierFunction_def)

lemma attempts_undefined:
  "attempts (getClassifierFunction E m) MAX_RETRIES t k None 0 st =
     (Some \<lparr> category = Str ''ERROR'', confidence = Number (Fin 0), term' = Str t,
             duration = Undefined,
             error = Str ''TypeError: Cannot read properties of undefined (reading includes)'' \<rparr>,
      st\<lparr> slept := slept st @ [1000, 2000] \<rparr>)"
  by (subst attempts_all_fail)
    (simp_all add: MAX_RETRIES_def outcome_undefined state_after_undefined toString_def backoff_0_2)

lemma main_constructor:
  "main E constructor_sheet =
     \<lparr> results_tab = Some [results_header,
         [Str ''best running shoes'', Str ''ERROR'', Str [], Str [],
          Str ''TypeError: Cannot read properties of undefined (reading includes)''],
         [Str ''shoe shop near me'', Str ''ERROR'', Str [], Str [],
          Str ''TypeError: Cannot read properties of undefined (reading includes)''],
         [Str ''trail shoes'', Str ''ERROR'', Str [], Str [],
          Str ''TypeError: Cannot read properties of undefined (reading includes)'']],
       logs_tab = [''TypeError: Cannot read properties of undefined (reading standard)''],
       costs_logged = None,
       last_state = initial_state\<lparr> slept := [1000, 2000, 1000, 2000, 1000, 2000] \<rparr> \<rparr>"
  by (simp add: main_def readAndValidateSettings_constructor constructor_settings_def
      example_settings_def getAPIKey_constructor classifyTerms_def classifyTerms_with_def
      MODELS_def attempts_undefined outputResults_def result_row_def js_or_def logCosts_def
      handleError_def toString_def initial_state_def)

lemma toLowerCase_Mistral: "toLowerCase ''Mistral'' = ''mistral''"
  by code_simp

lemma mistral_sheet_ranges:
  "range_value mistral_sheet ''model'' = Some ''Mistral'' \<and>
   range_value mistral_sheet ''cheap'' = Some ''FALSE'' \<and>
   range_values mistral_sheet ''topTerms'' =
     Some [''best running shoes'', ''shoe shop near me'', [], ''trail shoes''] \<and>
   MODELS (if toLowerCase ''Mistral'' = ''google'' then ''gemini'' else toLowerCase ''Mistral'') =
     Missing"
  by (simp add: mistral_sheet_def example_sheet_def toLowerCase_Mistral MODELS_def)

text \<open>
  C7, as the claim states it, fails. The claim: for a provider and tier that the price
  table does not have, cost estimation yields a warning and a zero estimate rather than
  failing the run, and it raises no error for any provider. A run with the provider
  \<open>Mistral\<close> ends at \<open>readAndValidateSettings\<close> with the error \<open>Invalid model\<close> in the
  tab Logs, with no results and no estimate. The provider name \<open>Constructor\<close> passes
  that test, because the lookup \<open>MODELS['constructor']\<close> finds what every object
  inherits: the run reaches \<open>logCosts\<close> after the tab Results was written, and
  \<open>logCosts\<close>, which reads \<open>MODELS[settings.model].costs\<close> without a guard, throws a
  TypeError; the tab Logs gets that error and no estimate is logged.
\<close>

theorem logCosts_unknown_provider_counterexample:
  "main (env_after 0 answer_plain parsed_plain) mistral_sheet =
     \<lparr> results_tab = None, logs_tab = [''Error: Invalid model''], costs_logged = None,
       last_state = initial_state \<rparr> \<and>
   readAndValidateSettings constructor_sheet = Inr constructor_settings \<and>
   logCosts constructor_settings \<lparr> input' = 0, output' = 0 \<rparr> =
     Inl (TypeError ''Cannot read properties of undefined (reading standard)'') \<and>
   main (env_after 0 answer_plain parsed_plain) constructor_sheet =
     \<lparr> results_tab = Some [results_header,
         [Str ''best running shoes'', Str ''ERROR'', Str [], Str [],
          Str ''TypeError: Cannot read properties of undefined (reading includes)''],
         [Str ''shoe shop near me'', Str ''ERROR'', Str [], Str [],
          Str ''TypeError: Cannot read properties of undefined (reading includes)''],
         [Str ''trail shoes'', Str ''ERROR'', Str [], Str [],
          Str ''TypeError: Cannot read properties of undefined (reading includes)'']],
       logs_tab = [''TypeError: Cannot read properties of undefined (reading standard)''],
       costs_logged = None,
       last_state = initial_state\<lparr> slept := [1000, 2000, 1000, 2000, 1000, 2000] \<rparr> \<rparr>"
  by (simp add: main_invalid_settings [OF readAndValidateSettings_mistral] toString_def
      readAndValidateSettings_constructor main_constructor logCosts_def
      constructor_settings_def example_settings_def MODELS_def)

text \<open>
  C7, amended. For each provider of the price table (\<open>openai\<close>, \<open>anthropic\<close>, \<open>gemini\<close>)
  and either tier, cost estimation raises no error, and a run with valid settings and a
  key logs an estimate and no error. A provider name for which the lookup in the table
  finds nothing (every name but these three, \<open>constructor\<close> and \<open>__proto__\<close>) gets no
  warning and no zero estimate: \<open>readAndValidateSettings\<close> throws \<open>Invalid model\<close>, no
  settings that it returns carry such a name, and a run whose settings are rejected
  ends with the error in the tab Logs, with no results and no estimate.
\<close>

theorem logCosts_price_table:
  "(MODELS (model s) = Own entry \<longrightarrow> \<not> isl (logCosts s tokens)) \<and>
   (readAndValidateSettings sheet = Inr s \<and> getAPIKey sheet (model s) = Inr apiKey \<and>
    MODELS (model s) = Own entry \<longrightarrow>
      (\<exists>c. costs_logged (main E sheet) = Some c \<and> logs_tab (main E sheet) = [])) \<and>
   (\<exists>entry. MODELS name = Own entry) = (name \<in> {''openai'', ''anthropic'', ''gemini''}) \<and>
   (MODELS name = Missing) =
     (name \<notin> {''openai'', ''anthropic'', ''gemini'', ''constructor'', ''__proto__''}) \<and>
   (readAndValidateSettings sheet = Inr s \<longrightarrow> MODELS (model s) \<noteq> Missing) \<and>
   (range_value sheet ''model'' = Some m \<and> range_value sheet ''cheap'' = Some c \<and>
    range_values sheet ''topTerms'' = Some cells \<and>
    MODELS (if toLowerCase m = ''google'' then ''gemini'' else toLowerCase m) = Missing \<longrightarrow>
      readAndValidateSettings sheet = Inl (Error ''Invalid model'')) \<and>
   (readAndValidateSettings sheet = Inl e \<longrightarrow>
      main E sheet =
        \<lparr> results_tab = None, logs_tab = [toString e], costs_logged = None,
          last_state = initial_state \<rparr>)"
proof (intro conjI impI)
  assume "MODELS (model s) = Own entry"
  then show "\<not> isl (logCosts s tokens)" by (rule logCosts_known)
next
  assume "readAndValidateSettings sheet = Inr s \<and> getAPIKey sheet (model s) = Inr apiKey \<and>
    MODELS (model s) = Own entry"
  then have a: "readAndValidateSettings sheet = Inr s" "getAPIKey sheet (model s) = Inr apiKey"
    "MODELS (model s) = Own entry" by blast+
  show "\<exists>c. costs_logged (main E sheet) = Some c \<and> logs_tab (main E sheet) = []"
    by (rule main_estimate [OF a])
next
  show "(\<exists>entry. MODELS name = Own entry) = (name \<in> {''openai'', ''anthropic'', ''gemini''})"
    by (rule MODELS_Own_iff)
next
  show "(MODELS name = Missing) =
     (name \<notin> {''openai'', ''anthropic'', ''gemini'', ''constructor'', ''__proto__''})"
    by (rule MODELS_Missing_iff)
next
  assume "readAndValidateSettings sheet = Inr s"
  then show "MODELS (model s) \<noteq> Missing" by (rule readAndValidateSettings_known)
next
  assume "range_value sheet ''model'' = Some m \<and> range_value sheet ''cheap'' = Some c \<and>
    range_values sheet ''topTerms'' = Some cells \<and>
    MODELS (if toLowerCase m = ''google'' then ''gemini'' else toLowerCase m) = Missing"
  then show "readAndValidateSettings sheet = Inl (Error ''Invalid model'')"
    using readAndValidateSettings_invalid_model [of sheet m c cells] by blast
next
  assume "readAndValidateSettings sheet = Inl e"
  then show "main E sheet =
        \<lparr> results_tab = None, logs_tab = [toString e], costs_logged = None,
          last_state = initial_state \<rparr>"
    by (rule main_invalid_settings)
qed

theorem logCosts_price_table_witness:
  "\<not> isl (logCosts example_settings \<lparr> input' = 30, output' = 20 \<rparr>) \<and>
   (\<exists>c. costs_logged (main (env_after 0 answer_plain parsed_plain) example_sheet) = Some c \<and>
        logs_tab (main (env_after 0 answer_plain parsed_plain) example_sheet) = []) \<and>
   MODELS (model example_settings) \<noteq> Missing \<and>
   MODELS ''mistral'' = Missing \<and>
   readAndValidateSettings mistral_sheet = Inl (Error ''Invalid model'') \<and>
   main (env_after 0 answer_plain parsed_plain) mistral_sheet =
     \<lparr> results_tab = None, logs_tab = [toString (Error ''Invalid model'')], costs_logged = None,
       last_state = initial_state \<rparr>"
proof -
  let ?entry = "\<lparr> standard = ''gpt-4-1106-preview'', cheap = ''o4-mini-2025-04-16'',
             costs_standard = \<lparr> input' = 2.0, output' = 8.0 \<rparr>,
             costs_cheap = \<lparr> input' = 1.10, output' = 4.40 \<rparr> \<rparr>"
  have own: "MODELS (model example_settings) = Own ?entry"
    by (simp add: example_settings_def MODELS_def)
  have key: "getAPIKey example_sheet (model example_settings) = Inr ''sk-123''"
    by (simp add: example_settings_def getAPIKey_example)
  from readAndValidateSettings_example key own
  have valid: "readAndValidateSettings example_sheet = Inr example_settings \<and>
      getAPIKey example_sheet (model example_settings) = Inr ''sk-123'' \<and>
      MODELS (model example_settings) = Own ?entry"
    by (intro conjI)
  note a = logCosts_price_table [where s = example_settings, THEN conjunct1, THEN mp, OF own]
  note b = logCosts_price_table [where s = example_settings and sheet = example_sheet,
      THEN conjunct2, THEN conjunct1, THEN mp, OF valid]
  note c = logCosts_price_table [where s = example_settings and sheet = example_sheet,
      THEN conjunct2, THEN conjunct2, THEN conjunct2, THEN conjunct2, THEN conjunct1, THEN mp,
      OF readAndValidateSettings_example]
  have d: "MODELS ''mistral'' = Missing"
    using logCosts_price_table [where name = "''mistral''", THEN conjunct2, THEN conjunct2,
      THEN conjunct2, THEN conjunct1] by simp
  note e = logCosts_price_table [where sheet = mistral_sheet,
      THEN conjunct2, THEN conjunct2, THEN conjunct2, THEN conjunct2, THEN conjunct2,
      THEN conjunct1, THEN mp, OF mistral_sheet_ranges]
  note f = logCosts_price_table [where sheet = mistral_sheet,
      THEN conjunct2, THEN conjunct2, THEN conjunct2, THEN conjunct2, THEN conjunct2,
      THEN conjunct2, THEN mp, OF e]
  from a b c d e f show ?thesis by (intro conjI)
qed

lemma classifyTerm_requests:
  "requests (snd (snd (classifyTerm E t k m st))) =
     (case modelType m of Inl e \<Rightarrow> requests st
      | Inr p \<Rightarrow> requests st @ [fetch_request p t k m])"
  by (simp add: classifyTerm_def Let_def
      split: sum.splits prod.splits option.splits jsval.splits)

text \<open>
  C8. A call of \<open>classifyTerm\<close> with a model of the table sends exactly one request,
  a POST. For OpenAI it carries the header \<open>Authorization: Bearer\<close> with the key and a
  message list; for Gemini the key is a query parameter of the URL, there are no extra
  headers, and the body is a list of content parts; for Anthropic the body is a
  message list and the headers hold the key as \<open>x-api-key\<close> and nothing else: the
  version header \<open>anthropic-version\<close>, which the claim requires, is not sent.
\<close>

theorem classifyTerm_request_authentication:
  "requests (snd (snd (classifyTerm E t apiKey m st))) =
     (case modelType m of Inl e \<Rightarrow> requests st
      | Inr p \<Rightarrow> requests st @ [fetch_request p t apiKey m]) \<and>
   method' (fetch_request p t apiKey m) = ''POST'' \<and>
   modelType ''gpt-4-1106-preview'' = Inr openai \<and>
   modelType ''o4-mini-2025-04-16'' = Inr openai \<and>
   modelType ''claude-3-7-sonnet-latest'' = Inr anthropic \<and>
   modelType ''claude-3-5-haiku-latest'' = Inr anthropic \<and>
   modelType ''gemini-2.5-pro-preview-03-25'' = Inr gemini \<and>
   modelType ''gemini-2.0-flash'' = Inr gemini \<and>
   request_url (fetch_request openai t apiKey m) = ''https://api.openai.com/v1/chat/completions'' \<and>
   request_headers (fetch_request openai t apiKey m) = [(''Authorization'', ''Bearer '' @ apiKey)] \<and>
   payload (fetch_request openai t apiKey m) =
     JObject [(''model'', JString m),
              (''messages'', JArray [JObject [(''role'', JString ''user''),
                 (''content'', JString (createClassificationPrompt t))]])] \<and>
   request_url (fetch_request gemini t apiKey m) =
     ''https://generativelanguage.googleapis.com/v1beta/models/'' @ m @ '':generateContent?key=''
       @ apiKey \<and>
   request_headers (fetch_request gemini t apiKey m) = [] \<and>
   payload (fetch_request gemini t apiKey m) =
     JObject [(''contents'', JArray [JObject [(''parts'',
                 JArray [JObject [(''text'', JString (createClassificationPrompt t))]])]]),
              (''generationConfig'', JObject [(''maxOutputTokens'', JNumber 500)])] \<and>
   request_url (fetch_request anthropic t apiKey m) = ''https://api.anthropic.com/v1/messages'' \<and>
   payload (fetch_request anthropic t apiKey m) =
     JObject [(''messages'', JArray [JObject [(''role'', JString ''user''),
                 (''content'', JString (createClassificationPrompt t))]]),
              (''model'', JString m), (''max_tokens'', JNumber 500)] \<and>
   request_headers (fetch_request anthropic t apiKey m) = [(''x-api-key'', apiKey)] \<and>
   map_of (request_headers (fetch_request anthropic t apiKey m)) ''anthropic-version'' = None"
  by (intro conjI)
    (simp_all add: classifyTerm_requests modelType_models fetch_request_def Let_def
      endpoints_def createPayload_def)

end
